(* ===== verification/Prelude.thy ===== *)
theory Prelude
  imports Complex_Main "HOL-Library.Word" "HOL-Library.Sublist" "HOL-Library.Multiset"
begin

text \<open>
  Shared vocabulary of the development: the Python primitives the sample programs use
  (bytearray items, indexing, slicing, \<open>int()\<close> on floats, \<open>round()\<close>, \<open>str.find\<close>),
  errors as values of \<open>py_error + 'a\<close>, and the generic lemmas on them that the component
  theories rely on. Floats are modelled as \<open>real\<close> (exact arithmetic); bytes of a
  \<open>bytearray\<close> as \<open>8 word\<close>.
\<close>

named_theorems py_simps "evaluation rules of the Python primitives on in-range arguments"

type_synonym u8 = "8 word"

text \<open>Byte values are read as \<open>unat b\<close> and then converted to \<open>real\<close> or \<open>int\<close>;
  keep that reading instead of the library's \<open>unsigned\<close> normal form.\<close>

declare of_nat_unat [simp del]

datatype py_error =
    ValueError
  | IndexError
  | ZeroDivisionError
  | OverflowError
  | AttributeError string
  | FileNotFoundError string
  | PyException string
  | MakoException string

type_synonym 'a res = "py_error + 'a"

text \<open>The SDK's \<open>FRect(x, y, dX, dY)\<close>, a rectangle given by its origin and extent.\<close>

record box =
  box_x :: real
  box_y :: real
  box_dX :: real
  box_dY :: real

text \<open>Sequencing of statements that may raise: the first exception propagates.\<close>

fun res_bind :: "'a res \<Rightarrow> ('a \<Rightarrow> 'b res) \<Rightarrow> 'b res" where
  "res_bind (Inl e) f = Inl e"
| "res_bind (Inr a) f = f a"

definition py_get :: "'a list \<Rightarrow> nat \<Rightarrow> 'a res" where
  "py_get xs i = (if i < length xs then Inr (xs ! i) else Inl IndexError)"

definition py_set :: "'a list \<Rightarrow> nat \<Rightarrow> 'a \<Rightarrow> 'a list res" where
  "py_set xs i v = (if i < length xs then Inr (xs[i := v]) else Inl IndexError)"

text \<open>\<open>xs[i:j]\<close> for non-negative bounds: clamped at the end of the list, never raising.\<close>

definition py_slice :: "'a list \<Rightarrow> nat \<Rightarrow> nat \<Rightarrow> 'a list" where
  "py_slice xs i j = drop i (take j xs)"

text \<open>Storing an integer into a \<open>bytearray\<close> item raises ValueError outside 0..255.\<close>

definition py_byte :: "int \<Rightarrow> u8 res" where
  "py_byte v = (if 0 \<le> v \<and> v \<le> 255 then Inr (word_of_int v) else Inl ValueError)"

text \<open>\<open>int(x)\<close> on a float truncates towards zero.\<close>

definition py_int :: "real \<Rightarrow> int" where
  "py_int x = (if 0 \<le> x then \<lfloor>x\<rfloor> else \<lceil>x\<rceil>)"

text \<open>\<open>round(x)\<close> on a float rounds half to even.\<close>

definition py_round :: "real \<Rightarrow> int" where
  "py_round x =
     (let f = \<lfloor>x\<rfloor>; d = x - of_int f in
      if d < 1/2 then f else if 1/2 < d then f + 1 else if even f then f else f + 1)"

text \<open>\<open>s.find(t)\<close>: the least index at which \<open>t\<close> occurs in \<open>s\<close>, or -1.\<close>

fun find_at :: "string \<Rightarrow> string \<Rightarrow> nat \<Rightarrow> int" where
  "find_at t [] i = (if t = [] then int i else -1)"
| "find_at t (c # s) i = (if prefix t (c # s) then int i else find_at t s (Suc i))"

definition py_find :: "string \<Rightarrow> string \<Rightarrow> int" where
  "py_find s t = find_at t s 0"

text \<open>\<open>bytearray(n)\<close>: \<open>n\<close> zero bytes; a negative count raises ValueError.\<close>

definition py_bytearray :: "int \<Rightarrow> u8 list res" where
  "py_bytearray n = (if n < 0 then Inl ValueError else Inr (replicate (nat n) 0))"

text \<open>The last index of a character in a string (\<open>str.rfind\<close> with None for -1).\<close>

fun rfind_at :: "char \<Rightarrow> string \<Rightarrow> nat \<Rightarrow> nat option \<Rightarrow> nat option" where
  "rfind_at c [] i r = r"
| "rfind_at c (d # s) i r = rfind_at c s (Suc i) (if d = c then Some i else r)"

definition py_rfind :: "char \<Rightarrow> string \<Rightarrow> nat option" where
  "py_rfind c s = rfind_at c s 0 None"

text \<open>\<open>posixpath.basename\<close>, \<open>posixpath.splitext(p)[0]\<close> and \<open>[1]\<close>, and
  \<open>posixpath.join(a, b)\<close>.
  \<open>splitext\<close> cuts at the last dot of the last component unless everything before that
  dot in the component is a dot (a leading-dot name such as \<open>.bashrc\<close> has no
  extension).\<close>

definition py_basename :: "string \<Rightarrow> string" where
  "py_basename p = (case py_rfind CHR ''/'' p of None \<Rightarrow> p | Some i \<Rightarrow> drop (Suc i) p)"

definition py_splitext_root :: "string \<Rightarrow> string" where
  "py_splitext_root p =
     (let start = (case py_rfind CHR ''/'' p of None \<Rightarrow> 0 | Some i \<Rightarrow> Suc i) in
      case py_rfind CHR ''.'' p of
        None \<Rightarrow> p
      | Some d \<Rightarrow> if start \<le> d \<and> list_ex (\<lambda>ch. ch \<noteq> CHR ''.'') (drop start (take d p))
                  then take d p else p)"

definition py_splitext_ext :: "string \<Rightarrow> string" where
  "py_splitext_ext p = drop (length (py_splitext_root p)) p"

definition py_join :: "string \<Rightarrow> string \<Rightarrow> string" where
  "py_join a b =
     (if take 1 b = ''/'' then b else if a = [] \<or> last a = CHR ''/'' then a @ b else a @ ''/'' @ b)"

text \<open>\<open>str.lower()\<close> on ASCII letters.\<close>

definition py_lower :: "string \<Rightarrow> string" where
  "py_lower s = map (\<lambda>c. let n = (of_char c :: nat) in if 65 \<le> n \<and> n \<le> 90 then char_of (n + 32) else c) s"

text \<open>\<open>s.split(sep)[-1]\<close>: the part after the last separator, or the whole string.\<close>

definition py_split_last :: "char \<Rightarrow> string \<Rightarrow> string" where
  "py_split_last sep s = rev (takeWhile (\<lambda>c. c \<noteq> sep) (rev s))"

text \<open>\<open>str(n)\<close> (and \<open>f"{n}"\<close>) of a non-negative integer: its decimal digits.\<close>

fun py_str_nat :: "nat \<Rightarrow> string" where
  "py_str_nat n = (if n < 10 then [char_of (48 + n)] else py_str_nat (n div 10) @ [char_of (48 + n mod 10)])"

declare py_str_nat.simps [simp del]

subsection \<open>Lemmas on the primitives\<close>

lemma res_bind_Inr_iff:
  "res_bind m f = Inr b \<longleftrightarrow> (\<exists>a. m = Inr a \<and> f a = Inr b)"
  by (cases m) auto

lemma res_bind_Inl_iff:
  "res_bind m f = Inl e \<longleftrightarrow> m = Inl e \<or> (\<exists>a. m = Inr a \<and> f a = Inl e)"
  by (cases m) auto

lemma py_get_ok [py_simps]: "i < length xs \<Longrightarrow> py_get xs i = Inr (xs ! i)"
  by (simp add: py_get_def)

lemma py_set_ok [py_simps]: "i < length xs \<Longrightarrow> py_set xs i v = Inr (xs[i := v])"
  by (simp add: py_set_def)

lemma py_byte_ok [py_simps]: "0 \<le> v \<Longrightarrow> v \<le> 255 \<Longrightarrow> py_byte v = Inr (word_of_int v)"
  by (simp add: py_byte_def)

lemma unat_byte_of_int:
  assumes "0 \<le> v" "v \<le> 255"
  shows "unat (word_of_int v :: u8) = nat v"
proof -
  have "v mod 256 = v" using assms by simp
  then show ?thesis by (simp add: unat_eq_nat_uint uint_word_of_int)
qed

lemma py_byte_Inr_iff:
  "py_byte v = Inr b \<longleftrightarrow> 0 \<le> v \<and> v \<le> 255 \<and> b = word_of_int v"
  by (auto simp: py_byte_def)

lemma py_int_nonneg [py_simps]: "0 \<le> x \<Longrightarrow> py_int x = \<lfloor>x\<rfloor>"
  by (simp add: py_int_def)

lemma py_int_bounds:
  assumes "0 \<le> x"
  shows "x - 1 < of_int (py_int x)" "of_int (py_int x) \<le> x"
  using assms by (simp_all add: py_int_def)

lemma unat_u8_le: "unat (b :: u8) \<le> 255"
proof -
  have "unat b < 2 ^ LENGTH(8)" by (rule unsigned_less)
  then show ?thesis by simp
qed

lemma py_round_nonneg: "0 \<le> x \<Longrightarrow> 0 \<le> py_round x"
  by (simp add: py_round_def Let_def)

lemma py_round_dist: "\<bar>of_int (py_round x) - x\<bar> \<le> 1/2"
proof -
  have "of_int \<lfloor>x\<rfloor> \<le> x" "x < of_int \<lfloor>x\<rfloor> + 1" by linarith+
  then show ?thesis by (auto simp: py_round_def Let_def)
qed

lemma map_upt_nth: "map (\<lambda>j. f (xs ! j)) [0..<length xs] = map f xs"
  by (rule nth_equalityI) simp_all

lemma map_upt_nth_pair:
  "map (\<lambda>j. (f (xs ! j), map g xs ! j)) [0..<length xs] = map (\<lambda>x. (f x, g x)) xs"
  by (rule nth_equalityI) simp_all

lemma py_slice_length: "length (py_slice xs i j) = min j (length xs) - i"
  by (simp add: py_slice_def)

lemma py_slice_in_range:
  "i \<le> j \<Longrightarrow> j \<le> length xs \<Longrightarrow> py_slice xs i j = take (j - i) (drop i xs)"
  by (simp add: py_slice_def take_drop)

lemma length_foldl_preserve:
  "(\<And>xs a. length (f xs a) = length xs) \<Longrightarrow> length (foldl f xs as) = length xs"
  by (induction as arbitrary: xs) simp_all

lemma length_foldl_update [simp]:
  "length (foldl (\<lambda>xs a. xs[g a := h a]) xs as) = length xs"
  by (induction as arbitrary: xs) simp_all

subsection \<open>\<open>str.find\<close> against the substring relation\<close>

lemma find_at_neg_or_ge: "find_at t s i = -1 \<or> int i \<le> find_at t s i"
  by (induction t s i rule: find_at.induct) auto

lemma find_at_found_iff: "0 \<le> find_at t s i \<longleftrightarrow> sublist t s"
proof (induction t s i rule: find_at.induct)
  case (1 t i)
  then show ?case by simp
next
  case (2 t c s i)
  show ?case
  proof (cases "prefix t (c # s)")
    case True
    then show ?thesis by (simp add: prefix_imp_sublist)
  next
    case False
    then show ?thesis using "2.IH" by (simp add: sublist_Cons_right)
  qed
qed

lemma py_find_found_iff: "0 \<le> py_find s t \<longleftrightarrow> sublist t s"
  by (simp add: py_find_def find_at_found_iff)

lemma find_at_occurs:
  "0 \<le> find_at t s i \<Longrightarrow> prefix t (drop (nat (find_at t s i) - i) s) \<and> i \<le> nat (find_at t s i)"
proof (induction t s i rule: find_at.induct)
  case (1 t i)
  then show ?case by (simp split: if_splits)
next
  case (2 t c s i)
  show ?case
  proof (cases "prefix t (c # s)")
    case True
    then show ?thesis by simp
  next
    case False
    with "2.prems" have "0 \<le> find_at t s (Suc i)" by simp
    with "2.IH" False have "prefix t (drop (nat (find_at t s (Suc i)) - Suc i) s)"
      and le: "Suc i \<le> nat (find_at t s (Suc i))" by auto
    moreover have "drop (nat (find_at t s (Suc i)) - i) (c # s) =
        drop (nat (find_at t s (Suc i)) - Suc i) s"
      using le by (simp add: drop_Cons')
    ultimately show ?thesis using False le by simp
  qed
qed

lemma py_find_occurs:
  "0 \<le> py_find s t \<Longrightarrow> take (length t) (drop (nat (py_find s t)) s) = t"
  using find_at_occurs [of t s 0]
  by (simp add: py_find_def prefix_def) (metis append_eq_conv_conj)

end
