(* ===== verification/Compositor.thy ===== *)
theory Compositor
  imports Prelude
begin

text \<open>
  The ink compositor of \<open>OverprintSimulation/custom_spot_merge.py\<close>: spot-ink
  separation planes are merged, row by row, into the four CMYK process planes with the
  subtractive blend \<open>1 - (1 - comp * spot) * (1 - current)\<close>, the result rounded back into
  a byte after every spot (\<open>int(new_val * 255.0 + 0.5)\<close>). The merged pixels are
  interleaved into one scanline per row and written to a frame writer. The theory holds
  the loop nest as the code has it (\<open>row_loop\<close>, \<open>pixel_loop\<close>, \<open>chan_loop\<close>,
  \<open>spot_loop\<close>), a reference definition per pixel, the refinement between the two, the
  exact (unrounded) blend as the abstract specification, and its order independence.
\<close>

subsection \<open>One blend step\<close>

definition inv255 :: real where
  "inv255 = 1 / 255"

text \<open>Line 125: the subtractive blend of one spot into the current value.\<close>

definition blend_expr :: "real \<Rightarrow> real \<Rightarrow> real \<Rightarrow> real" where
  "blend_expr component spot_val current_val = 1 - (1 - component * spot_val) * (1 - current_val)"

text \<open>The value computed in lines 123--126 before it is stored into the scanline byte.\<close>

definition spot_value :: "real \<Rightarrow> u8 \<Rightarrow> u8 \<Rightarrow> int" where
  "spot_value component spot cur =
     (let spot_val = real (unat spot) * inv255;
          current_val = real (unat cur) * inv255;
          new_val = blend_expr component spot_val current_val
      in py_int (new_val * 255 + 1/2))"

text \<open>\<open>scanline[idx] = int(new_val * 255.0 + 0.5)\<close>: the store raises outside 0..255.\<close>

definition spot_step :: "real \<Rightarrow> u8 \<Rightarrow> u8 \<Rightarrow> u8 res" where
  "spot_step component spot cur = py_byte (spot_value component spot cur)"

text \<open>The stored byte, when the store succeeds.\<close>

definition spot_byte :: "real \<Rightarrow> u8 \<Rightarrow> u8 \<Rightarrow> u8" where
  "spot_byte component spot cur = word_of_int (spot_value component spot cur)"

definition comps_in_unit :: "real list list \<Rightarrow> bool" where
  "comps_in_unit cs \<longleftrightarrow> (\<forall>v \<in> set cs. \<forall>a \<in> set v. 0 \<le> a \<and> a \<le> 1)"

subsection \<open>The merge loop nest (lines 112--129)\<close>

text \<open>The state the loop reads: the rendered planes \<open>buffers\<close> (process planes first,
  then one plane per spot, each \<open>pixel_width * pixel_height\<close> bytes with row stride
  \<open>pixel_width\<close>), the spot components \<open>components[i][c]\<close>, and the raster geometry.\<close>

record merge_job =
  mj_buffers :: "u8 list list"
  mj_components :: "real list list"
  mj_width :: nat
  mj_height :: nat
  mj_process :: nat
  mj_spots :: nat

text \<open>\<open>for i in range(num_spots)\<close>: blend spot \<open>i\<close> into \<open>scanline[idx]\<close>.\<close>

fun spot_loop :: "merge_job \<Rightarrow> nat \<Rightarrow> nat \<Rightarrow> nat \<Rightarrow> nat list \<Rightarrow> u8 list \<Rightarrow> u8 list res" where
  "spot_loop j c p idx [] scanline = Inr scanline"
| "spot_loop j c p idx (i # ks) scanline =
     res_bind (py_get (mj_buffers j) (mj_process j + i)) (\<lambda>plane.
     res_bind (py_get plane p) (\<lambda>spot.
     res_bind (py_get scanline idx) (\<lambda>cur.
     res_bind (py_get (mj_components j) i) (\<lambda>comps.
     res_bind (py_get comps c) (\<lambda>component.
     res_bind (spot_step component spot cur) (\<lambda>v.
     res_bind (py_set scanline idx v) (\<lambda>scanline'.
     spot_loop j c p idx ks scanline')))))))"

text \<open>\<open>for c in range(num_process)\<close>: copy the process byte, then blend the spots.\<close>

fun chan_loop :: "merge_job \<Rightarrow> nat \<Rightarrow> nat \<Rightarrow> nat list \<Rightarrow> u8 list \<Rightarrow> u8 list res" where
  "chan_loop j x p [] scanline = Inr scanline"
| "chan_loop j x p (c # cs) scanline =
     (let idx = x * mj_process j + c in
      res_bind (py_get (mj_buffers j) c) (\<lambda>plane.
      res_bind (py_get plane p) (\<lambda>v.
      res_bind (py_set scanline idx v) (\<lambda>scanline1.
      res_bind (spot_loop j c p idx [0..<mj_spots j] scanline1) (\<lambda>scanline2.
      chan_loop j x p cs scanline2)))))"

text \<open>\<open>for x in range(pixel_width)\<close>, at \<open>row_start + x\<close>.\<close>

fun pixel_loop :: "merge_job \<Rightarrow> nat \<Rightarrow> nat list \<Rightarrow> u8 list \<Rightarrow> u8 list res" where
  "pixel_loop j row_start [] scanline = Inr scanline"
| "pixel_loop j row_start (x # xs) scanline =
     res_bind (chan_loop j x (row_start + x) [0..<mj_process j] scanline)
       (pixel_loop j row_start xs)"

text \<open>\<open>for y in range(pixel_height)\<close>: fill the reused scanline, then
  \<open>frame_writer.writeScanLine(scanline)\<close>; \<open>written\<close> is what the writer received.\<close>

fun row_loop :: "merge_job \<Rightarrow> nat list \<Rightarrow> u8 list \<Rightarrow> u8 list list \<Rightarrow> (u8 list \<times> u8 list list) res" where
  "row_loop j [] scanline written = Inr (scanline, written)"
| "row_loop j (y # ys) scanline written =
     res_bind (pixel_loop j (y * mj_width j) [0..<mj_width j] scanline) (\<lambda>scanline'.
       row_loop j ys scanline' (written @ [scanline']))"

definition merge_spots :: "merge_job \<Rightarrow> u8 list list res" where
  "merge_spots j =
     (let scanline = replicate (mj_width j * mj_process j) 0 in
      res_bind (row_loop j [0..<mj_height j] scanline []) (\<lambda>r. Inr (snd r)))"

text \<open>Lines 104--110: the first four components of every spot's colorant vector.\<close>

definition build_components :: "real list list \<Rightarrow> real list list res" where
  "build_components spot_vals =
     (if \<forall>v \<in> set spot_vals. 4 \<le> length v then Inr (map (take 4) spot_vals) else Inl IndexError)"

subsection \<open>Reference definitions\<close>

text \<open>The merged byte of one process channel at one pixel: the spot steps in spot order.\<close>

definition merge_pixel :: "(real \<times> u8) list \<Rightarrow> u8 \<Rightarrow> u8" where
  "merge_pixel ps v = foldl (\<lambda>cur (a, s). spot_byte a s cur) v ps"

definition pixel_inputs :: "merge_job \<Rightarrow> nat \<Rightarrow> nat \<Rightarrow> nat list \<Rightarrow> (real \<times> u8) list" where
  "pixel_inputs j c p ks = map (\<lambda>i. (mj_components j ! i ! c, mj_buffers j ! (mj_process j + i) ! p)) ks"

definition merged_value :: "merge_job \<Rightarrow> nat \<Rightarrow> nat \<Rightarrow> u8" where
  "merged_value j c p = merge_pixel (pixel_inputs j c p [0..<mj_spots j]) (mj_buffers j ! c ! p)"

text \<open>The raster output layout: byte \<open>x * n + c\<close> of a scanline is channel \<open>c\<close> of pixel
  \<open>x\<close>.\<close>

definition interleave :: "nat \<Rightarrow> nat \<Rightarrow> (nat \<Rightarrow> nat \<Rightarrow> u8) \<Rightarrow> u8 list" where
  "interleave w n f = map (\<lambda>k. f (k div n) (k mod n)) [0..<w * n]"

definition merged_row :: "merge_job \<Rightarrow> nat \<Rightarrow> u8 list" where
  "merged_row j y = interleave (mj_width j) (mj_process j) (\<lambda>x c. merged_value j c (y * mj_width j + x))"

definition merged_rows :: "merge_job \<Rightarrow> u8 list list" where
  "merged_rows j = map (merged_row j) [0..<mj_height j]"

text \<open>The specification's blend (section 4.2 of the spec) without any rounding: the blend
  expression of line 125 folded over the spots, on values normalised to [0, 1].\<close>

definition exact_blend :: "real \<Rightarrow> (real \<times> real) list \<Rightarrow> real" where
  "exact_blend r ps = foldl (\<lambda>r (a, s). blend_expr a s r) r ps"

definition scaled_inputs :: "(real \<times> u8) list \<Rightarrow> (real \<times> real) list" where
  "scaled_inputs ps = map (\<lambda>(a, s). (a, real (unat s) / 255)) ps"

definition merge_job_wf :: "merge_job \<Rightarrow> bool" where
  "merge_job_wf j \<longleftrightarrow>
     length (mj_buffers j) = mj_process j + mj_spots j \<and>
     (\<forall>b \<in> set (mj_buffers j). length b = mj_width j * mj_height j) \<and>
     length (mj_components j) = mj_spots j \<and>
     (\<forall>v \<in> set (mj_components j). mj_process j \<le> length v)"

subsection \<open>Bounds of one step\<close>

lemma spot_value_unfold:
  "spot_value component spot cur =
     py_int (255 - (1 - component * (real (unat spot) / 255)) * (255 - real (unat cur)) + 1/2)"
proof -
  have "(1 - (1 - component * (real (unat spot) * inv255)) * (1 - real (unat cur) * inv255)) * 255
      = 255 - (1 - component * (real (unat spot) / 255)) * (255 - real (unat cur))"
    by (simp add: inv255_def algebra_simps)
  then show ?thesis by (simp add: spot_value_def blend_expr_def Let_def)
qed

lemma blend_floor_bounds:
  fixes a s c :: real
  assumes "0 \<le> a" "a \<le> 1" "0 \<le> s" "s \<le> 1" "0 \<le> c" "c \<le> 255"
  shows "0 \<le> 255 - (1 - a * s) * (255 - c) + 1/2"
    and "\<lfloor>c\<rfloor> \<le> \<lfloor>255 - (1 - a * s) * (255 - c) + 1/2\<rfloor>"
    and "\<lfloor>255 - (1 - a * s) * (255 - c) + 1/2\<rfloor> \<le> 255"
proof -
  have m: "0 \<le> 1 - a * s" "1 - a * s \<le> 1"
    using assms by (auto simp: mult_le_one)
  have lo: "0 \<le> (1 - a * s) * (255 - c)" using m assms by simp
  have hi: "(1 - a * s) * (255 - c) \<le> 255 - c"
    using m assms by (simp add: mult_left_le_one_le)
  let ?v = "255 - (1 - a * s) * (255 - c) + 1/2"
  have v: "c + 1/2 \<le> ?v" "?v \<le> 255 + 1/2" using lo hi by linarith+
  then show "0 \<le> ?v" using assms by linarith
  show "\<lfloor>c\<rfloor> \<le> \<lfloor>?v\<rfloor>" using v by (intro floor_mono) linarith
  have "\<lfloor>?v\<rfloor> \<le> \<lfloor>(255::real) + 1/2\<rfloor>" using v by (intro floor_mono) linarith
  then show "\<lfloor>?v\<rfloor> \<le> 255" by simp
qed

lemma spot_value_bounds:
  assumes "0 \<le> component" "component \<le> 1"
  shows "int (unat cur) \<le> spot_value component spot cur" "spot_value component spot cur \<le> 255"
proof -
  have s: "0 \<le> real (unat spot) / 255" "real (unat spot) / 255 \<le> 1"
    using unat_u8_le [of spot] by simp_all
  have c: "0 \<le> real (unat cur)" "real (unat cur) \<le> 255"
    using unat_u8_le [of cur] by simp_all
  note b = blend_floor_bounds [OF assms s c]
  have eq: "spot_value component spot cur =
      \<lfloor>255 - (1 - component * (real (unat spot) / 255)) * (255 - real (unat cur)) + 1/2\<rfloor>"
    using b(1) by (simp only: spot_value_unfold py_int_nonneg)
  show "int (unat cur) \<le> spot_value component spot cur"
    using b(2) by (simp only: eq floor_of_nat)
  show "spot_value component spot cur \<le> 255"
    using b(3) by (simp only: eq)
qed

lemma spot_step_ok [py_simps]:
  assumes "0 \<le> component" "component \<le> 1"
  shows "spot_step component spot cur = Inr (spot_byte component spot cur)"
proof -
  have "0 \<le> spot_value component spot cur" "spot_value component spot cur \<le> 255"
    using spot_value_bounds [OF assms, where cur = cur and spot = spot] by simp_all
  then show ?thesis by (simp add: spot_step_def spot_byte_def py_byte_ok)
qed

lemma unat_spot_byte:
  assumes "0 \<le> component" "component \<le> 1"
  shows "unat (spot_byte component spot cur) = nat (spot_value component spot cur)"
proof -
  have "0 \<le> spot_value component spot cur" "spot_value component spot cur \<le> 255"
    using spot_value_bounds [OF assms, where cur = cur and spot = spot] by simp_all
  then show ?thesis by (simp add: spot_byte_def unat_byte_of_int)
qed

lemma spot_byte_darkens:
  assumes "0 \<le> component" "component \<le> 1"
  shows "unat cur \<le> unat (spot_byte component spot cur)"
  using spot_value_bounds (1) [OF assms, where cur = cur and spot = spot] by (simp add: unat_spot_byte [OF assms])


subsection \<open>The loops against the reference\<close>

lemma merge_job_wf_access:
  assumes "merge_job_wf j" "p < mj_width j * mj_height j"
  shows "b < mj_process j + mj_spots j \<Longrightarrow> p < length (mj_buffers j ! b)"
    and "b < mj_process j + mj_spots j \<Longrightarrow> b < length (mj_buffers j)"
    and "i < mj_spots j \<Longrightarrow> i < length (mj_components j)"
    and "i < mj_spots j \<Longrightarrow> c < mj_process j \<Longrightarrow> c < length (mj_components j ! i)"
proof -
  assume b: "b < mj_process j + mj_spots j"
  then have "mj_buffers j ! b \<in> set (mj_buffers j)" using assms(1) by (simp add: merge_job_wf_def)
  then show "p < length (mj_buffers j ! b)" using assms by (simp add: merge_job_wf_def)
  show "b < length (mj_buffers j)" using assms(1) b by (simp add: merge_job_wf_def)
next
  assume i: "i < mj_spots j"
  then show "i < length (mj_components j)" using assms(1) by (simp add: merge_job_wf_def)
  then have "mj_components j ! i \<in> set (mj_components j)" by simp
  moreover assume "c < mj_process j"
  ultimately show "c < length (mj_components j ! i)" using assms(1)
    by (auto simp: merge_job_wf_def)
qed

lemma comps_in_unit_nth:
  assumes "comps_in_unit cs" "i < length cs" "c < length (cs ! i)"
  shows "0 \<le> cs ! i ! c" "cs ! i ! c \<le> 1"
proof -
  have "cs ! i \<in> set cs" "cs ! i ! c \<in> set (cs ! i)" using assms(2,3) by simp_all
  then show "0 \<le> cs ! i ! c" "cs ! i ! c \<le> 1" using assms(1) by (auto simp: comps_in_unit_def)
qed

lemma merge_pixel_Cons [simp]:
  "merge_pixel ((a, s) # ps) v = merge_pixel ps (spot_byte a s v)"
  by (simp add: merge_pixel_def)

lemma merge_pixel_Nil [simp]: "merge_pixel [] v = v"
  by (simp add: merge_pixel_def)

lemma spot_loop_eq:
  assumes wf: "merge_job_wf j" and unit: "comps_in_unit (mj_components j)"
    and c: "c < mj_process j" and p: "p < mj_width j * mj_height j"
    and idx: "idx < length scanline" and ks: "\<forall>i \<in> set ks. i < mj_spots j"
  shows "spot_loop j c p idx ks scanline =
           Inr (scanline[idx := merge_pixel (pixel_inputs j c p ks) (scanline ! idx)])"
  using idx ks
proof (induction ks arbitrary: scanline)
  case Nil
  then show ?case by (simp add: pixel_inputs_def)
next
  case (Cons i ks)
  then have i: "i < mj_spots j" by simp
  note acc = merge_job_wf_access [OF wf p]
  have u: "0 \<le> mj_components j ! i ! c" "mj_components j ! i ! c \<le> 1"
    using comps_in_unit_nth [OF unit acc(3) [OF i] acc(4) [OF i c]] by simp_all
  have b: "mj_process j + i < mj_process j + mj_spots j" using i by simp
  let ?v = "spot_byte (mj_components j ! i ! c) (mj_buffers j ! (mj_process j + i) ! p) (scanline ! idx)"
  have IH: "spot_loop j c p idx ks (scanline[idx := ?v]) =
      Inr (scanline[idx := merge_pixel (pixel_inputs j c p ks) ?v])"
    using Cons.IH [of "scanline[idx := ?v]"] Cons.prems by simp
  show ?case
    using Cons.prems acc(1) [OF b] acc(2) [OF b] acc(3) [OF i] acc(4) [OF i c] u IH
    by (simp add: py_simps pixel_inputs_def)
qed

lemma index_in_grid: "x < w \<Longrightarrow> c < n \<Longrightarrow> x * n + c < w * (n::nat)"
proof -
  assume "x < w" "c < n"
  then have "Suc x * n \<le> w * n" using mult_le_mono1 [of "Suc x" w n] by simp
  then show ?thesis using \<open>c < n\<close> by simp
qed

lemma chan_loop_eq:
  assumes wf: "merge_job_wf j" and unit: "comps_in_unit (mj_components j)"
    and x: "x < mj_width j" and p: "p < mj_width j * mj_height j"
    and len: "length scanline = mj_width j * mj_process j"
    and cs: "\<forall>c \<in> set cs. c < mj_process j"
  shows "chan_loop j x p cs scanline =
           Inr (foldl (\<lambda>sl c. sl[x * mj_process j + c := merged_value j c p]) scanline cs)"
  using len cs
proof (induction cs arbitrary: scanline)
  case Nil
  then show ?case by simp
next
  case (Cons c cs)
  then have c: "c < mj_process j" by simp
  let ?idx = "x * mj_process j + c"
  have idx: "?idx < length scanline" using Cons.prems(1) index_in_grid [OF x c] by simp
  note acc = merge_job_wf_access [OF wf p]
  have b: "c < mj_process j + mj_spots j" using c by simp
  let ?sl1 = "scanline[?idx := mj_buffers j ! c ! p]"
  have spots: "spot_loop j c p ?idx [0..<mj_spots j] ?sl1 =
      Inr (scanline[?idx := merged_value j c p])"
    using spot_loop_eq [OF wf unit c p, of ?idx ?sl1 "[0..<mj_spots j]"] idx
    by (simp add: merged_value_def)
  have IH: "chan_loop j x p cs (scanline[?idx := merged_value j c p]) =
      Inr (foldl (\<lambda>sl c. sl[x * mj_process j + c := merged_value j c p])
             (scanline[?idx := merged_value j c p]) cs)"
    using Cons.IH Cons.prems by simp
  show ?case
    using acc(1) [OF b] acc(2) [OF b] idx spots IH by (simp add: py_simps Let_def)
qed

lemma inner_fill_nth:
  assumes "k < length sl" "\<forall>c \<in> set cs. c < n"
  shows "foldl (\<lambda>sl c. sl[x * n + c := f x c]) sl cs ! k =
           (if k div n = x \<and> k mod n \<in> set cs then f x (k mod n) else sl ! k)"
  using assms(2)
proof (induction cs rule: rev_induct)
  case Nil
  then show ?case by simp
next
  case (snoc c cs)
  then have c: "c < n" and IH: "foldl (\<lambda>sl c. sl[x * n + c := f x c]) sl cs ! k =
           (if k div n = x \<and> k mod n \<in> set cs then f x (k mod n) else sl ! k)" by simp_all
  have len: "length (foldl (\<lambda>sl c. sl[x * n + c := f x c]) sl cs) = length sl"
    by simp
  have split: "k = x * n + c \<longleftrightarrow> k div n = x \<and> k mod n = c"
    using c by (auto simp: div_mult_mod_eq [symmetric])
  show ?case
  proof (cases "k = x * n + c")
    case True
    then show ?thesis using assms(1) len split by simp
  next
    case False
    then show ?thesis using IH split by (auto simp: nth_list_update_neq)
  qed
qed

lemma outer_fill_nth:
  assumes "k < length sl" "0 < n"
  shows "foldl (\<lambda>sl x. foldl (\<lambda>sl c. sl[x * n + c := f x c]) sl [0..<n]) sl xs ! k =
           (if k div n \<in> set xs then f (k div n) (k mod n) else sl ! k)"
proof (induction xs rule: rev_induct)
  case Nil
  then show ?case by simp
next
  case (snoc x xs)
  let ?inner = "\<lambda>sl x. foldl (\<lambda>sl c. sl[x * n + c := f x c]) sl [0..<n]"
  have leninner: "\<And>sl x. length (?inner sl x) = length sl"
    by simp
  have len: "length (foldl ?inner sl xs) = length sl"
    using length_foldl_preserve [of ?inner sl xs] by simp
  have "foldl ?inner sl (xs @ [x]) ! k = ?inner (foldl ?inner sl xs) x ! k" by simp
  also have "\<dots> = (if k div n = x \<and> k mod n \<in> set [0..<n] then f x (k mod n)
                     else foldl ?inner sl xs ! k)"
    using inner_fill_nth [of k "foldl ?inner sl xs" "[0..<n]" n x f] assms(1) len by simp
  finally show ?case using snoc.IH assms(2) by auto
qed

lemma length_interleave [simp]: "length (interleave w n f) = w * n"
  by (simp add: interleave_def)

lemma nth_interleave: "k < w * n \<Longrightarrow> interleave w n f ! k = f (k div n) (k mod n)"
  by (simp add: interleave_def)

text \<open>Filling every byte of a scanline of the right length, pixel by pixel and channel by
  channel, yields the interleaved layout whatever the scanline held before.\<close>

lemma fill_scanline:
  assumes "length sl = w * n"
  shows "foldl (\<lambda>sl x. foldl (\<lambda>sl c. sl[x * n + c := f x c]) sl [0..<n]) sl [0..<w] =
           interleave w n f"
proof (cases "n = 0")
  case True
  then show ?thesis using assms by (induction w) (simp_all add: interleave_def)
next
  case False
  let ?inner = "\<lambda>sl x. foldl (\<lambda>sl c. sl[x * n + c := f x c]) sl [0..<n]"
  have leninner: "\<And>sl x. length (?inner sl x) = length sl"
    by simp
  have len: "length (foldl ?inner sl [0..<w]) = w * n"
    using assms length_foldl_preserve [of ?inner sl "[0..<w]"] by simp
  show ?thesis
  proof (rule nth_equalityI)
    show "length (foldl ?inner sl [0..<w]) = length (interleave w n f)" using len by simp
  next
    fix k assume "k < length (foldl ?inner sl [0..<w])"
    then have k: "k < w * n" using len by simp
    then have "k div n < w" using False by (simp add: less_mult_imp_div_less)
    then show "foldl ?inner sl [0..<w] ! k = interleave w n f ! k"
      using outer_fill_nth [of k sl n f "[0..<w]"] k assms False by (simp add: nth_interleave)
  qed
qed

lemma pixel_loop_eq:
  assumes wf: "merge_job_wf j" and unit: "comps_in_unit (mj_components j)"
    and y: "y < mj_height j"
    and len: "length scanline = mj_width j * mj_process j"
    and xs: "\<forall>x \<in> set xs. x < mj_width j"
  shows "pixel_loop j (y * mj_width j) xs scanline =
           Inr (foldl (\<lambda>sl x. foldl (\<lambda>sl c. sl[x * mj_process j + c :=
                    merged_value j c (y * mj_width j + x)]) sl [0..<mj_process j]) scanline xs)"
  using len xs
proof (induction xs arbitrary: scanline)
  case Nil
  then show ?case by simp
next
  case (Cons x xs)
  then have x: "x < mj_width j" by simp
  have p: "y * mj_width j + x < mj_width j * mj_height j"
    using index_in_grid [OF y x] by (simp add: mult.commute)
  have chan: "chan_loop j x (y * mj_width j + x) [0..<mj_process j] scanline =
      Inr (foldl (\<lambda>sl c. sl[x * mj_process j + c := merged_value j c (y * mj_width j + x)])
             scanline [0..<mj_process j])"
    using chan_loop_eq [OF wf unit x p] Cons.prems(1) by simp
  show ?case using chan Cons.IH Cons.prems by simp
qed

lemma length_merged_row [simp]: "length (merged_row j y) = mj_width j * mj_process j"
  by (simp add: merged_row_def)

lemma row_loop_eq:
  assumes wf: "merge_job_wf j" and unit: "comps_in_unit (mj_components j)"
    and len: "length scanline = mj_width j * mj_process j"
    and ys: "\<forall>y \<in> set ys. y < mj_height j"
  shows "\<exists>sl. row_loop j ys scanline written = Inr (sl, written @ map (merged_row j) ys)"
  using len ys
proof (induction ys arbitrary: scanline written)
  case Nil
  then show ?case by simp
next
  case (Cons y ys)
  then have y: "y < mj_height j" by simp
  have "pixel_loop j (y * mj_width j) [0..<mj_width j] scanline = Inr (merged_row j y)"
    using pixel_loop_eq [OF wf unit y Cons.prems(1)] fill_scanline [OF Cons.prems(1)]
    by (simp add: merged_row_def)
  moreover obtain sl where
    "row_loop j ys (merged_row j y) (written @ [merged_row j y]) =
       Inr (sl, (written @ [merged_row j y]) @ map (merged_row j) ys)"
    using Cons.IH [of "merged_row j y" "written @ [merged_row j y]"] Cons.prems by auto
  ultimately show ?case by simp
qed

subsection \<open>The exact blend and the rounding drift\<close>

lemma exact_blend_closed:
  "exact_blend r ps = 1 - (1 - r) * prod_list (map (\<lambda>(a, s). 1 - a * s) ps)"
proof (induction ps arbitrary: r)
  case Nil
  then show ?case by (simp add: exact_blend_def)
next
  case (Cons p ps)
  obtain a s where p: "p = (a, s)" by fastforce
  have "exact_blend r (p # ps) = exact_blend (blend_expr a s r) ps"
    by (simp add: exact_blend_def p)
  also have "\<dots> = 1 - (1 - blend_expr a s r) * prod_list (map (\<lambda>(a, s). 1 - a * s) ps)"
    by (rule Cons.IH)
  finally show ?case by (simp add: p blend_expr_def algebra_simps)
qed

lemma spot_byte_drift:
  assumes a: "0 \<le> a" "a \<le> 1" and d: "\<bar>real (unat v) - 255 * r\<bar> \<le> d"
  shows "\<bar>real (unat (spot_byte a s v)) - 255 * blend_expr a (real (unat s) / 255) r\<bar> \<le> d + 1/2"
proof -
  let ?s = "real (unat s) / 255" and ?e = "real (unat v)"
  let ?m = "1 - a * ?s"
  let ?t = "255 - ?m * (255 - ?e)"
  have s: "0 \<le> ?s" "?s \<le> 1" using unat_u8_le [of s] by simp_all
  have e: "0 \<le> ?e" "?e \<le> 255" using unat_u8_le [of v] by simp_all
  have "a * ?s \<le> 1" by (rule mult_le_one [OF a(2) s])
  then have m: "0 \<le> ?m" "?m \<le> 1" using a s by simp_all
  have nonneg: "0 \<le> ?t + 1/2" using blend_floor_bounds (1) [OF a s e] by simp
  have val: "real (unat (spot_byte a s v)) = of_int \<lfloor>?t + 1/2\<rfloor>"
  proof -
    have "spot_value a s v = \<lfloor>?t + 1/2\<rfloor>"
      using nonneg by (simp only: spot_value_unfold py_int_nonneg)
    moreover have "0 \<le> spot_value a s v" using spot_value_bounds (1) [OF a, of v s] by simp
    ultimately show ?thesis by (simp add: unat_spot_byte [OF a])
  qed
  have fl: "?t - 1/2 < of_int \<lfloor>?t + 1/2\<rfloor>" "of_int \<lfloor>?t + 1/2\<rfloor> \<le> ?t + 1/2"
    by linarith+
  have ex: "255 * blend_expr a ?s r = ?t - ?m * (?e - 255 * r)"
    by (simp add: blend_expr_def field_simps)
  have "\<bar>?m * (?e - 255 * r)\<bar> \<le> \<bar>?e - 255 * r\<bar>"
    using m by (simp add: abs_mult mult_left_le_one_le)
  then have md: "\<bar>?m * (?e - 255 * r)\<bar> \<le> d" using d by linarith
  show ?thesis using val fl ex md by (simp only: abs_le_iff) linarith
qed

lemma merge_pixel_drift:
  assumes "\<forall>(a, s) \<in> set ps. 0 \<le> a \<and> a \<le> 1"
    and "\<bar>real (unat v) - 255 * r\<bar> \<le> d"
  shows "\<bar>real (unat (merge_pixel ps v)) - 255 * exact_blend r (scaled_inputs ps)\<bar>
           \<le> d + real (length ps) / 2"
  using assms
proof (induction ps arbitrary: v r d)
  case Nil
  then show ?case by (simp add: exact_blend_def scaled_inputs_def)
next
  case (Cons p ps)
  obtain a s where p: "p = (a, s)" by fastforce
  have a: "0 \<le> a" "a \<le> 1" using Cons.prems(1) p by auto
  have step: "\<bar>real (unat (spot_byte a s v)) - 255 * blend_expr a (real (unat s) / 255) r\<bar> \<le> d + 1/2"
    by (rule spot_byte_drift [OF a Cons.prems(2)])
  have "\<bar>real (unat (merge_pixel ps (spot_byte a s v))) -
          255 * exact_blend (blend_expr a (real (unat s) / 255) r) (scaled_inputs ps)\<bar>
        \<le> d + 1/2 + real (length ps) / 2"
    using Cons.IH [OF _ step] Cons.prems(1) by simp
  moreover have "d + 1/2 + real (length ps) / 2 = d + real (length (p # ps)) / 2"
    by (simp add: field_simps)
  ultimately show ?case by (simp add: p exact_blend_def scaled_inputs_def)
qed

lemma merge_spots_eq:
  assumes "merge_job_wf j" "comps_in_unit (mj_components j)"
  shows "merge_spots j = Inr (merged_rows j)"
proof -
  let ?sl = "replicate (mj_width j * mj_process j) (0::u8)"
  obtain sl where "row_loop j [0..<mj_height j] ?sl [] = Inr (sl, map (merged_row j) [0..<mj_height j])"
    using row_loop_eq [OF assms, of ?sl "[0..<mj_height j]" "[]"] by auto
  then show ?thesis by (simp add: merge_spots_def merged_rows_def)
qed

subsection \<open>Properties of the compositor\<close>

text \<open>C1: on well-formed planes and spot components in [0, 1], the loop nest of
  \<open>custom_spot_merge\<close> raises nothing and writes, for every row, the interleaved
  scanline whose byte \<open>x * 4 + c\<close> is the reference merge of process channel \<open>c\<close> at
  that pixel.\<close>

theorem merge_spots_correct:
  assumes "merge_job_wf j" "comps_in_unit (mj_components j)"
  shows "merge_spots j = Inr (merged_rows j)"
  by (rule merge_spots_eq [OF assms])

theorem merge_spots_correct_witness:
  "merge_job_wf \<lparr>mj_buffers = [[100, 7], [0, 0], [0, 0], [0, 0], [255, 0]],
      mj_components = [[1/2, 0, 0, 0]], mj_width = 2, mj_height = 1, mj_process = 4, mj_spots = 1\<rparr>
   \<and> comps_in_unit [[1/2, 0, 0, 0]]
   \<and> merge_spots \<lparr>mj_buffers = [[100, 7], [0, 0], [0, 0], [0, 0], [255, 0]],
      mj_components = [[1/2, 0, 0, 0]], mj_width = 2, mj_height = 1, mj_process = 4, mj_spots = 1\<rparr> = Inr [[178, 0, 0, 0, 7, 0, 0, 0]]"
proof -
  have wf: "merge_job_wf \<lparr>mj_buffers = [[100, 7], [0, 0], [0, 0], [0, 0], [255, 0]],
      mj_components = [[1/2, 0, 0, 0]], mj_width = 2, mj_height = 1, mj_process = 4, mj_spots = 1\<rparr>"
    by (simp add: merge_job_wf_def)
  have u: "comps_in_unit (mj_components \<lparr>mj_buffers = [[100, 7], [0, 0], [0, 0], [0, 0], [255, 0]],
      mj_components = [[1/2, 0, 0, 0]], mj_width = 2, mj_height = 1, mj_process = 4, mj_spots = 1\<rparr>)" by (simp add: comps_in_unit_def)
  have rows: "merged_rows \<lparr>mj_buffers = [[100, 7], [0, 0], [0, 0], [0, 0], [255, 0]],
      mj_components = [[1/2, 0, 0, 0]], mj_width = 2, mj_height = 1, mj_process = 4, mj_spots = 1\<rparr> = [[178, 0, 0, 0, 7, 0, 0, 0]]"
    by (simp add: merged_rows_def merged_row_def interleave_def merged_value_def pixel_inputs_def
        spot_byte_def spot_value_def blend_expr_def inv255_def py_int_def upt_rec)
  show ?thesis using wf u merge_spots_correct [OF wf u] rows by (simp add: comps_in_unit_def)
qed

text \<open>C6: with no spot inks the merge is an identity copy: every scanline interleaves the
  process planes' bytes unchanged (spec section 8, "Identity").\<close>

theorem merge_spots_identity:
  assumes "merge_job_wf j" "mj_spots j = 0"
  shows "merge_spots j = Inr (map (\<lambda>y. interleave (mj_width j) (mj_process j)
            (\<lambda>x c. mj_buffers j ! c ! (y * mj_width j + x))) [0..<mj_height j])"
proof -
  have unit: "comps_in_unit (mj_components j)"
    using assms by (simp add: merge_job_wf_def comps_in_unit_def)
  let ?sl = "replicate (mj_width j * mj_process j) (0::u8)"
  obtain sl where "row_loop j [0..<mj_height j] ?sl [] = Inr (sl, map (merged_row j) [0..<mj_height j])"
    using row_loop_eq [OF assms(1) unit, of ?sl "[0..<mj_height j]" "[]"] by auto
  moreover have "\<And>c p. merged_value j c p = mj_buffers j ! c ! p"
    using assms(2) by (simp add: merged_value_def pixel_inputs_def)
  ultimately show ?thesis by (simp add: merge_spots_def merged_row_def)
qed

theorem merge_spots_identity_witness:
  "merge_job_wf \<lparr>mj_buffers = [[10, 20], [30, 40], [50, 60], [70, 80]],
      mj_components = [], mj_width = 1, mj_height = 2, mj_process = 4, mj_spots = 0\<rparr>
   \<and> merge_spots \<lparr>mj_buffers = [[10, 20], [30, 40], [50, 60], [70, 80]],
      mj_components = [], mj_width = 1, mj_height = 2, mj_process = 4, mj_spots = 0\<rparr>
     = Inr [[10, 30, 50, 70], [20, 40, 60, 80]]"
proof -
  have wf: "merge_job_wf \<lparr>mj_buffers = [[10, 20], [30, 40], [50, 60], [70, 80]],
      mj_components = [], mj_width = 1, mj_height = 2, mj_process = 4, mj_spots = 0\<rparr>"
    by (simp add: merge_job_wf_def)
  have rows: "map (\<lambda>y. interleave 1 4 (\<lambda>x c. [[10, 20], [30, 40], [50, 60], [70, 80 :: u8]] ! c ! (y * 1 + x)))
      [0..<2] = [[10, 30, 50, 70], [20, 40, 60, 80]]"
    by (simp add: interleave_def upt_rec)
  show ?thesis using wf merge_spots_identity [OF wf] rows by simp
qed

text \<open>C3: merging a spot never lightens a process channel: with components in [0, 1] the
  merged byte is at least the process byte it started from.\<close>

theorem merge_pixel_darkens:
  assumes "\<forall>(a, s) \<in> set ps. 0 \<le> a \<and> a \<le> 1"
  shows "unat v \<le> unat (merge_pixel ps v)"
  using assms
proof (induction ps arbitrary: v)
  case Nil
  then show ?case by simp
next
  case (Cons p ps)
  obtain a s where p: "p = (a, s)" by fastforce
  have a: "0 \<le> a" "a \<le> 1" using Cons.prems p by auto
  have "unat v \<le> unat (spot_byte a s v)" by (rule spot_byte_darkens [OF a])
  also have "\<dots> \<le> unat (merge_pixel ps (spot_byte a s v))" using Cons.IH Cons.prems by simp
  finally show ?case by (simp add: p)
qed

theorem merge_pixel_darkens_witness:
  "0 \<le> (1/2 :: real) \<and> (1/2 :: real) \<le> 1
   \<and> unat (100 :: u8) \<le> unat (merge_pixel [(1/2, 255)] 100)"
proof -
  have h: "\<forall>(a, s) \<in> set [(1/2, 255 :: u8)]. 0 \<le> a \<and> a \<le> (1::real)" by simp
  show ?thesis using h merge_pixel_darkens [OF h, of 100] by simp
qed

text \<open>C4: the specification's exact blend is independent of the order of the spot inks: any
  permutation of the (component, coverage) pairs gives the same value.\<close>

theorem exact_blend_order_independent:
  assumes "mset ps = mset qs"
  shows "exact_blend r ps = exact_blend r qs"
proof -
  let ?f = "\<lambda>(a, s). 1 - a * s :: real"
  have "prod_list (map ?f ps) = prod_mset (image_mset ?f (mset ps))"
    by (simp flip: prod_mset_prod_list)
  also have "\<dots> = prod_list (map ?f qs)"
    using assms by (simp flip: prod_mset_prod_list)
  finally show ?thesis by (simp add: exact_blend_closed)
qed

theorem exact_blend_order_independent_witness:
  "mset [(1/2, 1), (1/4, 1/2)] = mset [(1/4, 1/2), (1/2, 1 :: real)]
   \<and> exact_blend (2/5) [(1/2, 1), (1/4, 1/2)] = exact_blend (2/5) [(1/4, 1/2), (1/2, 1)]"
proof -
  have h: "mset [(1/2, 1), (1/4, 1/2)] = mset [(1/4, 1/2), (1/2, 1 :: real)]" by simp
  show ?thesis using h exact_blend_order_independent [OF h, of "2/5"] by simp
qed

text \<open>C5: rounding after every spot keeps the merged byte within half a level per spot of
  the exact blend scaled to 0..255.\<close>

theorem merge_pixel_rounding_bound:
  assumes "\<forall>(a, s) \<in> set ps. 0 \<le> a \<and> a \<le> 1"
  shows "\<bar>real (unat (merge_pixel ps v)) - 255 * exact_blend (real (unat v) / 255) (scaled_inputs ps)\<bar>
           \<le> real (length ps) / 2"
  using merge_pixel_drift [OF assms, of v "real (unat v) / 255" 0] by simp

theorem merge_pixel_rounding_bound_witness:
  "0 \<le> (1/2 :: real) \<and> (1/2 :: real) \<le> 1 \<and> 0 \<le> (1/4 :: real) \<and> (1/4 :: real) \<le> 1
   \<and> \<bar>real (unat (merge_pixel [(1/2, 255), (1/4, 128)] 100))
        - 255 * exact_blend (real (unat (100 :: u8)) / 255) (scaled_inputs [(1/2, 255), (1/4, 128)])\<bar>
     \<le> real (length [(1/2 :: real, 255 :: u8), (1/4, 128)]) / 2"
proof -
  have h: "\<forall>(a, s) \<in> set [(1/2, 255 :: u8), (1/4, 128)]. 0 \<le> a \<and> a \<le> (1::real)" by simp
  show ?thesis using h merge_pixel_rounding_bound [OF h, of 100] by simp
qed

text \<open>The merged byte does depend on the order of the spots: reversing three spots
  changes it by two levels, beyond the one-level tolerance of spec section 8.\<close>

theorem merge_pixel_order_dependent:
  "unat (merge_pixel [(3/4, 32), (1/4, 64), (1/2, 64)] 69) = 118
   \<and> unat (merge_pixel [(1/2, 64), (1/4, 64), (3/4, 32)] 69) = 116"
  by (simp add: spot_byte_def spot_value_def blend_expr_def inv255_def py_int_def unat_byte_of_int)

text \<open>The scenario of spec section 8: process C = 100 and one spot with component
  0.5 at full coverage. The formula gives 177.5, rounded half up to 178 (not 196).\<close>

theorem merge_spots_scenario:
  "merge_spots \<lparr>mj_buffers = [[100], [0], [0], [0], [255]], mj_components = [[1/2, 0, 0, 0]],
      mj_width = 1, mj_height = 1, mj_process = 4, mj_spots = 1\<rparr> = Inr [[178, 0, 0, 0]]"
proof -
  have r: "replicate 4 (0::u8) = [0, 0, 0, 0]" by (simp add: numeral_eq_Suc)
  show ?thesis
    by (simp add: r merge_spots_def spot_step_def spot_value_def blend_expr_def inv255_def
        py_int_def py_byte_def py_get_def py_set_def upt_rec)
qed

lemma spot_step_overflow:
  assumes "1/2 \<le> (component * real (unat spot) / 255 - 1) * (255 - real (unat cur))"
  shows "spot_step component spot cur = Inl ValueError"
proof -
  let ?x = "255 - (1 - component * (real (unat spot) / 255)) * (255 - real (unat cur)) + 1/2"
  have "?x = 255 + 1/2 + (component * real (unat spot) / 255 - 1) * (255 - real (unat cur))"
    by (simp add: algebra_simps)
  then have x: "256 \<le> ?x" using assms by linarith
  then have "256 \<le> py_int ?x" by (simp add: py_int_nonneg le_floor_iff)
  then show ?thesis by (simp add: spot_step_def spot_value_unfold py_byte_def)
qed

lemma upt_0_Cons: "0 < n \<Longrightarrow> [0..<n] = 0 # [Suc 0..<n]"
  by (simp add: upt_conv_Cons)

text \<open>C8: the byte store does not clamp: when the first blend of the loop nest (spot 0
  into channel 0 of pixel 0) leaves the byte range, i.e. the component \<open>a\<close>, the spot
  byte \<open>s\<close> and the process byte \<open>p\<close> satisfy \<open>(a * s / 255 - 1) * (255 - p) \<ge> 1/2\<close>
  (a component above 1), \<open>int(new_val * 255.0 + 0.5)\<close> exceeds 255 and the merge raises
  ValueError, whatever the rest of the planes hold.\<close>

theorem merge_spots_component_out_of_range:
  assumes wf: "merge_job_wf j" and dims: "0 < mj_width j" "0 < mj_height j" "0 < mj_process j" "0 < mj_spots j"
    and over: "1/2 \<le> (mj_components j ! 0 ! 0 * real (unat (mj_buffers j ! mj_process j ! 0)) / 255 - 1) *
                       (255 - real (unat (mj_buffers j ! 0 ! 0)))"
  shows "merge_spots j = Inl ValueError"
proof -
  have b0: "0 < length (mj_buffers j ! 0)" "0 < length (mj_buffers j ! mj_process j)"
    using wf dims by (auto simp: merge_job_wf_def)
  have lb: "mj_process j < length (mj_buffers j)" "0 < length (mj_buffers j)" "0 < length (mj_components j)"
    using wf dims by (auto simp: merge_job_wf_def)
  have "mj_components j ! 0 \<in> set (mj_components j)" using lb(3) by (rule nth_mem)
  then have c0: "0 < length (mj_components j ! 0)"
    using wf dims by (fastforce simp: merge_job_wf_def)
  have sl: "0 < mj_width j * mj_process j" using dims by simp
  have step: "spot_step (mj_components j ! 0 ! 0) (mj_buffers j ! mj_process j ! 0) (mj_buffers j ! 0 ! 0) = Inl ValueError"
    by (rule spot_step_overflow [OF over])
  show ?thesis
    using dims b0 c0 lb sl step
    by (simp add: merge_spots_def upt_0_Cons py_simps nth_list_update)
qed

theorem merge_spots_component_out_of_range_witness:
  "merge_spots \<lparr>mj_buffers = [[100], [0], [0], [0], [255]], mj_components = [[2, 0, 0, 0]],
      mj_width = 1, mj_height = 1, mj_process = 4, mj_spots = 1\<rparr> = Inl ValueError"
  by (rule merge_spots_component_out_of_range) (simp_all add: merge_job_wf_def)
end
