(* ===== verification/Separations.thy ===== *)
theory Separations
  imports Prelude
begin

text \<open>
  The separation renderer front end, \<open>RenderSeparationsToFrameBuffers/
  render_separations_to_frame_buffers.py\<close>, function \<open>main\<close>: the argument checks
  (lines 22--33), the pixel size at 576 dpi (lines 47--50), the classification of the page's
  inks into ignored and retained spot inks by substring search (lines 57--71), and the two
  output modes: \<open>renderSeparations\<close> with one encoded TIFF per component (lines 75--101),
  and \<open>renderSeparationsToFrameBuffers\<close> into caller-allocated buffers that are then cut
  into scanlines for a TIFF writer (lines 103--167).

  The page and the rasteriser are the SDK collaborators of spec section 6: a page is its
  size in points and its ink inventory, and the rasteriser is a function from an ink name to
  the rows of its separation plane. The two renderer entry points are modelled from spec
  section 4.1 over that function: one plane per process colorant and per retained spot ink,
  the frame-buffer variant writing row \<open>y\<close> of a plane at \<open>bufferOfs + y * rowStride\<close>
  of its buffer. The script sets \<open>pixelStride = 0\<close>, which the SDK reads as packed
  samples. The written output is the list of TIFF paths with the rows each file receives.
\<close>

subsection \<open>Page, rasteriser and frame buffers\<close>

record sep_page =
  pg_width :: real
  pg_height :: real
  pg_inks :: "string list"

text \<open>\<open>IJawsRenderer.CFrameBufferInfo\<close>.\<close>

record fb_info =
  fb_ofs :: nat
  fb_row_stride :: nat
  fb_pixel_stride :: nat

text \<open>The rasteriser: for an ink name, the rows of its 8-bit separation plane at the
  requested pixel size; \<open>process\<close> is the colorant list of the target CMYK space.\<close>

record raster_env =
  re_process :: "string list"
  re_plane :: "string \<Rightarrow> nat \<Rightarrow> nat \<Rightarrow> u8 list list"

text \<open>\<open>renderer.renderSeparations(...)\<close>: one image per process colorant, then one per
  retained spot ink.\<close>

definition render_separations :: "raster_env \<Rightarrow> string list \<Rightarrow> nat \<Rightarrow> nat \<Rightarrow> u8 list list list" where
  "render_separations env retain w h = map (\<lambda>n. re_plane env n w h) (re_process env @ retain)"

text \<open>Writing the rows of one plane into a buffer: row \<open>y\<close> replaces the bytes from
  \<open>ofs + y * stride\<close> on.\<close>

fun fb_write :: "u8 list \<Rightarrow> nat \<Rightarrow> nat \<Rightarrow> nat \<Rightarrow> u8 list list \<Rightarrow> u8 list" where
  "fb_write buf ofs stride y [] = buf"
| "fb_write buf ofs stride y (row # rows) =
     fb_write (take (ofs + y * stride) buf @ row @ drop (ofs + y * stride + length row) buf)
       ofs stride (Suc y) rows"

text \<open>\<open>renderer.renderSeparationsToFrameBuffers(...)\<close>: buffer \<open>j\<close> receives the plane of
  component \<open>j\<close> of the same list \<open>renderSeparations\<close> renders.\<close>

definition render_to_frame_buffers ::
  "raster_env \<Rightarrow> string list \<Rightarrow> nat \<Rightarrow> nat \<Rightarrow> u8 list list \<Rightarrow> fb_info list \<Rightarrow> u8 list list" where
  "render_to_frame_buffers env retain w h bufs infos =
     map (\<lambda>(n, buf, info). fb_write buf (fb_ofs info) (fb_row_stride info) 0 (re_plane env n w h))
       (zip (re_process env @ retain) (zip bufs infos))"

subsection \<open>The script\<close>

text \<open>Lines 22--33: the command line (\<open>sys.argv\<close>, the program name first).\<close>

record sep_args =
  sa_input :: string
  sa_retain :: string
  sa_ignore :: string
  sa_frame_buffers :: string

definition parse_args :: "string list \<Rightarrow> int + sep_args" where
  "parse_args argv =
     (if length argv < 5 then Inl (-1)
      else if argv ! 4 \<noteq> ''true'' \<and> argv ! 4 \<noteq> ''false'' then Inl (-1)
      else Inr \<lparr>sa_input = argv ! 1, sa_retain = argv ! 2, sa_ignore = argv ! 3,
                sa_frame_buffers = argv ! 4\<rparr>)"

text \<open>Lines 47--50: \<open>int(round(d / 96.0 * resolution))\<close> with \<open>resolution = 576\<close>.\<close>

definition pixel_size :: "real \<Rightarrow> int" where
  "pixel_size d = py_round (d / 96 * 576)"

text \<open>Lines 57--71: the component names start with the process colorants; each page ink is
  ignored if its name occurs in the ignore string, otherwise retained if it occurs in the
  retain string.\<close>

record ink_lists =
  il_components :: "string list"
  il_ignore :: "string list"
  il_retain :: "string list"

fun classify_inks :: "string \<Rightarrow> string \<Rightarrow> string list \<Rightarrow> ink_lists \<Rightarrow> ink_lists" where
  "classify_inks retain ignore [] st = st"
| "classify_inks retain ignore (n # ns) st =
     classify_inks retain ignore ns
       (if 0 \<le> py_find ignore n then st\<lparr>il_ignore := il_ignore st @ [n]\<rparr>
        else if 0 \<le> py_find retain n
        then st\<lparr>il_retain := il_retain st @ [n], il_components := il_components st @ [n]\<rparr>
        else st)"

definition ink_selection :: "string list \<Rightarrow> string \<Rightarrow> string \<Rightarrow> string list \<Rightarrow> ink_lists" where
  "ink_selection process retain ignore inks =
     classify_inks retain ignore inks \<lparr>il_components = process, il_ignore = [], il_retain = []\<rparr>"

text \<open>Line 99 and line 144: \<open>os.path.join(test_file_path, f"{stem}_{mode}_{name}.tif")\<close>.\<close>

definition tiff_path :: "string \<Rightarrow> string \<Rightarrow> string \<Rightarrow> string" where
  "tiff_path stem mode name = py_join ''TestFiles'' (stem @ ''_'' @ mode @ ''_'' @ name @ ''.tif'')"

definition path_stem :: "string \<Rightarrow> string" where
  "path_stem input = py_splitext_root (py_basename input)"

type_synonym outputs = "(string \<times> u8 list list) list"

text \<open>Lines 96--101: one TIFF per component name, \<open>images[j]\<close> raising IndexError when
  the renderer returned fewer images; the files written before an exception stay written.\<close>

fun regular_loop :: "string \<Rightarrow> string list \<Rightarrow> u8 list list list \<Rightarrow> nat list \<Rightarrow> outputs \<Rightarrow>
    py_error option \<times> outputs" where
  "regular_loop stem names images [] out = (None, out)"
| "regular_loop stem names images (j # js) out =
     (case py_get images j of
        Inl e \<Rightarrow> (Some e, out)
      | Inr img \<Rightarrow> regular_loop stem names images js (out @ [(tiff_path stem ''regular'' (names ! j), img)]))"

text \<open>Lines 104--117: one zeroed \<open>bytearray(pixel_width * pixel_height * depth)\<close> per
  channel, with its \<open>CFrameBufferInfo(0, pixel_width, 0)\<close>.\<close>

definition make_frame_buffers :: "nat \<Rightarrow> int \<Rightarrow> int \<Rightarrow> nat \<Rightarrow> (u8 list list \<times> fb_info list) res" where
  "make_frame_buffers num_channels w h depth =
     (if num_channels = 0 then Inr ([], [])
      else res_bind (py_bytearray (w * h * int depth)) (\<lambda>buf.
        Inr (replicate num_channels buf,
             replicate num_channels \<lparr>fb_ofs = 0, fb_row_stride = nat w, fb_pixel_stride = 0\<rparr>)))"

text \<open>Lines 163--166: scanline \<open>y\<close> is \<open>bytes(buffer[y * w : y * w + w])\<close>.\<close>

definition buffer_rows :: "u8 list \<Rightarrow> nat \<Rightarrow> nat \<Rightarrow> u8 list list" where
  "buffer_rows buf w h = map (\<lambda>y. py_slice buf (y * w) (y * w + w)) [0..<h]"

text \<open>Lines 141--167: one TIFF per channel with the buffer's scanlines. The TIFF writer
  factory takes unsigned sizes, so a negative pixel size raises before anything is written.\<close>

definition fb_outputs :: "string \<Rightarrow> string list \<Rightarrow> u8 list list \<Rightarrow> int \<Rightarrow> int \<Rightarrow> outputs res" where
  "fb_outputs stem names bufs w h =
     (if names \<noteq> [] \<and> (w < 0 \<or> h < 0) then Inl OverflowError
      else Inr (map (\<lambda>j. (tiff_path stem ''frameBuffer'' (names ! j), buffer_rows (bufs ! j) (nat w) (nat h)))
                 [0..<length names]))"

text \<open>Lines 35--167, the body of the \<open>try\<close> after the argument checks: the raster size,
  the ink lists, and the two output modes; the exception raised, if any, and the files
  written up to it.\<close>

definition sep_render :: "raster_env \<Rightarrow> sep_page \<Rightarrow> sep_args \<Rightarrow> py_error option \<times> outputs" where
  "sep_render env page args =
     (let w = pixel_size (pg_width page);
          h = pixel_size (pg_height page);
          depth = 8;
          sel = ink_selection (re_process env) (sa_retain args) (sa_ignore args) (pg_inks page);
          names = il_components sel;
          stem = path_stem (sa_input args)
      in if sa_frame_buffers args = ''false'' then
           (let images = render_separations env (il_retain sel) (nat w) (nat h) in
            regular_loop stem names images [0..<length names] [])
         else
           (case make_frame_buffers (length names) w h depth of
              Inl e \<Rightarrow> (Some e, [])
            | Inr (bufs, infos) \<Rightarrow>
                (let bufs' = render_to_frame_buffers env (il_retain sel) (nat w) (nat h) bufs infos in
                 case fb_outputs stem names bufs' w h of
                   Inl e \<Rightarrow> (Some e, [])
                 | Inr out \<Rightarrow> (None, out))))"

text \<open>\<open>main\<close>: the argument checks (\<open>parse_args\<close>), the body, and the handlers of
  lines 171--178, which turn any exception into the return value 1; the return value and
  the files written.\<close>

definition sep_main :: "raster_env \<Rightarrow> sep_page \<Rightarrow> string list \<Rightarrow> int \<times> outputs" where
  "sep_main env page argv =
     (case parse_args argv of
        Inl code \<Rightarrow> (code, [])
      | Inr args \<Rightarrow>
          (case sep_render env page args of
             (None, out) \<Rightarrow> (0, out)
           | (Some e, out) \<Rightarrow> (1, out)))"

text \<open>A plane is well formed at \<open>w \<times> h\<close> when it has \<open>h\<close> rows of \<open>w\<close> bytes.\<close>

definition plane_wf :: "nat \<Rightarrow> nat \<Rightarrow> u8 list list \<Rightarrow> bool" where
  "plane_wf w h rows \<longleftrightarrow> length rows = h \<and> list_all (\<lambda>r. length r = w) rows"

text \<open>The outputs \<open>main\<close> is meant to write: one file per component name, holding the
  rasteriser's plane of that ink.\<close>

definition expected_outputs :: "raster_env \<Rightarrow> sep_page \<Rightarrow> sep_args \<Rightarrow> string \<Rightarrow> outputs" where
  "expected_outputs env page args mode =
     map (\<lambda>n. (tiff_path (path_stem (sa_input args)) mode n,
               re_plane env n (nat (pixel_size (pg_width page))) (nat (pixel_size (pg_height page)))))
       (il_components (ink_selection (re_process env) (sa_retain args) (sa_ignore args) (pg_inks page)))"

definition planes_wf :: "raster_env \<Rightarrow> sep_page \<Rightarrow> sep_args \<Rightarrow> bool" where
  "planes_wf env page args \<longleftrightarrow>
     list_all (\<lambda>n. plane_wf (nat (pixel_size (pg_width page))) (nat (pixel_size (pg_height page)))
                     (re_plane env n (nat (pixel_size (pg_width page))) (nat (pixel_size (pg_height page)))))
       (il_components (ink_selection (re_process env) (sa_retain args) (sa_ignore args) (pg_inks page)))"

text \<open>A CMYK rasteriser whose planes are constant (the byte is the length of the ink's
  name) and a one-inch page with two spot inks, used by the examples.\<close>

definition cmyk_env :: raster_env where
  "cmyk_env = \<lparr>re_process = [''Cyan'', ''Magenta'', ''Yellow'', ''Black''],
               re_plane = (\<lambda>n w h. replicate h (replicate w (of_nat (length n))))\<rparr>"

definition inch_page :: sep_page where
  "inch_page = \<lparr>pg_width = 1, pg_height = 1, pg_inks = [''Orange'', ''Green'']\<rparr>"

subsection \<open>Ink selection, buffers and rows\<close>

lemma classify_inks_eq:
  "classify_inks retain ignore ns st =
     st\<lparr>il_components := il_components st @ filter (\<lambda>n. \<not> 0 \<le> py_find ignore n \<and> 0 \<le> py_find retain n) ns,
        il_ignore := il_ignore st @ filter (\<lambda>n. 0 \<le> py_find ignore n) ns,
        il_retain := il_retain st @ filter (\<lambda>n. \<not> 0 \<le> py_find ignore n \<and> 0 \<le> py_find retain n) ns\<rparr>"
  by (induction ns arbitrary: st) auto

lemma ink_selection_eq:
  "ink_selection process retain ignore inks =
     \<lparr>il_components = process @ filter (\<lambda>n. \<not> sublist n ignore \<and> sublist n retain) inks,
      il_ignore = filter (\<lambda>n. sublist n ignore) inks,
      il_retain = filter (\<lambda>n. \<not> sublist n ignore \<and> sublist n retain) inks\<rparr>"
  by (simp add: ink_selection_def classify_inks_eq py_find_found_iff)

lemma fb_write_rows:
  assumes "length P = y * w" "list_all (\<lambda>r. length r = w) rows" "w * length rows \<le> length R"
  shows "fb_write (P @ R) 0 w y rows = P @ concat rows @ drop (w * length rows) R"
  using assms
proof (induction rows arbitrary: P R y)
  case Nil
  then show ?case by simp
next
  case (Cons row rows)
  have lr: "length row = w" using Cons.prems(2) by simp
  have "take (y * w) (P @ R) = P" "drop (y * w + length row) (P @ R) = drop w R"
    using Cons.prems(1) lr by simp_all
  then have "fb_write (P @ R) 0 w y (row # rows) = fb_write ((P @ row) @ drop w R) 0 w (Suc y) rows"
    by simp
  also have "\<dots> = (P @ row) @ concat rows @ drop (w * length rows) (drop w R)"
    using Cons.prems lr by (intro Cons.IH) (simp_all add: algebra_simps)
  finally show ?case by (simp add: add.commute)
qed

lemma fb_write_fresh:
  assumes "plane_wf w h rows"
  shows "fb_write (replicate (w * h * 8) 0) 0 w 0 rows = concat rows @ replicate (7 * (w * h)) 0"
proof -
  have "fb_write ([] @ replicate (w * h * 8) 0) 0 w 0 rows = [] @ concat rows @ drop (w * length rows) (replicate (w * h * 8) 0)"
    using assms by (intro fb_write_rows) (auto simp: plane_wf_def)
  then show ?thesis using assms by (simp add: plane_wf_def)
qed

lemma concat_rows_nth:
  assumes "list_all (\<lambda>r. length r = w) rows" "y < length rows"
  shows "take w (drop (y * w) (concat rows @ Z)) = rows ! y"
  using assms
proof (induction rows arbitrary: y)
  case Nil
  then show ?case by simp
next
  case (Cons row rows)
  then show ?case by (cases y) (auto simp: add.commute)
qed

lemma buffer_rows_concat:
  assumes "plane_wf w h rows"
  shows "buffer_rows (concat rows @ Z) w h = rows"
proof (rule nth_equalityI)
  show "length (buffer_rows (concat rows @ Z) w h) = length rows"
    using assms by (simp add: buffer_rows_def plane_wf_def)
next
  fix y assume "y < length (buffer_rows (concat rows @ Z) w h)"
  then have y: "y < h" "y < length rows" using assms by (simp_all add: buffer_rows_def plane_wf_def)
  have "py_slice (concat rows @ Z) (y * w) (y * w + w) = take w (drop (y * w) (concat rows @ Z))"
    by (simp only: py_slice_def take_drop add.commute)
  then show "buffer_rows (concat rows @ Z) w h ! y = rows ! y"
    using y assms concat_rows_nth [of w rows y Z] by (simp add: buffer_rows_def plane_wf_def)
qed

lemma il_components_selection:
  "il_components (ink_selection process retain ignore inks) =
     process @ il_retain (ink_selection process retain ignore inks)"
  by (simp add: ink_selection_eq)

lemma regular_loop_ok:
  "\<forall>j \<in> set js. j < length images \<Longrightarrow>
   regular_loop stem names images js out =
     (None, out @ map (\<lambda>j. (tiff_path stem ''regular'' (names ! j), images ! j)) js)"
  by (induction js arbitrary: out) (simp_all add: py_get_def)

lemma sep_main_regular_eq:
  assumes "parse_args argv = Inr args" "sa_frame_buffers args = ''false''"
  shows "sep_main env page argv = (0, expected_outputs env page args ''regular'')"
proof -
  let ?sel = "ink_selection (re_process env) (sa_retain args) (sa_ignore args) (pg_inks page)"
  let ?w = "nat (pixel_size (pg_width page))" and ?h = "nat (pixel_size (pg_height page))"
  let ?names = "il_components ?sel" and ?stem = "path_stem (sa_input args)"
  have images: "render_separations env (il_retain ?sel) ?w ?h = map (\<lambda>n. re_plane env n ?w ?h) ?names"
    by (simp add: render_separations_def il_components_selection [of "re_process env"])
  have "regular_loop ?stem ?names (map (\<lambda>n. re_plane env n ?w ?h) ?names) [0..<length ?names] [] =
        (None, map (\<lambda>j. (tiff_path ?stem ''regular'' (?names ! j), map (\<lambda>n. re_plane env n ?w ?h) ?names ! j))
                 [0..<length ?names])"
    by (simp add: regular_loop_ok)
  also have "\<dots> = (None, expected_outputs env page args ''regular'')"
    by (simp add: expected_outputs_def map_upt_nth_pair)
  finally show ?thesis using assms images by (simp add: sep_main_def sep_render_def Let_def)
qed

lemma make_frame_buffers_ok:
  assumes "0 \<le> w" "0 \<le> h"
  shows "make_frame_buffers n w h 8 =
    Inr (replicate n (replicate (nat w * nat h * 8) 0),
         replicate n \<lparr>fb_ofs = 0, fb_row_stride = nat w, fb_pixel_stride = 0\<rparr>)"
proof -
  have "nat (w * h * 8) = nat w * nat h * 8" using assms by (simp add: nat_mult_distrib)
  moreover have "\<not> w * h * 8 < 0" using assms by (simp add: not_less)
  ultimately show ?thesis using assms by (cases "n = 0") (simp_all add: make_frame_buffers_def py_bytearray_def)
qed

lemma fb_write_all_fresh:
  "list_all (\<lambda>n. plane_wf w h (re_plane env n w h)) xs \<Longrightarrow>
   map (\<lambda>(n, buf, info). fb_write buf (fb_ofs info) (fb_row_stride info) 0 (re_plane env n w h))
     (zip xs (zip (replicate (length xs) (replicate (w * h * 8) 0))
        (replicate (length xs) \<lparr>fb_ofs = 0, fb_row_stride = w, fb_pixel_stride = 0\<rparr>))) =
   map (\<lambda>n. concat (re_plane env n w h) @ replicate (7 * (w * h)) 0) xs"
  by (induction xs) (simp_all add: fb_write_fresh)

lemma render_to_frame_buffers_fresh:
  assumes "list_all (\<lambda>n. plane_wf w h (re_plane env n w h)) (re_process env @ retain)"
  shows "render_to_frame_buffers env retain w h
           (replicate (length (re_process env @ retain)) (replicate (w * h * 8) 0))
           (replicate (length (re_process env @ retain)) \<lparr>fb_ofs = 0, fb_row_stride = w, fb_pixel_stride = 0\<rparr>) =
         map (\<lambda>n. concat (re_plane env n w h) @ replicate (7 * (w * h)) 0) (re_process env @ retain)"
  unfolding render_to_frame_buffers_def by (rule fb_write_all_fresh [OF assms])

lemma fb_outputs_fresh:
  assumes "0 \<le> w" "0 \<le> h" "list_all (\<lambda>n. plane_wf (nat w) (nat h) (P n)) names"
  shows "fb_outputs stem names (map (\<lambda>n. concat (P n) @ Z) names) w h =
           Inr (map (\<lambda>n. (tiff_path stem ''frameBuffer'' n, P n)) names)"
proof -
  have "map (\<lambda>j. (tiff_path stem ''frameBuffer'' (names ! j),
                  buffer_rows (map (\<lambda>n. concat (P n) @ Z) names ! j) (nat w) (nat h))) [0..<length names] =
        map (\<lambda>n. (tiff_path stem ''frameBuffer'' n, P n)) names"
    using assms(3) by (intro nth_equalityI) (simp_all add: buffer_rows_concat list_all_length)
  then show ?thesis using assms(1,2) by (simp add: fb_outputs_def)
qed

lemma pixel_size_nonneg: "0 \<le> d \<Longrightarrow> 0 \<le> pixel_size d"
  by (simp add: pixel_size_def py_round_nonneg)

lemma sep_main_fb_eq:
  assumes "parse_args argv = Inr args" "sa_frame_buffers args = ''true''"
    and "0 \<le> pg_width page" "0 \<le> pg_height page" "planes_wf env page args"
  shows "sep_main env page argv = (0, expected_outputs env page args ''frameBuffer'')"
proof -
  let ?sel = "ink_selection (re_process env) (sa_retain args) (sa_ignore args) (pg_inks page)"
  let ?W = "pixel_size (pg_width page)" and ?H = "pixel_size (pg_height page)"
  let ?names = "il_components ?sel"
  have wh: "0 \<le> ?W" "0 \<le> ?H" using assms(3,4) by (simp_all add: pixel_size_nonneg)
  have wf: "list_all (\<lambda>n. plane_wf (nat ?W) (nat ?H) (re_plane env n (nat ?W) (nat ?H))) ?names"
    using assms(5) by (simp add: planes_wf_def)
  have bufs: "render_to_frame_buffers env (il_retain ?sel) (nat ?W) (nat ?H)
      (replicate (length ?names) (replicate (nat ?W * nat ?H * 8) 0))
      (replicate (length ?names) \<lparr>fb_ofs = 0, fb_row_stride = nat ?W, fb_pixel_stride = 0\<rparr>) =
    map (\<lambda>n. concat (re_plane env n (nat ?W) (nat ?H)) @ replicate (7 * (nat ?W * nat ?H)) 0) ?names"
    using render_to_frame_buffers_fresh [of "nat ?W" "nat ?H" env "il_retain ?sel"] wf
    by (simp add: il_components_selection [of "re_process env"])
  have out: "fb_outputs (path_stem (sa_input args)) ?names
      (map (\<lambda>n. concat (re_plane env n (nat ?W) (nat ?H)) @ replicate (7 * (nat ?W * nat ?H)) 0) ?names) ?W ?H =
    Inr (expected_outputs env page args ''frameBuffer'')"
    using fb_outputs_fresh [OF wh wf] by (simp add: expected_outputs_def)
  show ?thesis
    using assms(1,2) make_frame_buffers_ok [OF wh, of "length ?names"] bufs out
    by (simp add: sep_main_def sep_render_def Let_def)
qed

lemma pixel_size_one: "pixel_size 1 = 6"
  by (simp add: pixel_size_def py_round_def)

lemma parse_args_flag:
  "parse_args argv = Inr args \<Longrightarrow>
   parse_args (argv[4 := ''false'']) = Inr (args\<lparr>sa_frame_buffers := ''false''\<rparr>)"
  by (auto simp: parse_args_def split: if_splits)

lemma expected_outputs_flag:
  "expected_outputs env page (args\<lparr>sa_frame_buffers := f\<rparr>) mode = expected_outputs env page args mode"
  by (simp add: expected_outputs_def)

lemma expected_outputs_rows:
  "map snd (expected_outputs env page args mode) = map snd (expected_outputs env page args mode')"
  by (simp add: expected_outputs_def)

lemma sample_args_true:
  "parse_args [''prog'', ''doc.pdf'', ''Orange'', '''', ''true''] =
     Inr \<lparr>sa_input = ''doc.pdf'', sa_retain = ''Orange'', sa_ignore = '''', sa_frame_buffers = ''true''\<rparr>"
  by (simp add: parse_args_def)

lemma sample_planes_wf:
  "planes_wf cmyk_env inch_page \<lparr>sa_input = ''doc.pdf'', sa_retain = ''Orange'', sa_ignore = '''', sa_frame_buffers = ''true''\<rparr>"
  by code_simp

subsection \<open>Properties of \<open>main\<close>\<close>

text \<open>C16: ink selection is substring search with the ignore list first: the ignored inks
  are the page inks whose name occurs in the ignore string, the retained inks those whose
  name occurs in the retain string but not in the ignore string, in page order, and the
  component names are the process colorants followed by the retained inks.\<close>

theorem ink_selection_by_substring:
  "ink_selection process retain ignore inks =
     \<lparr>il_components = process @ filter (\<lambda>n. \<not> sublist n ignore \<and> sublist n retain) inks,
      il_ignore = filter (\<lambda>n. sublist n ignore) inks,
      il_retain = filter (\<lambda>n. \<not> sublist n ignore \<and> sublist n retain) inks\<rparr>"
  by (rule ink_selection_eq)

text \<open>C17: in frame-buffer mode, on a page of non-negative size whose planes have the
  requested size, \<open>main\<close> returns 0 and writes one TIFF per component name whose
  scanlines are exactly the rows of that ink's plane.\<close>

theorem sep_main_frame_buffers:
  assumes "parse_args argv = Inr args" "sa_frame_buffers args = ''true''"
    and "0 \<le> pg_width page" "0 \<le> pg_height page" "planes_wf env page args"
  shows "sep_main env page argv = (0, expected_outputs env page args ''frameBuffer'')"
  by (rule sep_main_fb_eq [OF assms])

theorem sep_main_frame_buffers_witness:
  "sep_main cmyk_env inch_page [''prog'', ''doc.pdf'', ''Orange'', '''', ''true''] =
     (0, expected_outputs cmyk_env inch_page
           \<lparr>sa_input = ''doc.pdf'', sa_retain = ''Orange'', sa_ignore = '''', sa_frame_buffers = ''true''\<rparr> ''frameBuffer'')"
  by (rule sep_main_frame_buffers [OF sample_args_true _ _ _ sample_planes_wf]) (simp_all add: inch_page_def)

text \<open>C18: in regular mode \<open>main\<close> returns 0 and writes one TIFF per component name holding
  the image \<open>renderSeparations\<close> produced for that ink; no \<open>images[j]\<close> is out of range.\<close>

theorem sep_main_regular:
  assumes "parse_args argv = Inr args" "sa_frame_buffers args = ''false''"
  shows "sep_main env page argv = (0, expected_outputs env page args ''regular'')"
  by (rule sep_main_regular_eq [OF assms])

theorem sep_main_regular_witness:
  "sep_main cmyk_env inch_page [''prog'', ''doc.pdf'', ''Orange'', '''', ''false''] =
     (0, expected_outputs cmyk_env inch_page
           \<lparr>sa_input = ''doc.pdf'', sa_retain = ''Orange'', sa_ignore = '''', sa_frame_buffers = ''false''\<rparr> ''regular'')"
  by (rule sep_main_regular) (simp_all add: parse_args_def)

text \<open>C19: the two output modes agree (spec section 4.1): with the same page and ink
  arguments, frame-buffer mode and regular mode return the same value and write the same
  pixel rows for every component, in the same order.\<close>

theorem sep_main_modes_agree:
  assumes "parse_args argv = Inr args" "sa_frame_buffers args = ''true''"
    and "0 \<le> pg_width page" "0 \<le> pg_height page" "planes_wf env page args"
  shows "fst (sep_main env page argv) = fst (sep_main env page (argv[4 := ''false''])) \<and>
         map snd (snd (sep_main env page argv)) = map snd (snd (sep_main env page (argv[4 := ''false''])))"
proof -
  have "sep_main env page (argv[4 := ''false'']) =
      (0, expected_outputs env page (args\<lparr>sa_frame_buffers := ''false''\<rparr>) ''regular'')"
    by (rule sep_main_regular_eq [OF parse_args_flag [OF assms(1)]]) simp
  then show ?thesis
    using sep_main_fb_eq [OF assms] by (simp add: expected_outputs_flag expected_outputs_rows)
qed

theorem sep_main_modes_agree_witness:
  "fst (sep_main cmyk_env inch_page [''prog'', ''doc.pdf'', ''Orange'', '''', ''true'']) =
     fst (sep_main cmyk_env inch_page ([''prog'', ''doc.pdf'', ''Orange'', '''', ''true''][4 := ''false''])) \<and>
   map snd (snd (sep_main cmyk_env inch_page [''prog'', ''doc.pdf'', ''Orange'', '''', ''true''])) =
     map snd (snd (sep_main cmyk_env inch_page ([''prog'', ''doc.pdf'', ''Orange'', '''', ''true''][4 := ''false''])))"
  by (rule sep_main_modes_agree [OF sample_args_true _ _ _ sample_planes_wf]) (simp_all add: inch_page_def)

text \<open>C20: the frame buffers are allocated with \<open>pixel_width * pixel_height * depth\<close>
  bytes, \<open>depth\<close> being a bit count: after rendering, each buffer is its plane's
  \<open>w * h\<close> bytes followed by \<open>7 * w * h\<close> bytes nobody writes or reads.\<close>

theorem frame_buffers_overallocated:
  assumes "make_frame_buffers (length (re_process env @ retain)) w h 8 = Inr (bufs, infos)"
    and "0 \<le> w" "0 \<le> h"
    and "list_all (\<lambda>n. plane_wf (nat w) (nat h) (re_plane env n (nat w) (nat h))) (re_process env @ retain)"
  shows "render_to_frame_buffers env retain (nat w) (nat h) bufs infos =
           map (\<lambda>n. concat (re_plane env n (nat w) (nat h)) @ replicate (7 * (nat w * nat h)) 0)
             (re_process env @ retain)"
  using assms(1) make_frame_buffers_ok [OF assms(2,3), of "length (re_process env @ retain)"]
    render_to_frame_buffers_fresh [OF assms(4)]
  by simp

theorem frame_buffers_overallocated_witness:
  "render_to_frame_buffers cmyk_env [''Orange''] 6 6
     (replicate 5 (replicate 288 0)) (replicate 5 \<lparr>fb_ofs = 0, fb_row_stride = 6, fb_pixel_stride = 0\<rparr>) =
   map (\<lambda>n. concat (re_plane cmyk_env n 6 6) @ replicate 252 0) [''Cyan'', ''Magenta'', ''Yellow'', ''Black'', ''Orange'']"
proof -
  have mk: "make_frame_buffers (length (re_process cmyk_env @ [''Orange''])) 6 6 8 =
      Inr (replicate 5 (replicate 288 0), replicate 5 \<lparr>fb_ofs = 0, fb_row_stride = 6, fb_pixel_stride = 0\<rparr>)"
    by code_simp
  have wf: "list_all (\<lambda>n. plane_wf (nat 6) (nat 6) (re_plane cmyk_env n (nat 6) (nat 6)))
      (re_process cmyk_env @ [''Orange''])"
    by code_simp
  show ?thesis using frame_buffers_overallocated [OF mk _ _ wf] by (simp add: cmyk_env_def)
qed

text \<open>C22: with fewer than four arguments, or a \<open>framebuffers\<close> argument other than
  \<open>true\<close> or \<open>false\<close>, \<open>main\<close> returns -1 and writes nothing.\<close>

theorem sep_main_bad_arguments:
  assumes "length argv < 5 \<or> (argv ! 4 \<noteq> ''true'' \<and> argv ! 4 \<noteq> ''false'')"
  shows "sep_main env page argv = (-1, [])"
  using assms by (auto simp: sep_main_def parse_args_def)

theorem sep_main_bad_arguments_witness:
  "sep_main cmyk_env inch_page [''prog'', ''doc.pdf'', '''', '''', ''yes''] = (-1, [])"
  by (rule sep_main_bad_arguments) simp

text \<open>A requested spot ink that the page does not have is dropped silently: asked to
  retain \<open>Gold\<close> on a page with inks Orange and Green, \<open>main\<close> returns 0 and writes the
  four process separations only (spec section 4.1 says the operation fails).\<close>

theorem sep_main_missing_ink_dropped: "sep_main cmyk_env inch_page [''prog'', ''doc.pdf'', ''Gold'', '''', ''true''] =
    (0, [(''TestFiles/doc_frameBuffer_Cyan.tif'', replicate 6 (replicate 6 4)),
         (''TestFiles/doc_frameBuffer_Magenta.tif'', replicate 6 (replicate 6 7)),
         (''TestFiles/doc_frameBuffer_Yellow.tif'', replicate 6 (replicate 6 6)),
         (''TestFiles/doc_frameBuffer_Black.tif'', replicate 6 (replicate 6 5))])"
proof -
  let ?a = "\<lparr>sa_input = ''doc.pdf'', sa_retain = ''Gold'', sa_ignore = '''', sa_frame_buffers = ''true''\<rparr>"
  have "sep_main cmyk_env inch_page [''prog'', ''doc.pdf'', ''Gold'', '''', ''true''] =
      (0, expected_outputs cmyk_env inch_page ?a ''frameBuffer'')"
  proof (rule sep_main_fb_eq)
    show "planes_wf cmyk_env inch_page ?a" by code_simp
  qed (simp_all add: parse_args_def inch_page_def)
  also have "expected_outputs cmyk_env inch_page ?a ''frameBuffer'' =
    [(''TestFiles/doc_frameBuffer_Cyan.tif'', replicate 6 (replicate 6 4)),
         (''TestFiles/doc_frameBuffer_Magenta.tif'', replicate 6 (replicate 6 7)),
         (''TestFiles/doc_frameBuffer_Yellow.tif'', replicate 6 (replicate 6 6)),
         (''TestFiles/doc_frameBuffer_Black.tif'', replicate 6 (replicate 6 5))]"
    by code_simp
  finally show ?thesis .
qed

text \<open>Inks are matched by substring, not by name: the retain string \<open>DarkOrange\<close>
  retains the page inks Orange and Dark, and the ignore string \<open>Green\<close> also ignores an
  ink named Gre.\<close>

theorem ink_selection_substring_match:
  "ink_selection [''Cyan''] ''DarkOrange'' ''Green'' [''Orange'', ''Dark'', ''Green'', ''Gre''] =
   \<lparr>il_components = [''Cyan'', ''Orange'', ''Dark''], il_ignore = [''Green'', ''Gre''],
    il_retain = [''Orange'', ''Dark'']\<rparr>"
  by code_simp

text \<open>C39: the raster size of line 49, \<open>int(round(d / 96.0 * 576.0))\<close> with Python's
  round-half-to-even, is within half a pixel of the exact six pixels per point, for every
  page dimension \<open>d\<close>.\<close>

theorem pixel_size_bound: "\<bar>of_int (pixel_size d) - 6 * d\<bar> \<le> 1/2"
proof -
  have "d / 96 * 576 = 6 * d" by simp
  then show ?thesis using py_round_dist [of "d / 96 * 576"] by (simp add: pixel_size_def)
qed

end
