(* ===== verification/PartialImage.thy ===== *)
theory PartialImage
  imports Prelude
begin

text \<open>
  The scanline pipeline of \<open>GetPartialImage/main.py\<close>: \<open>get_partial_image\<close> normalises
  the bit depth of the source image (lines 55--73), checks that the requested rectangle lies
  inside the image (lines 79--82), creates a writer over a compressed temporary store
  (lines 84--103), skips to the first row and copies \<open>dY\<close> row slices through two reused
  row buffers (lines 105--116), and flushes the writer (line 118).

  The source frame is a record whose \<open>fr_pos\<close> is the forward-only scanline cursor:
  \<open>skip_scanlines\<close> and \<open>read_scanline\<close> only move it forward, and reading past the
  last row is an SDK exception. The SDK pieces the function calls are modelled from the
  spec: the bit scaler (samples unpacked most significant bit first and rescaled to 8 or 16
  bits), \<open>FRect.containsRect\<close>, and the writer/image pair whose rows are stored in the
  temporary store as one byte stream (LZ4 compression is a bijection on that stream and is
  left out).
\<close>

subsection \<open>Frames, rectangles and the SDK calls\<close>

record image_frame =
  fr_width :: nat
  fr_height :: nat
  fr_bps :: nat
  fr_channels :: nat
  fr_stride :: nat
  fr_space :: string
  fr_xres :: real
  fr_yres :: real
  fr_data :: "u8 list list"
  fr_pos :: nat

text \<open>\<open>FRect(x, y, dX, dY)\<close>; the sample passes whole numbers and the code truncates the
  fields with \<open>int()\<close>, so they are integers here.\<close>

record frect =
  rx :: int
  ry :: int
  rdX :: int
  rdY :: int

record sub_image =
  si_space :: string
  si_width :: nat
  si_height :: nat
  si_bps :: nat
  si_channels :: nat
  si_xres :: real
  si_yres :: real
  si_data :: "u8 list"

text \<open>\<open>FRect.containsRect\<close>, as section 3 of the spec states the containment invariant.\<close>

definition contains_rect :: "frect \<Rightarrow> frect \<Rightarrow> bool" where
  "contains_rect outer r \<longleftrightarrow>
     rx outer \<le> rx r \<and> ry outer \<le> ry r \<and>
     rx r + rdX r \<le> rx outer + rdX outer \<and> ry r + rdY r \<le> ry outer + rdY outer"

text \<open>\<open>image_frame.skipScanLines(n)\<close> and \<open>readScanLine(buf, stride)\<close>.\<close>

definition skip_scanlines :: "image_frame \<Rightarrow> nat \<Rightarrow> image_frame res" where
  "skip_scanlines fr n =
     (if fr_pos fr + n \<le> length (fr_data fr) then Inr (fr\<lparr>fr_pos := fr_pos fr + n\<rparr>)
      else Inl (MakoException ''skipScanLines past the last row''))"

definition read_scanline :: "image_frame \<Rightarrow> nat \<Rightarrow> (u8 list \<times> image_frame) res" where
  "read_scanline fr stride =
     (if fr_pos fr < length (fr_data fr)
      then Inr (take stride (fr_data fr ! fr_pos fr), fr\<lparr>fr_pos := Suc (fr_pos fr)\<rparr>)
      else Inl (MakoException ''readScanLine past the last row''))"

text \<open>The bit scaler filter: a row's samples, most significant bit first.\<close>

definition byte_bits :: "u8 \<Rightarrow> bool list" where
  "byte_bits b = map (\<lambda>i. odd (unat b div 2 ^ i)) (rev [0..<8])"

definition bits_to_nat :: "bool list \<Rightarrow> nat" where
  "bits_to_nat bs = foldl (\<lambda>n b. 2 * n + (if b then 1 else 0)) 0 bs"

function chunks :: "nat \<Rightarrow> 'a list \<Rightarrow> 'a list list" where
  "chunks n xs = (if n = 0 \<or> xs = [] then [] else take n xs # chunks n (drop n xs))"
  by pat_completeness auto
termination
  by (relation "measure (\<lambda>(n, xs). length xs)") auto

declare chunks.simps [simp del]

definition unpack_samples :: "nat \<Rightarrow> nat \<Rightarrow> u8 list \<Rightarrow> nat list" where
  "unpack_samples bps n row =
     take n (map bits_to_nat (chunks bps (concat (map byte_bits row))))"

definition scale_sample :: "nat \<Rightarrow> nat \<Rightarrow> nat \<Rightarrow> nat" where
  "scale_sample from to v = v * (2 ^ to - 1) div (2 ^ from - 1)"

definition pack_sample :: "nat \<Rightarrow> nat \<Rightarrow> u8 list" where
  "pack_sample to v = (if to = 8 then [word_of_nat v] else [word_of_nat (v div 256), word_of_nat (v mod 256)])"

text \<open>\<open>IDOMFilteredImage.create(..., IDOMImageBitScalerFilter.create(factory, to))\<close>
  followed by \<open>getImageFrame\<close>: a fresh frame of depth \<open>to\<close>.\<close>

definition bit_scale :: "nat \<Rightarrow> image_frame \<Rightarrow> image_frame" where
  "bit_scale to fr =
     fr\<lparr>fr_bps := to,
        fr_stride := fr_width fr * fr_channels fr * (to div 8),
        fr_data := map (\<lambda>row. concat (map (\<lambda>v. pack_sample to (scale_sample (fr_bps fr) to v))
                     (unpack_samples (fr_bps fr) (fr_width fr * fr_channels fr) row))) (fr_data fr),
        fr_pos := 0\<rparr>"

text \<open>\<open>IDOMRawImage.createWriterAndImage\<close> takes unsigned sizes: a negative size is
  rejected by the binding before any row is written.\<close>

definition create_writer_and_image ::
  "string \<Rightarrow> int \<Rightarrow> int \<Rightarrow> nat \<Rightarrow> nat \<Rightarrow> real \<Rightarrow> real \<Rightarrow> sub_image res" where
  "create_writer_and_image space w h bps channels xres yres =
     (if w < 0 \<or> h < 0 then Inl OverflowError
      else Inr \<lparr>si_space = space, si_width = nat w, si_height = nat h, si_bps = bps,
                si_channels = channels, si_xres = xres, si_yres = yres, si_data = []\<rparr>)"

text \<open>\<open>frame_writer.writeScanLine(buf)\<close>: the row's bytes go to the temporary store.\<close>

definition write_scanline :: "sub_image \<Rightarrow> u8 list \<Rightarrow> sub_image" where
  "write_scanline si buf = si\<lparr>si_data := si_data si @ buf\<rparr>"

text \<open>Reading the finished image back: \<open>si_height\<close> rows of \<open>si_width\<close> pixels.\<close>

fun read_rows :: "nat \<Rightarrow> nat \<Rightarrow> u8 list \<Rightarrow> u8 list list" where
  "read_rows 0 len bytes = []"
| "read_rows (Suc n) len bytes = take len bytes # read_rows n len (drop len bytes)"

definition sub_image_rows :: "sub_image \<Rightarrow> u8 list list" where
  "sub_image_rows si =
     read_rows (si_height si) (si_width si * (si_channels si * si_bps si div 8)) (si_data si)"

subsection \<open>\<open>get_partial_image\<close>\<close>

text \<open>Lines 55--73: scale to 8 bits below 8, to 16 bits at any other depth but 8 and 16.\<close>

definition normalise_depth :: "image_frame \<Rightarrow> image_frame \<times> nat" where
  "normalise_depth fr =
     (let bps = fr_bps fr in
      if bps < 8 then (bit_scale 8 fr, 8)
      else if bps \<noteq> 8 \<and> bps \<noteq> 16 then (bit_scale 16 fr, 16)
      else (fr, bps))"

text \<open>Lines 112--116: read a row, slice it into the target buffer (slice assignment
  \<open>target[:] = row[start:start + len(target)]\<close> replaces the buffer's contents), write.\<close>

fun copy_rows :: "nat \<Rightarrow> nat \<Rightarrow> nat \<Rightarrow> image_frame \<Rightarrow> u8 list \<Rightarrow> sub_image \<Rightarrow>
    (image_frame \<times> u8 list \<times> sub_image) res" where
  "copy_rows 0 start stride fr target si = Inr (fr, target, si)"
| "copy_rows (Suc n) start stride fr target si =
     res_bind (read_scanline fr stride) (\<lambda>(row_buffer, fr').
       (let target' = py_slice row_buffer start (start + length target) in
        copy_rows n start stride fr' target' (write_scanline si target')))"

definition get_partial_image :: "image_frame \<Rightarrow> frect \<Rightarrow> sub_image option res" where
  "get_partial_image fr0 r =
     (let (fr, bps) = normalise_depth fr0;
          stride = fr_stride fr;
          bpp = fr_channels fr * bps div 8;
          original = \<lparr>rx = 0, ry = 0, rdX = int (fr_width fr), rdY = int (fr_height fr)\<rparr>
      in if \<not> contains_rect original r then Inr None
         else
           res_bind (create_writer_and_image (fr_space fr) (rdX r) (rdY r) bps (fr_channels fr)
                       (fr_xres fr) (fr_yres fr)) (\<lambda>si.
           (let target = replicate (nat (rdX r) * bpp) 0 in
            res_bind (skip_scanlines fr (nat (ry r))) (\<lambda>fr1.
            res_bind (copy_rows (nat (rdY r)) (nat (rx r) * bpp) stride fr1 target si)
              (\<lambda>(_, _, si'). Inr (Some si'))))))"

datatype gpi_line = GPIMakoException string | GPIException py_error

text \<open>\<open>main\<close> (lines 18--45) on the decoded sample image (\<open>opened\<close>; an SDK error where
  the file cannot be opened or decoded): it extracts the kayak rectangle
  \<open>FRect(230, 230, 400, 250)\<close> and encodes the result as \<open>JustTheKayak.png\<close>. Nothing
  tests the null image \<open>get_partial_image\<close> returns for a rectangle outside the image:
  \<open>IDOMPNGImage.encode\<close> rejects it, and the exception is printed.\<close>

definition partial_image_main :: "image_frame res \<Rightarrow> gpi_line list \<times> (string \<times> sub_image) option" where
  "partial_image_main opened =
     (case res_bind opened (\<lambda>image.
             res_bind (get_partial_image image \<lparr>rx = 230, ry = 230, rdX = 400, rdY = 250\<rparr>)
               (\<lambda>partial_image.
                  case partial_image of
                    None \<Rightarrow> Inl (PyException ''encode'')
                  | Some si \<Rightarrow> Inr (''JustTheKayak.png'', si))) of
        Inl (MakoException m) \<Rightarrow> ([GPIMakoException m], None)
      | Inl e \<Rightarrow> ([GPIException e], None)
      | Inr out \<Rightarrow> ([], Some out))"

definition frame_wf :: "image_frame \<Rightarrow> bool" where
  "frame_wf fr \<longleftrightarrow>
     0 < fr_bps fr \<and>
     length (fr_data fr) = fr_height fr \<and>
     (\<forall>row \<in> set (fr_data fr). length row = fr_stride fr) \<and>
     fr_width fr * fr_channels fr * fr_bps fr \<le> 8 * fr_stride fr"


text \<open>The slices the copy loop writes, row by row, for a given start byte and length.\<close>

definition row_slices :: "nat \<Rightarrow> nat \<Rightarrow> u8 list list \<Rightarrow> u8 list list" where
  "row_slices start len rows = map (\<lambda>row. take len (drop start row)) rows"

text \<open>A one-row, 1-bit grey source used by the examples.\<close>

definition one_bit_frame :: image_frame where
  "one_bit_frame = \<lparr>fr_width = 8, fr_height = 1, fr_bps = 1, fr_channels = 1, fr_stride = 1,
      fr_space = ''DeviceGray'', fr_xres = 72, fr_yres = 72, fr_data = [[165]], fr_pos = 0\<rparr>"

subsection \<open>The cursor and the copy loop\<close>

lemma skip_scanlines_Inr:
  "skip_scanlines fr n = Inr fr' \<longleftrightarrow>
     fr_pos fr + n \<le> length (fr_data fr) \<and> fr' = fr\<lparr>fr_pos := fr_pos fr + n\<rparr>"
  by (auto simp: skip_scanlines_def)

lemma read_scanline_Inr:
  "read_scanline fr stride = Inr (row, fr') \<longleftrightarrow>
     fr_pos fr < length (fr_data fr) \<and> row = take stride (fr_data fr ! fr_pos fr) \<and>
     fr' = fr\<lparr>fr_pos := Suc (fr_pos fr)\<rparr>"
  by (auto simp: read_scanline_def)

lemma take_Suc_drop_nth:
  "p < length xs \<Longrightarrow> take (Suc n) (drop p xs) = xs ! p # take n (drop (Suc p) xs)"
  by (simp add: Cons_nth_drop_Suc [symmetric])

lemma copy_rows_eq:
  assumes "fr_pos fr + n \<le> length (fr_data fr)"
    and "\<forall>row \<in> set (fr_data fr). length row = stride"
    and "start + length target \<le> stride"
  shows "\<exists>tgt. copy_rows n start stride fr target si =
           Inr (fr\<lparr>fr_pos := fr_pos fr + n\<rparr>, tgt,
                si\<lparr>si_data := si_data si @
                   concat (row_slices start (length target) (take n (drop (fr_pos fr) (fr_data fr))))\<rparr>)"
  using assms
proof (induction n arbitrary: fr target si)
  case 0
  then show ?case by (simp add: row_slices_def)
next
  case (Suc n)
  let ?row = "fr_data fr ! fr_pos fr"
  have pos: "fr_pos fr < length (fr_data fr)" using Suc.prems(1) by simp
  then have len: "length ?row = stride" using Suc.prems(2) by simp
  let ?t = "take (length target) (drop start ?row)"
  have slice: "py_slice (take stride ?row) start (start + length target) = ?t"
    using len Suc.prems(3) by (simp add: py_slice_in_range)
  have lt: "length ?t = length target" using len Suc.prems(3) by simp
  let ?fr' = "fr\<lparr>fr_pos := Suc (fr_pos fr)\<rparr>"
  obtain tgt where IH: "copy_rows n start stride ?fr' ?t (write_scanline si ?t) =
      Inr (?fr'\<lparr>fr_pos := fr_pos ?fr' + n\<rparr>, tgt,
           (write_scanline si ?t)\<lparr>si_data := si_data (write_scanline si ?t) @
              concat (row_slices start (length ?t) (take n (drop (fr_pos ?fr') (fr_data ?fr'))))\<rparr>)"
    using Suc.IH [of ?fr' ?t "write_scanline si ?t"] Suc.prems lt by auto
  have "copy_rows (Suc n) start stride fr target si =
      copy_rows n start stride ?fr' ?t (write_scanline si ?t)"
    using pos slice by (simp add: read_scanline_def Let_def)
  then show ?case
    using IH lt pos by (simp add: take_Suc_drop_nth write_scanline_def row_slices_def)
qed

lemma copy_rows_cursor:
  "copy_rows n start stride fr target si = Inr (fr', tgt, si') \<Longrightarrow>
     fr_pos fr' = fr_pos fr + n \<and> fr_data fr' = fr_data fr"
proof (induction n arbitrary: fr target si)
  case 0
  then show ?case by simp
next
  case (Suc n)
  let ?t = "\<lambda>row. py_slice row start (start + length target)"
  from Suc.prems obtain row fr1 where rd: "read_scanline fr stride = Inr (row, fr1)"
    and rest: "copy_rows n start stride fr1 (?t row) (write_scanline si (?t row)) = Inr (fr', tgt, si')"
    by (auto simp: res_bind_Inr_iff Let_def split: prod.splits)
  from rd have "fr_pos fr1 = Suc (fr_pos fr)" "fr_data fr1 = fr_data fr"
    by (auto simp: read_scanline_Inr)
  with Suc.IH [OF rest] show ?case by simp
qed

subsection \<open>The temporary store round trip\<close>

lemma read_rows_concat:
  "\<forall>row \<in> set rows. length row = len \<Longrightarrow> read_rows (length rows) len (concat rows) = rows"
  by (induction rows) simp_all

lemma length_row_slices:
  "\<forall>row \<in> set rows. start + len \<le> length row \<Longrightarrow>
     \<forall>row \<in> set (row_slices start len rows). length row = len"
  by (auto simp: row_slices_def)

subsection \<open>Bit-depth normalisation\<close>

lemma length_byte_bits [simp]: "length (byte_bits b) = 8"
  by (simp add: byte_bits_def)

lemma length_concat_byte_bits: "length (concat (map byte_bits row)) = 8 * length row"
  by (induction row) simp_all

lemma chunks_cover: "0 < n \<Longrightarrow> length xs \<le> n * length (chunks n xs)"
proof (induction n xs rule: chunks.induct)
  case (1 n xs)
  show ?case
  proof (cases "xs = []")
    case True
    then show ?thesis by simp
  next
    case False
    then have "length (drop n xs) \<le> n * length (chunks n (drop n xs))"
      using "1.IH" "1.prems" by simp
    then show ?thesis using False "1.prems" by (subst chunks.simps) simp
  qed
qed

lemma length_unpack_samples:
  assumes "0 < bps" "n * bps \<le> 8 * length row"
  shows "length (unpack_samples bps n row) = n"
proof -
  let ?bits = "concat (map byte_bits row)"
  let ?L = "length (chunks bps ?bits)"
  have b: "8 * length row \<le> ?L * bps"
    using chunks_cover [OF assms(1), of ?bits] by (simp add: length_concat_byte_bits mult.commute)
  have "n * bps \<le> ?L * bps" by (rule le_trans [OF assms(2) b])
  then have "n \<le> ?L" using assms(1) by (simp only: mult_le_cancel2)
  then show ?thesis by (simp add: unpack_samples_def)
qed

lemma length_pack_sample: "to \<in> {8, 16} \<Longrightarrow> length (pack_sample to v) = to div 8"
  by (auto simp: pack_sample_def)

lemma length_concat_pack:
  "to \<in> {8, 16} \<Longrightarrow> length (concat (map (\<lambda>v. pack_sample to (f v)) vs)) = length vs * (to div 8)"
  by (induction vs) (simp_all add: length_pack_sample)

lemma bit_scale_wf:
  assumes "frame_wf fr" "to \<in> {8, 16}"
  shows "frame_wf (bit_scale to fr)"
proof -
  have rows: "\<forall>row \<in> set (fr_data fr). length row = fr_stride fr" and bps: "0 < fr_bps fr"
    and fit: "fr_width fr * fr_channels fr * fr_bps fr \<le> 8 * fr_stride fr"
    using assms(1) by (simp_all add: frame_wf_def)
  have "\<forall>row \<in> set (fr_data fr).
      length (unpack_samples (fr_bps fr) (fr_width fr * fr_channels fr) row) = fr_width fr * fr_channels fr"
    using rows fit bps by (simp add: length_unpack_samples)
  moreover have "to div 8 * 8 = to" using assms(2) by auto
  ultimately show ?thesis
    using assms by (auto simp: frame_wf_def bit_scale_def length_concat_pack)
qed

lemma normalise_depth_cases:
  "normalise_depth fr =
     (if fr_bps fr < 8 then (bit_scale 8 fr, 8)
      else if fr_bps fr \<noteq> 8 \<and> fr_bps fr \<noteq> 16 then (bit_scale 16 fr, 16)
      else (fr, fr_bps fr))"
  by (simp add: normalise_depth_def Let_def)

lemma normalise_depth_fields:
  "fr_width (fst (normalise_depth fr)) = fr_width fr \<and>
   fr_height (fst (normalise_depth fr)) = fr_height fr \<and>
   fr_channels (fst (normalise_depth fr)) = fr_channels fr \<and>
   fr_space (fst (normalise_depth fr)) = fr_space fr \<and>
   fr_xres (fst (normalise_depth fr)) = fr_xres fr \<and>
   fr_yres (fst (normalise_depth fr)) = fr_yres fr"
  by (simp add: normalise_depth_cases bit_scale_def)

lemma normalise_depth_bps:
  "snd (normalise_depth fr) \<in> {8, 16} \<and> fr_bps (fst (normalise_depth fr)) = snd (normalise_depth fr)"
  by (simp add: normalise_depth_cases bit_scale_def)

lemma normalise_depth_wf:
  "frame_wf fr \<Longrightarrow> fr_pos fr = 0 \<Longrightarrow>
     frame_wf (fst (normalise_depth fr)) \<and> fr_pos (fst (normalise_depth fr)) = 0"
  by (simp add: normalise_depth_cases bit_scale_wf) (simp add: bit_scale_def)

subsection \<open>Extraction\<close>

lemma contains_rect_nat:
  assumes "contains_rect \<lparr>rx = 0, ry = 0, rdX = int w, rdY = int h\<rparr> r" "0 \<le> rdX r" "0 \<le> rdY r"
  shows "nat (rx r) + nat (rdX r) \<le> w" "nat (ry r) + nat (rdY r) \<le> h"
proof -
  have "0 \<le> rx r" "0 \<le> ry r" "rx r + rdX r \<le> int w" "ry r + rdY r \<le> int h"
    using assms(1) by (simp_all add: contains_rect_def)
  then show "nat (rx r) + nat (rdX r) \<le> w" "nat (ry r) + nat (rdY r) \<le> h"
    using assms(2,3) by arith+
qed

lemma row_fits_stride:
  assumes "frame_wf fr" "fr_bps fr \<in> {8, 16}"
  shows "fr_width fr * (fr_channels fr * fr_bps fr div 8) \<le> fr_stride fr"
proof -
  have "fr_channels fr * fr_bps fr div 8 * 8 = fr_channels fr * fr_bps fr" using assms(2) by auto
  then have "fr_width fr * (fr_channels fr * fr_bps fr div 8) * 8 = fr_width fr * fr_channels fr * fr_bps fr"
    by (metis mult.assoc)
  also have "\<dots> \<le> fr_stride fr * 8" using assms(1) by (simp add: frame_wf_def)
  finally show ?thesis by simp
qed

text \<open>The region is inside the normalised frame: what \<open>get_partial_image\<close> computes,
  spelled out.\<close>

lemma get_partial_image_inside:
  assumes wf: "frame_wf fr" and fresh: "fr_pos fr = 0"
    and inside: "contains_rect \<lparr>rx = 0, ry = 0, rdX = int (fr_width fr), rdY = int (fr_height fr)\<rparr> r"
    and nonneg: "0 \<le> rdX r" "0 \<le> rdY r"
  defines "nfr \<equiv> fst (normalise_depth fr)" and "bps \<equiv> snd (normalise_depth fr)"
  defines "bpp \<equiv> fr_channels fr * bps div 8"
  shows "get_partial_image fr r = Inr (Some
           \<lparr>si_space = fr_space fr, si_width = nat (rdX r), si_height = nat (rdY r), si_bps = bps,
            si_channels = fr_channels fr, si_xres = fr_xres fr, si_yres = fr_yres fr,
            si_data = concat (row_slices (nat (rx r) * bpp) (nat (rdX r) * bpp)
                        (take (nat (rdY r)) (drop (nat (ry r)) (fr_data nfr))))\<rparr>)"
proof -
  have nd: "normalise_depth fr = (nfr, bps)" by (simp add: nfr_def bps_def)
  have f: "fr_width nfr = fr_width fr" "fr_height nfr = fr_height fr" "fr_channels nfr = fr_channels fr"
      "fr_space nfr = fr_space fr" "fr_xres nfr = fr_xres fr" "fr_yres nfr = fr_yres fr"
    using normalise_depth_fields [of fr] by (simp_all add: nfr_def)
  have b: "bps \<in> {8, 16}" "fr_bps nfr = bps" using normalise_depth_bps [of fr] by (simp_all add: nfr_def bps_def)
  have w: "frame_wf nfr" "fr_pos nfr = 0" using normalise_depth_wf [OF wf fresh] by (simp_all add: nfr_def)
  have len: "length (fr_data nfr) = fr_height fr" and rows: "\<forall>row \<in> set (fr_data nfr). length row = fr_stride nfr"
    using w(1) f by (simp_all add: frame_wf_def)
  have fit: "fr_width fr * bpp \<le> fr_stride nfr"
    using row_fits_stride [OF w(1)] b f by (simp add: bpp_def)
  have x: "nat (rx r) + nat (rdX r) \<le> fr_width fr" and y: "nat (ry r) + nat (rdY r) \<le> fr_height fr"
    using contains_rect_nat [OF inside nonneg] by simp_all
  have start: "nat (rx r) * bpp + nat (rdX r) * bpp \<le> fr_stride nfr"
  proof -
    have "nat (rx r) * bpp + nat (rdX r) * bpp = (nat (rx r) + nat (rdX r)) * bpp" by (simp add: algebra_simps)
    also have "\<dots> \<le> fr_width fr * bpp" using x by (simp add: mult_le_mono1)
    finally show ?thesis using fit by linarith
  qed
  let ?si0 = "\<lparr>si_space = fr_space fr, si_width = nat (rdX r), si_height = nat (rdY r), si_bps = bps,
            si_channels = fr_channels fr, si_xres = fr_xres fr, si_yres = fr_yres fr, si_data = []\<rparr>"
  let ?fr1 = "nfr\<lparr>fr_pos := nat (ry r)\<rparr>"
  let ?target = "replicate (nat (rdX r) * bpp) (0::u8)"
  have skip: "skip_scanlines nfr (nat (ry r)) = Inr ?fr1"
    using w(2) y len by (simp add: skip_scanlines_def)
  obtain tgt where copy: "copy_rows (nat (rdY r)) (nat (rx r) * bpp) (fr_stride nfr) ?fr1 ?target ?si0 =
      Inr (?fr1\<lparr>fr_pos := fr_pos ?fr1 + nat (rdY r)\<rparr>, tgt,
           ?si0\<lparr>si_data := si_data ?si0 @ concat (row_slices (nat (rx r) * bpp) (length ?target)
              (take (nat (rdY r)) (drop (fr_pos ?fr1) (fr_data ?fr1))))\<rparr>)"
    using copy_rows_eq [of ?fr1 "nat (rdY r)" "fr_stride nfr" "nat (rx r) * bpp" ?target ?si0]
      y len rows start by auto
  have inside': "contains_rect \<lparr>rx = 0, ry = 0, rdX = int (fr_width nfr), rdY = int (fr_height nfr)\<rparr> r"
    using inside f by simp
  show ?thesis
    using nd inside' nonneg skip copy f
    by (simp add: get_partial_image_def create_writer_and_image_def bpp_def Let_def)
qed

lemma foldl_bits_bound:
  "(n::nat) < 2 ^ k \<Longrightarrow> foldl (\<lambda>n b. 2 * n + (if b then 1 else 0)) n bs < 2 ^ (k + length bs)"
proof (induction bs arbitrary: n k)
  case Nil
  then show ?case by simp
next
  case (Cons b bs)
  have "2 * n + (if b then 1 else 0) < 2 ^ Suc k" using Cons.prems by auto
  from Cons.IH [OF this] show ?case by simp
qed

lemma bits_to_nat_bound: "bits_to_nat bs < 2 ^ length bs"
  using foldl_bits_bound [of 0 0 bs] by (simp add: bits_to_nat_def)

lemma chunks_length_le: "ys \<in> set (chunks n xs) \<Longrightarrow> length ys \<le> n"
proof (induction n xs rule: chunks.induct)
  case (1 n xs)
  then show ?case by (subst (asm) chunks.simps) (auto split: if_splits)
qed

lemma unpack_one_bit: "v \<in> set (unpack_samples 1 n row) \<Longrightarrow> v \<le> 1"
proof -
  assume "v \<in> set (unpack_samples 1 n row)"
  then have "v \<in> set (map bits_to_nat (chunks 1 (concat (map byte_bits row))))"
    unfolding unpack_samples_def by (rule in_set_takeD)
  then obtain bs where bs: "bs \<in> set (chunks 1 (concat (map byte_bits row)))" and v: "v = bits_to_nat bs"
    by auto
  have "length bs \<le> 1" using chunks_length_le [OF bs] .
  then have "(2::nat) ^ length bs \<le> 2" by (cases "length bs") auto
  then show ?thesis using bits_to_nat_bound [of bs] v by simp
qed

lemma one_bit_rows:
  assumes "fr_bps fr = 1"
  shows "\<forall>row \<in> set (fr_data (fst (normalise_depth fr))). \<forall>b \<in> set row. b = 0 \<or> b = 255"
proof (intro ballI)
  fix row b
  assume row: "row \<in> set (fr_data (fst (normalise_depth fr)))" and b: "b \<in> set row"
  from row assms obtain r0 where row_eq: "row = concat (map (\<lambda>v. pack_sample 8 (scale_sample 1 8 v))
      (unpack_samples 1 (fr_width fr * fr_channels fr) r0))"
    by (auto simp: normalise_depth_cases bit_scale_def)
  from b row_eq obtain v where v: "v \<in> set (unpack_samples 1 (fr_width fr * fr_channels fr) r0)"
    and bv: "b \<in> set (pack_sample 8 (scale_sample 1 8 v))" by auto
  have "v \<le> 1" by (rule unpack_one_bit [OF v])
  then have "v = 0 \<or> v = 1" by auto
  then show "b = 0 \<or> b = 255" using bv by (auto simp: pack_sample_def scale_sample_def)
qed

subsection \<open>Properties of the scanline pipeline\<close>

lemma reject_outside:
  assumes "\<not> contains_rect \<lparr>rx = 0, ry = 0, rdX = int (fr_width fr), rdY = int (fr_height fr)\<rparr> r"
  shows "get_partial_image fr r = Inr None"
proof -
  obtain nfr bps where nd: "normalise_depth fr = (nfr, bps)" by (cases "normalise_depth fr")
  have "fr_width nfr = fr_width fr" "fr_height nfr = fr_height fr"
    using normalise_depth_fields [of fr] nd by simp_all
  then show ?thesis
    using assms nd by (simp add: get_partial_image_def Let_def)
qed

lemma get_partial_image_Some:
  assumes "get_partial_image fr r = Inr (Some si)"
  shows "contains_rect \<lparr>rx = 0, ry = 0, rdX = int (fr_width fr), rdY = int (fr_height fr)\<rparr> r
           \<and> 0 \<le> rdX r \<and> 0 \<le> rdY r"
proof -
  have c: "contains_rect \<lparr>rx = 0, ry = 0, rdX = int (fr_width fr), rdY = int (fr_height fr)\<rparr> r"
    using reject_outside [of fr r] assms by auto
  obtain nfr bps where nd: "normalise_depth fr = (nfr, bps)" by (cases "normalise_depth fr")
  have "fr_width nfr = fr_width fr" "fr_height nfr = fr_height fr"
    using normalise_depth_fields [of fr] nd by simp_all
  then have "0 \<le> rdX r \<and> 0 \<le> rdY r"
    using assms c nd by (auto simp: get_partial_image_def create_writer_and_image_def Let_def
        split: if_splits)
  with c show ?thesis by simp
qed

lemma get_partial_image_rows:
  assumes "frame_wf fr" "fr_pos fr = 0"
    and "contains_rect \<lparr>rx = 0, ry = 0, rdX = int (fr_width fr), rdY = int (fr_height fr)\<rparr> r"
    and "0 \<le> rdX r" "0 \<le> rdY r"
  shows "\<exists>si. get_partial_image fr r = Inr (Some si) \<and>
           si_width si = nat (rdX r) \<and> si_height si = nat (rdY r) \<and>
           sub_image_rows si =
             row_slices (nat (rx r) * (fr_channels fr * snd (normalise_depth fr) div 8))
                        (nat (rdX r) * (fr_channels fr * snd (normalise_depth fr) div 8))
                        (take (nat (rdY r)) (drop (nat (ry r)) (fr_data (fst (normalise_depth fr)))))"
proof -
  let ?nfr = "fst (normalise_depth fr)" and ?bpp = "fr_channels fr * snd (normalise_depth fr) div 8"
  let ?rows = "take (nat (rdY r)) (drop (nat (ry r)) (fr_data ?nfr))"
  let ?sl = "row_slices (nat (rx r) * ?bpp) (nat (rdX r) * ?bpp) ?rows"
  have w: "frame_wf ?nfr" using normalise_depth_wf [OF assms(1,2)] by simp
  have b: "snd (normalise_depth fr) \<in> {8, 16}" "fr_bps ?nfr = snd (normalise_depth fr)"
    using normalise_depth_bps [of fr] by simp_all
  have f: "fr_width ?nfr = fr_width fr" "fr_height ?nfr = fr_height fr" "fr_channels ?nfr = fr_channels fr"
    using normalise_depth_fields [of fr] by simp_all
  have x: "nat (rx r) + nat (rdX r) \<le> fr_width fr" and y: "nat (ry r) + nat (rdY r) \<le> fr_height fr"
    using contains_rect_nat [OF assms(3-5)] by simp_all
  have fit: "fr_width fr * ?bpp \<le> fr_stride ?nfr" using row_fits_stride [OF w] b f by simp
  have "\<forall>row \<in> set ?rows. nat (rx r) * ?bpp + nat (rdX r) * ?bpp \<le> length row"
  proof
    fix row assume "row \<in> set ?rows"
    then have "row \<in> set (fr_data ?nfr)" by (auto dest: in_set_takeD in_set_dropD)
    then have "length row = fr_stride ?nfr" using w by (simp add: frame_wf_def)
    moreover have "(nat (rx r) + nat (rdX r)) * ?bpp \<le> fr_width fr * ?bpp" using x by (rule mult_le_mono1)
    ultimately show "nat (rx r) * ?bpp + nat (rdX r) * ?bpp \<le> length row"
      using fit by (simp add: algebra_simps)
  qed
  then have lens: "\<forall>row \<in> set ?sl. length row = nat (rdX r) * ?bpp" by (rule length_row_slices)
  have nrows: "length ?sl = nat (rdY r)"
    using y w f by (simp add: row_slices_def frame_wf_def)
  have "read_rows (nat (rdY r)) (nat (rdX r) * ?bpp) (concat ?sl) = ?sl"
    using read_rows_concat [OF lens] nrows by simp
  then show ?thesis
    using get_partial_image_inside [OF assms] by (simp add: sub_image_rows_def)
qed

lemma partial_image_main_outside:
  assumes "\<not> contains_rect \<lparr>rx = 0, ry = 0, rdX = int (fr_width fr), rdY = int (fr_height fr)\<rparr>
              \<lparr>rx = 230, ry = 230, rdX = 400, rdY = 250\<rparr>"
  shows "partial_image_main (Inr fr) = ([GPIException (PyException ''encode'')], None)"
  using reject_outside [OF assms] by (simp add: partial_image_main_def)

lemma partial_image_main_inside:
  assumes "frame_wf fr" "fr_pos fr = 0"
    and "contains_rect \<lparr>rx = 0, ry = 0, rdX = int (fr_width fr), rdY = int (fr_height fr)\<rparr>
           \<lparr>rx = 230, ry = 230, rdX = 400, rdY = 250\<rparr>"
  shows "\<exists>si. partial_image_main (Inr fr) = ([], Some (''JustTheKayak.png'', si)) \<and>
           si_width si = 400 \<and> si_height si = 250 \<and>
           sub_image_rows si =
             row_slices (230 * (fr_channels fr * snd (normalise_depth fr) div 8))
                        (400 * (fr_channels fr * snd (normalise_depth fr) div 8))
                        (take 250 (drop 230 (fr_data (fst (normalise_depth fr)))))"
  using get_partial_image_rows [OF assms] by (auto simp: partial_image_main_def)

text \<open>C9: for a fresh, well-formed source and a rectangle inside it with non-negative
  extents, \<open>get_partial_image\<close> returns an image of \<open>dX\<close> by \<open>dY\<close> pixels whose row
  \<open>i\<close>, read back from the temporary store, is bytes \<open>x * bpp\<close> to
  \<open>(x + dX) * bpp\<close> of row \<open>y + i\<close> of the depth-normalised source.\<close>

theorem get_partial_image_extracts:
  assumes "frame_wf fr" "fr_pos fr = 0"
    and "contains_rect \<lparr>rx = 0, ry = 0, rdX = int (fr_width fr), rdY = int (fr_height fr)\<rparr> r"
    and "0 \<le> rdX r" "0 \<le> rdY r"
  shows "\<exists>si. get_partial_image fr r = Inr (Some si) \<and>
           si_width si = nat (rdX r) \<and> si_height si = nat (rdY r) \<and>
           sub_image_rows si =
             row_slices (nat (rx r) * (fr_channels fr * snd (normalise_depth fr) div 8))
                        (nat (rdX r) * (fr_channels fr * snd (normalise_depth fr) div 8))
                        (take (nat (rdY r)) (drop (nat (ry r)) (fr_data (fst (normalise_depth fr)))))"
  by (rule get_partial_image_rows [OF assms])

theorem get_partial_image_extracts_witness:
  "\<exists>si. get_partial_image \<lparr>fr_width = 2, fr_height = 2, fr_bps = 8, fr_channels = 1, fr_stride = 2, fr_space = ''DeviceGray'',
      fr_xres = 72, fr_yres = 72, fr_data = [[1, 2], [3, 4]], fr_pos = 0\<rparr> \<lparr>rx = 1, ry = 1, rdX = 1, rdY = 1\<rparr> = Inr (Some si) \<and>
     si_width si = 1 \<and> si_height si = 1 \<and> sub_image_rows si = [[4]]"
proof -
  have wf: "frame_wf \<lparr>fr_width = 2, fr_height = 2, fr_bps = 8, fr_channels = 1, fr_stride = 2, fr_space = ''DeviceGray'',
      fr_xres = 72, fr_yres = 72, fr_data = [[1, 2], [3, 4]], fr_pos = 0\<rparr>" by (simp add: frame_wf_def)
  have inside: "contains_rect \<lparr>rx = 0, ry = 0, rdX = int 2, rdY = int 2\<rparr> \<lparr>rx = 1, ry = 1, rdX = 1, rdY = 1\<rparr>"
    by (simp add: contains_rect_def)
  have nd: "normalise_depth \<lparr>fr_width = 2, fr_height = 2, fr_bps = 8, fr_channels = 1, fr_stride = 2, fr_space = ''DeviceGray'',
      fr_xres = 72, fr_yres = 72, fr_data = [[1, 2], [3, 4]], fr_pos = 0\<rparr> = (\<lparr>fr_width = 2, fr_height = 2, fr_bps = 8, fr_channels = 1, fr_stride = 2, fr_space = ''DeviceGray'',
      fr_xres = 72, fr_yres = 72, fr_data = [[1, 2], [3, 4]], fr_pos = 0\<rparr>, 8)"
    by (simp add: normalise_depth_cases)
  show ?thesis
    using get_partial_image_extracts [OF wf, of "\<lparr>rx = 1, ry = 1, rdX = 1, rdY = 1\<rparr>"] inside nd
    by (simp add: row_slices_def)
qed

text \<open>C10: a rectangle not contained in the source is rejected with the null image
  (\<open>IDOMImage.Null()\<close>, here \<open>None\<close>), before any writer is created or any row read.\<close>

theorem get_partial_image_out_of_bounds:
  assumes "\<not> contains_rect \<lparr>rx = 0, ry = 0, rdX = int (fr_width fr), rdY = int (fr_height fr)\<rparr> r"
  shows "get_partial_image fr r = Inr None"
  by (rule reject_outside [OF assms])

theorem get_partial_image_out_of_bounds_witness:
  "\<not> contains_rect \<lparr>rx = 0, ry = 0, rdX = int 2, rdY = int 2\<rparr> \<lparr>rx = 1, ry = 0, rdX = 2, rdY = 1\<rparr> \<and>
   get_partial_image \<lparr>fr_width = 2, fr_height = 2, fr_bps = 8, fr_channels = 1, fr_stride = 2, fr_space = ''DeviceGray'',
      fr_xres = 72, fr_yres = 72, fr_data = [[1, 2], [3, 4]], fr_pos = 0\<rparr> \<lparr>rx = 1, ry = 0, rdX = 2, rdY = 1\<rparr> = Inr None"
proof -
  have h: "\<not> contains_rect \<lparr>rx = 0, ry = 0, rdX = int 2, rdY = int 2\<rparr> \<lparr>rx = 1, ry = 0, rdX = 2, rdY = 1\<rparr>"
    by (simp add: contains_rect_def)
  show ?thesis using h get_partial_image_out_of_bounds [of "\<lparr>fr_width = 2, fr_height = 2, fr_bps = 8, fr_channels = 1, fr_stride = 2, fr_space = ''DeviceGray'',
      fr_xres = 72, fr_yres = 72, fr_data = [[1, 2], [3, 4]], fr_pos = 0\<rparr>"] by simp
qed

text \<open>C11: extracting the whole of an 8- or 16-bit image whose rows carry no padding
  reproduces its rows byte for byte (spec section 8, "Idempotent full-extraction").\<close>

theorem get_partial_image_full:
  assumes "frame_wf fr" "fr_pos fr = 0" "fr_bps fr \<in> {8, 16}"
    and "fr_stride fr = fr_width fr * (fr_channels fr * fr_bps fr div 8)"
  shows "\<exists>si. get_partial_image fr \<lparr>rx = 0, ry = 0, rdX = int (fr_width fr), rdY = int (fr_height fr)\<rparr>
           = Inr (Some si) \<and> sub_image_rows si = fr_data fr"
proof -
  let ?r = "\<lparr>rx = 0, ry = 0, rdX = int (fr_width fr), rdY = int (fr_height fr)\<rparr>"
  have nd: "normalise_depth fr = (fr, fr_bps fr)" using assms(3) by (auto simp: normalise_depth_cases)
  have inside: "contains_rect \<lparr>rx = 0, ry = 0, rdX = int (fr_width fr), rdY = int (fr_height fr)\<rparr> ?r"
    by (simp add: contains_rect_def)
  have len: "length (fr_data fr) = fr_height fr" and rows: "\<forall>row \<in> set (fr_data fr). length row = fr_stride fr"
    using assms(1) by (simp_all add: frame_wf_def)
  have "row_slices 0 (fr_stride fr) (fr_data fr) = fr_data fr"
    using rows by (auto simp: row_slices_def intro!: map_idI)
  then have "row_slices 0 (fr_width fr * (fr_channels fr * fr_bps fr div 8)) (fr_data fr) = fr_data fr"
    using assms(4) by simp
  then show ?thesis
    using get_partial_image_rows [OF assms(1,2) inside] nd len by auto
qed

theorem get_partial_image_full_witness:
  "\<exists>si. get_partial_image \<lparr>fr_width = 2, fr_height = 2, fr_bps = 8, fr_channels = 1, fr_stride = 2, fr_space = ''DeviceGray'',
      fr_xres = 72, fr_yres = 72, fr_data = [[1, 2], [3, 4]], fr_pos = 0\<rparr> \<lparr>rx = 0, ry = 0, rdX = int 2, rdY = int 2\<rparr> = Inr (Some si) \<and>
     sub_image_rows si = [[1, 2], [3, 4]]"
proof -
  have wf: "frame_wf \<lparr>fr_width = 2, fr_height = 2, fr_bps = 8, fr_channels = 1, fr_stride = 2, fr_space = ''DeviceGray'',
      fr_xres = 72, fr_yres = 72, fr_data = [[1, 2], [3, 4]], fr_pos = 0\<rparr>" by (simp add: frame_wf_def)
  show ?thesis using get_partial_image_full [OF wf] by simp
qed

text \<open>A 1-bit source is scaled to 8 bits before slicing, and every byte of the
  extracted image is then 0 or 255 (spec section 8, "Bit-depth normalization").\<close>

theorem get_partial_image_one_bit:
  assumes "frame_wf fr" "fr_pos fr = 0" "fr_bps fr = 1"
    and "get_partial_image fr r = Inr (Some si)" "b \<in> set (si_data si)"
  shows "b = 0 \<or> b = 255"
proof -
  have r: "contains_rect \<lparr>rx = 0, ry = 0, rdX = int (fr_width fr), rdY = int (fr_height fr)\<rparr> r"
      "0 \<le> rdX r" "0 \<le> rdY r"
    using get_partial_image_Some [OF assms(4)] by simp_all
  let ?bpp = "fr_channels fr * snd (normalise_depth fr) div 8"
  have "si_data si = concat (row_slices (nat (rx r) * ?bpp) (nat (rdX r) * ?bpp)
          (take (nat (rdY r)) (drop (nat (ry r)) (fr_data (fst (normalise_depth fr))))))"
    using get_partial_image_inside [OF assms(1,2) r] assms(4) by simp
  with assms(5) obtain row where "row \<in> set (fr_data (fst (normalise_depth fr)))" "b \<in> set row"
    by (auto simp: row_slices_def dest!: in_set_takeD in_set_dropD)
  then show ?thesis using one_bit_rows [OF assms(3)] by blast
qed

theorem get_partial_image_one_bit_witness:
  "get_partial_image one_bit_frame \<lparr>rx = 0, ry = 0, rdX = 8, rdY = 1\<rparr>
     = Inr (Some \<lparr>si_space = ''DeviceGray'', si_width = 8, si_height = 1, si_bps = 8, si_channels = 1,
                  si_xres = 72, si_yres = 72, si_data = [255, 0, 255, 0, 0, 255, 0, 255]\<rparr>)
   \<and> (255::u8) \<in> set [255, 0, 255, 0, 0, 255, 0, 255] \<and> (255 = 0 \<or> 255 = (255::u8))"
proof -
  have wf: "frame_wf one_bit_frame" by (simp add: frame_wf_def one_bit_frame_def)
  have run: "get_partial_image one_bit_frame \<lparr>rx = 0, ry = 0, rdX = 8, rdY = 1\<rparr>
     = Inr (Some \<lparr>si_space = ''DeviceGray'', si_width = 8, si_height = 1, si_bps = 8, si_channels = 1,
                  si_xres = 72, si_yres = 72, si_data = [255, 0, 255, 0, 0, 255, 0, 255]\<rparr>)"
    by code_simp
  have "(255::u8) = 0 \<or> 255 = (255::u8)"
    by (rule get_partial_image_one_bit [OF wf _ _ run]) (simp_all add: one_bit_frame_def)
  then show ?thesis using run by simp
qed

text \<open>C14: the copy loop reads the source strictly forward: \<open>n\<close> iterations advance the
  scanline cursor by exactly \<open>n\<close> rows and leave the source rows untouched.\<close>

theorem copy_rows_forward_only:
  assumes "copy_rows n start stride fr target si = Inr (fr', tgt, si')"
  shows "fr_pos fr' = fr_pos fr + n \<and> fr_data fr' = fr_data fr"
  by (rule copy_rows_cursor [OF assms])

theorem copy_rows_forward_only_witness:
  "fr_pos (fst (projr (copy_rows 2 0 2 \<lparr>fr_width = 2, fr_height = 2, fr_bps = 8, fr_channels = 1, fr_stride = 2, fr_space = ''DeviceGray'',
      fr_xres = 72, fr_yres = 72, fr_data = [[1, 2], [3, 4]], fr_pos = 0\<rparr> [0, 0]
      \<lparr>si_space = ''DeviceGray'', si_width = 2, si_height = 2, si_bps = 8, si_channels = 1, si_xres = 72,
         si_yres = 72, si_data = []\<rparr>))) = 2"
proof -
  let ?si = "\<lparr>si_space = ''DeviceGray'', si_width = 2, si_height = 2, si_bps = 8, si_channels = 1, si_xres = 72,
         si_yres = 72, si_data = []\<rparr>"
  obtain tgt where run: "copy_rows 2 0 2 \<lparr>fr_width = 2, fr_height = 2, fr_bps = 8, fr_channels = 1, fr_stride = 2, fr_space = ''DeviceGray'',
      fr_xres = 72, fr_yres = 72, fr_data = [[1, 2], [3, 4]], fr_pos = 0\<rparr> [0, 0] ?si =
      Inr (\<lparr>fr_width = 2, fr_height = 2, fr_bps = 8, fr_channels = 1, fr_stride = 2, fr_space = ''DeviceGray'',
      fr_xres = 72, fr_yres = 72, fr_data = [[1, 2], [3, 4]], fr_pos = 2\<rparr>, tgt, ?si\<lparr>si_data := [1, 2, 3, 4]\<rparr>)"
    by (simp add: read_scanline_def write_scanline_def py_slice_def numeral_2_eq_2 Let_def)
  show ?thesis using copy_rows_forward_only [OF run] run by simp
qed

text \<open>The scenario of spec section 8: the region (230, 230, 400, 250) of a
  2000 by 1500, 8-bit, 3-channel image is 400 by 250 pixels and its first row is source row
  230 from column 230, bytes 690 to 1889.\<close>

theorem get_partial_image_kayak:
  assumes "frame_wf fr" "fr_pos fr = 0" "fr_width fr = 2000" "fr_height fr = 1500"
    and "fr_channels fr = 3" "fr_bps fr = 8"
  shows "\<exists>si. get_partial_image fr \<lparr>rx = 230, ry = 230, rdX = 400, rdY = 250\<rparr> = Inr (Some si) \<and>
           si_width si = 400 \<and> si_height si = 250 \<and>
           sub_image_rows si ! 0 = take 1200 (drop 690 (fr_data fr ! 230))"
proof -
  have nd: "normalise_depth fr = (fr, 8)" using assms(6) by (simp add: normalise_depth_cases)
  have inside: "contains_rect \<lparr>rx = 0, ry = 0, rdX = int (fr_width fr), rdY = int (fr_height fr)\<rparr>
      \<lparr>rx = 230, ry = 230, rdX = 400, rdY = 250\<rparr>"
    using assms(3,4) by (simp add: contains_rect_def)
  have len: "length (fr_data fr) = 1500" using assms(1,4) by (simp add: frame_wf_def)
  have "take 250 (drop 230 (fr_data fr)) ! 0 = fr_data fr ! 230" using len by simp
  then show ?thesis
    using get_partial_image_rows [OF assms(1,2) inside] nd assms(5) len by (auto simp: row_slices_def)
qed

theorem get_partial_image_kayak_witness:
  "\<exists>si. get_partial_image \<lparr>fr_width = 2000, fr_height = 1500, fr_bps = 8, fr_channels = 3, fr_stride = 6000,
      fr_space = ''DeviceRGB'', fr_xres = 72, fr_yres = 72,
      fr_data = replicate 1500 (replicate 6000 7), fr_pos = 0\<rparr> \<lparr>rx = 230, ry = 230, rdX = 400, rdY = 250\<rparr> = Inr (Some si) \<and>
     si_width si = 400 \<and> si_height si = 250 \<and> sub_image_rows si ! 0 = replicate 1200 7"
proof -
  have wf: "frame_wf \<lparr>fr_width = 2000, fr_height = 1500, fr_bps = 8, fr_channels = 3, fr_stride = 6000,
      fr_space = ''DeviceRGB'', fr_xres = 72, fr_yres = 72,
      fr_data = replicate 1500 (replicate 6000 7), fr_pos = 0\<rparr>" by (simp add: frame_wf_def)
  show ?thesis using get_partial_image_kayak [OF wf] by simp
qed

end
