(* ===== verification/SpotMergePage.thy ===== *)
theory SpotMergePage
  imports Compositor Separations PartialImage
begin

text \<open>
  The page loop of \<open>OverprintSimulation/custom_spot_merge.py\<close> (lines 21--151) around
  the merge loop nest of \<open>Compositor\<close>. For every page it computes the raster size at
  150 dpi, allocates one \<open>bytearray(pixel_width * pixel_height)\<close> frame buffer per
  process colorant and spot ink, has the renderer fill them
  (\<open>renderSeparationsToFrameBuffers\<close>, the same SDK model as in \<open>Separations\<close>), takes
  the first four components of every spot's colorant vector, runs the merge and hands the
  merged CMYK scanlines to the raw image writer (\<open>IDOMRawImage.createWriterAndImage\<close>,
  the writer interface shared with \<open>PartialImage\<close>), which assembles them into one
  pixel-interleaved CMYK image: this is the raster output assembler of spec section 4.4.
  The RGB conversion and JPEG encoding that follow are SDK calls, so a written file is its
  name and the assembled CMYK image it was made from.
\<close>

text \<open>The page as the script sees it: its size in points and the colorant info of its
  spot inks (\<open>IRendererTransform.inkInfoToColorantInfo\<close>): each spot's name and its
  components in the CMYK space.\<close>

record spot_page =
  sp_width :: real
  sp_height :: real
  sp_spots :: "(string \<times> real list) list"

text \<open>Lines 42--43: \<open>int(round(d / 96.0 * resolution))\<close>.\<close>

definition raster_size :: "real \<Rightarrow> real \<Rightarrow> int" where
  "raster_size resolution d = py_round (d / 96 * resolution)"

text \<open>Lines 60--73: \<open>num_buffers\<close> zeroed buffers of \<open>pixel_width * pixel_height\<close> bytes
  with \<open>CFrameBufferInfo(0, pixel_width, 0)\<close>.\<close>

definition page_buffers :: "nat \<Rightarrow> int \<Rightarrow> int \<Rightarrow> (u8 list list \<times> fb_info list) res" where
  "page_buffers num_buffers w h =
     (if num_buffers = 0 then Inr ([], [])
      else res_bind (py_bytearray (w * h)) (\<lambda>buf.
        Inr (replicate num_buffers buf,
             replicate num_buffers \<lparr>fb_ofs = 0, fb_row_stride = nat w, fb_pixel_stride = 0\<rparr>)))"

text \<open>Lines 37--130 for one page: the writer and image are created after rendering
  (lines 89--98, with the CMYK space's four components; a negative size is an
  OverflowError of the binding), the merged scanlines are written row by row (line 127)
  and the image is flushed (line 130).\<close>

definition merge_page :: "raster_env \<Rightarrow> spot_page \<Rightarrow> sub_image res" where
  "merge_page env pg =
     (let w = raster_size 150 (sp_width pg);
          h = raster_size 150 (sp_height pg);
          spot_names = map fst (sp_spots pg);
          num_process = length (re_process env);
          num_spots = length (sp_spots pg)
      in res_bind (page_buffers (num_process + num_spots) w h) (\<lambda>(bufs, infos).
         (let planes = render_to_frame_buffers env spot_names (nat w) (nat h) bufs infos in
          res_bind (create_writer_and_image ''DeviceCMYK'' w h 8 num_process 150 150) (\<lambda>raw_image.
          res_bind (build_components (map snd (sp_spots pg))) (\<lambda>components.
          res_bind (merge_spots \<lparr>mj_buffers = planes, mj_components = components, mj_width = nat w,
                                 mj_height = nat h, mj_process = num_process, mj_spots = num_spots\<rparr>)
            (\<lambda>rows. Inr (foldl write_scanline raw_image rows)))))))"

text \<open>Line 141: \<open>f"output_{page_index}.jpg"\<close>.\<close>

definition jpeg_name :: "nat \<Rightarrow> string" where
  "jpeg_name i = ''output_'' @ py_str_nat i @ ''.jpg''"

text \<open>Lines 36--151: the pages in order; the first exception ends the script with
  \<open>sys.exit(1)\<close> after the files already written.\<close>

fun page_loop_merge :: "raster_env \<Rightarrow> spot_page list \<Rightarrow> nat \<Rightarrow> (string \<times> sub_image) list \<Rightarrow>
    int option \<times> (string \<times> sub_image) list" where
  "page_loop_merge env [] i out = (None, out)"
| "page_loop_merge env (pg # pgs) i out =
     (case merge_page env pg of
        Inl e \<Rightarrow> (Some 1, out)
      | Inr raw_image \<Rightarrow> page_loop_merge env pgs (Suc i) (out @ [(jpeg_name i, raw_image)]))"

definition custom_spot_merge :: "raster_env \<Rightarrow> spot_page list \<Rightarrow> int option \<times> (string \<times> sub_image) list" where
  "custom_spot_merge env pages = page_loop_merge env pages 0 []"

text \<open>The merge job of a page as the specification describes it: the rasteriser's planes
  of the process colorants and the spot inks, each flattened row by row.\<close>

definition page_job :: "raster_env \<Rightarrow> spot_page \<Rightarrow> merge_job" where
  "page_job env pg =
     (let w = nat (raster_size 150 (sp_width pg)); h = nat (raster_size 150 (sp_height pg)) in
      \<lparr>mj_buffers = map (\<lambda>n. concat (re_plane env n w h)) (re_process env @ map fst (sp_spots pg)),
       mj_components = map (take 4 \<circ> snd) (sp_spots pg), mj_width = w, mj_height = h,
       mj_process = length (re_process env), mj_spots = length (sp_spots pg)\<rparr>)"

text \<open>The image the specification's assembler produces from a merge job: one
  pixel-interleaved scanline per row holding the merged values, 8 bits per channel.\<close>

definition merged_image :: "merge_job \<Rightarrow> sub_image" where
  "merged_image j =
     \<lparr>si_space = ''DeviceCMYK'', si_width = mj_width j, si_height = mj_height j, si_bps = 8,
      si_channels = mj_process j, si_xres = 150, si_yres = 150, si_data = concat (merged_rows j)\<rparr>"

text \<open>What an encoder reads as channel \<open>c\<close> of an 8-bit interleaved image: byte
  \<open>x * channels + c\<close> of every row.\<close>

definition image_channel :: "sub_image \<Rightarrow> nat \<Rightarrow> u8 list list" where
  "image_channel img c =
     map (\<lambda>row. map (\<lambda>x. row ! (x * si_channels img + c)) [0..<si_width img]) (sub_image_rows img)"

text \<open>Channel \<open>c\<close> of the merge as a plane: the merged value of every pixel, row by row.\<close>

definition merged_plane :: "merge_job \<Rightarrow> nat \<Rightarrow> u8 list list" where
  "merged_plane j c =
     map (\<lambda>y. map (\<lambda>x. merged_value j c (y * mj_width j + x)) [0..<mj_width j]) [0..<mj_height j]"

definition page_wf :: "raster_env \<Rightarrow> spot_page \<Rightarrow> bool" where
  "page_wf env pg \<longleftrightarrow>
     0 \<le> sp_width pg \<and> 0 \<le> sp_height pg \<and> length (re_process env) \<le> 4 \<and>
     list_all (\<lambda>n. plane_wf (nat (raster_size 150 (sp_width pg))) (nat (raster_size 150 (sp_height pg)))
                     (re_plane env n (nat (raster_size 150 (sp_width pg))) (nat (raster_size 150 (sp_height pg)))))
       (re_process env @ map fst (sp_spots pg)) \<and>
     list_all (\<lambda>(n, v). 4 \<le> length v \<and> list_all (\<lambda>a. 0 \<le> a \<and> a \<le> 1) v) (sp_spots pg)"

text \<open>A page of 0.64 by 0.64 points (one pixel at 150 dpi) with one spot ink, used by the
  examples.\<close>

definition orange_page :: spot_page where
  "orange_page = \<lparr>sp_width = 16/25, sp_height = 16/25, sp_spots = [(''Orange'', [1/2, 1/2, 0, 0])]\<rparr>"

definition short_spot_page :: spot_page where
  "short_spot_page = \<lparr>sp_width = 16/25, sp_height = 16/25, sp_spots = [(''Orange'', [1/2, 1/2])]\<rparr>"

subsection \<open>The page pipeline\<close>

lemma fb_write_exact:
  "plane_wf w h rows \<Longrightarrow> fb_write (replicate (w * h) 0) 0 w 0 rows = concat rows"
  using fb_write_rows [of "[]" 0 w rows "replicate (w * h) 0"] by (simp add: plane_wf_def)

lemma render_exact:
  "list_all (\<lambda>n. plane_wf w h (re_plane env n w h)) xs \<Longrightarrow>
   map (\<lambda>(n, buf, info). fb_write buf (fb_ofs info) (fb_row_stride info) 0 (re_plane env n w h))
     (zip xs (zip (replicate (length xs) (replicate (w * h) 0))
        (replicate (length xs) \<lparr>fb_ofs = 0, fb_row_stride = w, fb_pixel_stride = 0\<rparr>))) =
   map (\<lambda>n. concat (re_plane env n w h)) xs"
  by (induction xs) (simp_all add: fb_write_exact)

lemma page_buffers_ok:
  assumes "0 \<le> w" "0 \<le> h"
  shows "page_buffers n w h =
    Inr (replicate n (replicate (nat w * nat h) 0),
         replicate n \<lparr>fb_ofs = 0, fb_row_stride = nat w, fb_pixel_stride = 0\<rparr>)"
proof -
  have "nat (w * h) = nat w * nat h" using assms by (simp add: nat_mult_distrib)
  moreover have "\<not> w * h < 0" using assms by (simp add: not_less)
  ultimately show ?thesis using assms by (cases "n = 0") (simp_all add: page_buffers_def py_bytearray_def)
qed

lemma raster_size_nonneg: "0 \<le> d \<Longrightarrow> 0 \<le> raster_size 150 d"
  by (simp add: raster_size_def py_round_nonneg)

lemma page_job_wf:
  assumes "page_wf env pg"
  shows "merge_job_wf (page_job env pg)" "comps_in_unit (mj_components (page_job env pg))"
proof -
  let ?w = "nat (raster_size 150 (sp_width pg))" and ?h = "nat (raster_size 150 (sp_height pg))"
  have planes: "list_all (\<lambda>n. plane_wf ?w ?h (re_plane env n ?w ?h)) (re_process env @ map fst (sp_spots pg))"
    and spots: "list_all (\<lambda>(n, v). 4 \<le> length v \<and> list_all (\<lambda>a. 0 \<le> a \<and> a \<le> 1) v) (sp_spots pg)"
    and p4: "length (re_process env) \<le> 4"
    using assms by (simp_all add: page_wf_def)
  have len: "\<And>n. n \<in> set (re_process env @ map fst (sp_spots pg)) \<Longrightarrow> length (concat (re_plane env n ?w ?h)) = ?w * ?h"
  proof -
    fix n assume "n \<in> set (re_process env @ map fst (sp_spots pg))"
    then have "plane_wf ?w ?h (re_plane env n ?w ?h)" using planes by (simp add: list_all_iff)
    then show "length (concat (re_plane env n ?w ?h)) = ?w * ?h"
      by (simp add: plane_wf_def length_concat list_all_iff sum_list_triv comp_def cong: map_cong)
  qed
  show "merge_job_wf (page_job env pg)"
    using len spots p4 by (auto simp: merge_job_wf_def page_job_def Let_def list_all_iff)
  have "\<And>n v a. (n, v) \<in> set (sp_spots pg) \<Longrightarrow> a \<in> set (take 4 v) \<Longrightarrow> 0 \<le> a \<and> a \<le> 1"
  proof -
    fix n v a assume nv: "(n, v) \<in> set (sp_spots pg)" and a: "a \<in> set (take 4 v)"
    have "a \<in> set v" using a by (rule in_set_takeD)
    then show "0 \<le> a \<and> a \<le> 1" using spots nv by (auto simp: list_all_iff)
  qed
  then show "comps_in_unit (mj_components (page_job env pg))"
    by (auto simp: comps_in_unit_def page_job_def Let_def)
qed

lemma foldl_write_scanline:
  "foldl write_scanline si rows = si\<lparr>si_data := si_data si @ concat rows\<rparr>"
  by (induction rows arbitrary: si) (simp_all add: write_scanline_def)

text \<open>The assembler's contract: reading channel \<open>c\<close> back out of the assembled image gives
  the merged plane of that channel.\<close>

lemma image_channel_merged:
  assumes "c < mj_process j"
  shows "image_channel (merged_image j) c = merged_plane j c"
proof -
  have rows: "sub_image_rows (merged_image j) = merged_rows j"
    using read_rows_concat [of "merged_rows j" "mj_width j * mj_process j"]
    by (simp add: sub_image_rows_def merged_image_def merged_rows_def)
  have nth: "\<And>y x. x < mj_width j \<Longrightarrow>
          merged_row j y ! (x * mj_process j + c) = merged_value j c (y * mj_width j + x)"
  proof -
    fix y x assume x: "x < mj_width j"
    have "x * mj_process j + c < Suc x * mj_process j" using assms by simp
    also have "\<dots> \<le> mj_width j * mj_process j" using x by (intro mult_le_mono1) simp
    finally have "x * mj_process j + c < mj_width j * mj_process j" .
    then show "merged_row j y ! (x * mj_process j + c) = merged_value j c (y * mj_width j + x)"
      using assms by (simp add: merged_row_def nth_interleave)
  qed
  have "image_channel (merged_image j) c =
          map (\<lambda>row. map (\<lambda>x. row ! (x * mj_process j + c)) [0..<mj_width j]) (merged_rows j)"
    unfolding image_channel_def rows by (simp add: merged_image_def)
  then show ?thesis using nth by (simp add: merged_plane_def merged_rows_def)
qed

lemma merge_page_eq:
  assumes "page_wf env pg"
  shows "merge_page env pg = Inr (merged_image (page_job env pg))"
proof -
  let ?W = "raster_size 150 (sp_width pg)" and ?H = "raster_size 150 (sp_height pg)"
  let ?names = "re_process env @ map fst (sp_spots pg)"
  have wh: "0 \<le> ?W" "0 \<le> ?H" using assms by (simp_all add: page_wf_def raster_size_nonneg)
  have planes: "list_all (\<lambda>n. plane_wf (nat ?W) (nat ?H) (re_plane env n (nat ?W) (nat ?H))) ?names"
    using assms by (simp add: page_wf_def)
  have render: "render_to_frame_buffers env (map fst (sp_spots pg)) (nat ?W) (nat ?H)
      (replicate (length ?names) (replicate (nat ?W * nat ?H) 0))
      (replicate (length ?names) \<lparr>fb_ofs = 0, fb_row_stride = nat ?W, fb_pixel_stride = 0\<rparr>) =
    map (\<lambda>n. concat (re_plane env n (nat ?W) (nat ?H))) ?names"
    unfolding render_to_frame_buffers_def by (rule render_exact [OF planes])
  have comps: "build_components (map snd (sp_spots pg)) = Inr (map (take 4 \<circ> snd) (sp_spots pg))"
    using assms by (auto simp: page_wf_def build_components_def list_all_iff)
  have "merge_spots (page_job env pg) = Inr (merged_rows (page_job env pg))"
    using page_job_wf [OF assms] by (rule merge_spots_eq)
  then show ?thesis
    using page_buffers_ok [OF wh, of "length ?names"] render comps wh
    by (simp add: merge_page_def page_job_def Let_def create_writer_and_image_def
                  foldl_write_scanline merged_image_def)
qed

lemma page_loop_merge_ok:
  "list_all (page_wf env) pgs \<Longrightarrow>
   page_loop_merge env pgs i out =
     (None, out @ map (\<lambda>(k, pg). (jpeg_name k, merged_image (page_job env pg))) (zip [i..<i + length pgs] pgs))"
proof (induction pgs arbitrary: i out)
  case Nil
  then show ?case by simp
next
  case (Cons pg pgs)
  have "[i..<Suc (i + length pgs)] = i # [Suc i..<Suc (i + length pgs)]" by (rule upt_conv_Cons) simp
  then show ?case using Cons by (simp add: merge_page_eq)
qed

subsection \<open>Properties of the page loop\<close>

text \<open>C34: on pages of non-negative size whose rendered planes have the raster size,
  whose spots have at least four components in [0, 1], in a process space of at most four
  colorants, \<open>custom_spot_merge\<close> runs to the end and writes \<open>output_k.jpg\<close> for
  page \<open>k\<close> from the CMYK image the writer assembles out of the reference merge of that
  page's rendered planes; read back, channel \<open>c\<close> of that image is the reference merge
  of channel \<open>c\<close> at every pixel (renderer, compositor and assembler composed).\<close>

theorem custom_spot_merge_pages:
  assumes "list_all (page_wf env) pages"
  shows "custom_spot_merge env pages =
           (None, map (\<lambda>(k, pg). (jpeg_name k, merged_image (page_job env pg))) (zip [0..<length pages] pages)) \<and>
         (\<forall>k < length pages. \<forall>c < length (re_process env).
            image_channel (snd (snd (custom_spot_merge env pages) ! k)) c = merged_plane (page_job env (pages ! k)) c)"
proof -
  have run: "custom_spot_merge env pages =
           (None, map (\<lambda>(k, pg). (jpeg_name k, merged_image (page_job env pg))) (zip [0..<length pages] pages))"
    using page_loop_merge_ok [OF assms, of 0 "[]"] by (simp add: custom_spot_merge_def)
  have "\<And>k c. k < length pages \<Longrightarrow> c < length (re_process env) \<Longrightarrow>
          image_channel (snd (snd (custom_spot_merge env pages) ! k)) c = merged_plane (page_job env (pages ! k)) c"
    using image_channel_merged by (simp add: run page_job_def Let_def)
  with run show ?thesis by blast
qed

theorem custom_spot_merge_pages_witness:
  "custom_spot_merge cmyk_env [orange_page] =
     (None, [(jpeg_name 0, merged_image (page_job cmyk_env orange_page))]) \<and>
   image_channel (snd (snd (custom_spot_merge cmyk_env [orange_page]) ! 0)) 0 =
     merged_plane (page_job cmyk_env orange_page) 0"
proof -
  have "list_all (page_wf cmyk_env) [orange_page]" by code_simp
  note r = custom_spot_merge_pages [OF this]
  have "image_channel (snd (snd (custom_spot_merge cmyk_env [orange_page]) ! 0)) 0 =
          merged_plane (page_job cmyk_env ([orange_page] ! 0)) 0"
    by (rule conjunct2 [OF r, rule_format]) (simp_all add: cmyk_env_def)
  with conjunct1 [OF r] show ?thesis by simp
qed

text \<open>A spot whose colorant vector has fewer than four components makes
  \<open>vals.getitem(c)\<close> raise, and the script exits with status 1 before writing that page.\<close>

theorem custom_spot_merge_short_components:
  assumes "0 \<le> sp_width pg" "0 \<le> sp_height pg"
    and "\<not> list_all (\<lambda>v. 4 \<le> length v) (map snd (sp_spots pg))"
  shows "custom_spot_merge env (pg # pgs) = (Some 1, [])"
proof -
  have wh: "0 \<le> raster_size 150 (sp_width pg)" "0 \<le> raster_size 150 (sp_height pg)"
    using assms(1,2) by (simp_all add: raster_size_nonneg)
  have "build_components (map snd (sp_spots pg)) = Inl IndexError"
    using assms(3) by (auto simp: build_components_def list_all_iff)
  then have "merge_page env pg = Inl IndexError"
    using page_buffers_ok [OF wh] wh by (simp add: merge_page_def Let_def create_writer_and_image_def)
  then show ?thesis by (simp add: custom_spot_merge_def)
qed

theorem custom_spot_merge_short_components_witness:
  "custom_spot_merge cmyk_env [short_spot_page] = (Some 1, [])"
  by (rule custom_spot_merge_short_components) (simp_all add: short_spot_page_def)

end
