(* ===== verification/ProgressMonitoring.thy ===== *)
theory ProgressMonitoring
  imports Prelude
begin

text \<open>
  \<open>ProgressMonitoring/progress_monitoring.py\<close>: a converter that reads a document, runs
  three transforms over each page and writes the result, with progress callbacks on every
  stage. The model covers \<open>ConverterParams.format_from_path\<close> (lines 35--51), the tick
  counter \<open>ProgressHandler.tick\<close> (lines 61--63), the event state machine
  \<open>ProgressEventHandler.Callback.handleEvent\<close> (lines 75--102),
  \<open>output_iterate_by_page\<close> (lines 117--163) and \<open>main\<close> (lines 170--216).

  The printed lines are values of \<open>pm_msg\<close>, one constructor per \<open>print\<close> of the
  handlers. The SDK's side is modelled from what the script relies on: an assembly is a
  list of documents, a document a list of pages; the three transforms applied to a page's
  content are one function \<open>xf\<close>; writing a page raises the output monitor's events
  \<open>PageWriteStart\<close>, the page's node events and \<open>PageWriteEnd\<close>, in that order.
\<close>

subsection \<open>File formats\<close>

datatype file_format =
    eFFXPS | eFFPDF | eFFSVG | eFFPS | eFFEPS | eFFPCL5 | eFFPCLXL | eFFIJPDS | eFFPPML | eFFOXPS

definition format_table :: "(string \<times> file_format) list" where
  "format_table =
     [(''xps'', eFFXPS), (''pdf'', eFFPDF), (''svg'', eFFSVG), (''ps'', eFFPS), (''eps'', eFFEPS),
      (''pcl'', eFFPCL5), (''pxl'', eFFPCLXL), (''ijp'', eFFIJPDS), (''zip'', eFFPPML),
      (''oxps'', eFFOXPS)]"

definition format_from_path :: "string \<Rightarrow> file_format res" where
  "format_from_path path =
     (case map_of format_table (py_split_last CHR ''.'' (py_lower path)) of
        Some f \<Rightarrow> Inr f
      | None \<Rightarrow> Inl ValueError)"

text \<open>\<open>ConverterParams\<close> after \<open>set_input_path\<close> and \<open>set_output_path\<close> (lines 16--32);
  the three monitors are SDK handles and are left out.\<close>

record converter_params =
  input_file_path :: string
  input_file_format :: file_format
  output_file_path :: string
  output_file_format :: file_format

definition make_params :: "string \<Rightarrow> string \<Rightarrow> converter_params res" where
  "make_params inp out =
     res_bind (format_from_path inp) (\<lambda>fi.
     res_bind (format_from_path out) (\<lambda>fo.
       Inr \<lparr>input_file_path = inp, input_file_format = fi, output_file_path = out,
            output_file_format = fo\<rparr>))"

subsection \<open>The progress handlers\<close>

datatype pm_msg =
    Tick string nat
  | StartOfPage nat
  | EndOfPage nat nat
  | DepthMismatch int
  | StartOfNode nat
  | EmptyNodes
  | EndOfNode nat

text \<open>\<open>ProgressHandler.tick\<close>: count and print.\<close>

record tick_handler =
  th_info :: string
  th_count :: nat

definition tick :: "tick_handler \<Rightarrow> tick_handler \<times> pm_msg list" where
  "tick h = (let h' = h\<lparr>th_count := Suc (th_count h)\<rparr> in (h', [Tick (th_info h') (th_count h')]))"

text \<open>The events of \<open>IProgressEventHandler\<close> the callback distinguishes; every other
  event is \<open>eEvtOther\<close> and falls through the \<open>elif\<close> chain.\<close>

datatype progress_event =
    eEvtPageWriteStart | eEvtPageWriteEnd | eEvtNodeWriteStart | eEvtNodeWriteEnd | eEvtOther

record pe_state =
  m_pageCount :: nat
  m_nodeCount :: nat
  m_nodeDepth :: int
  m_nodes :: "nat list"

definition pe_init :: pe_state where
  "pe_init = \<lparr>m_pageCount = 0, m_nodeCount = 0, m_nodeDepth = 0, m_nodes = []\<rparr>"

text \<open>\<open>handleEvent\<close> (lines 75--102); \<open>m_nodes.pop()\<close> takes the last element.\<close>

fun handle_event :: "pe_state \<Rightarrow> progress_event \<Rightarrow> pe_state \<times> pm_msg list" where
  "handle_event s eEvtPageWriteStart =
     (let s' = s\<lparr>m_pageCount := Suc (m_pageCount s), m_nodeCount := 0, m_nodeDepth := 0, m_nodes := []\<rparr>
      in (s', [StartOfPage (m_pageCount s')]))"
| "handle_event s eEvtPageWriteEnd =
     (s, [EndOfPage (m_pageCount s) (m_nodeCount s)] @
         (if m_nodeDepth s \<noteq> 0 then [DepthMismatch (m_nodeDepth s)] else []))"
| "handle_event s eEvtNodeWriteStart =
     (let s' = s\<lparr>m_nodeCount := Suc (m_nodeCount s), m_nodeDepth := m_nodeDepth s + 1,
                 m_nodes := m_nodes s @ [Suc (m_nodeCount s)]\<rparr>
      in (s', if m_nodeCount s' mod 500 = 0 then [StartOfNode (m_nodeCount s')] else []))"
| "handle_event s eEvtNodeWriteEnd =
     (let s1 = s\<lparr>m_nodeDepth := m_nodeDepth s - 1\<rparr> in
      if m_nodes s1 = [] then (s1, [EmptyNodes])
      else (let node_id = last (m_nodes s1) in
            (s1\<lparr>m_nodes := butlast (m_nodes s1)\<rparr>,
             if node_id mod 500 = 0 then [EndOfNode node_id] else [])))"
| "handle_event s eEvtOther = (s, [])"

fun run_events :: "pe_state \<Rightarrow> progress_event list \<Rightarrow> pe_state \<times> pm_msg list" where
  "run_events s [] = (s, [])"
| "run_events s (e # es) =
     (let r1 = handle_event s e; r2 = run_events (fst r1) es in (fst r2, snd r1 @ snd r2))"

text \<open>The states the callback can be in: reachable from the constructor's state by
  handling events one at a time.\<close>

inductive pe_reachable :: "pe_state \<Rightarrow> bool" where
  init: "pe_reachable pe_init"
| step: "pe_reachable s \<Longrightarrow> pe_reachable (fst (handle_event s e))"

text \<open>Node events nested properly: every start is closed by an end, last opened first.\<close>

inductive balanced :: "progress_event list \<Rightarrow> bool" where
  empty: "balanced []"
| other: "balanced es \<Longrightarrow> balanced (eEvtOther # es)"
| nest: "balanced es \<Longrightarrow> balanced fs \<Longrightarrow>
           balanced (eEvtNodeWriteStart # es @ eEvtNodeWriteEnd # fs)"

fun node_starts :: "progress_event list \<Rightarrow> nat" where
  "node_starts [] = 0"
| "node_starts (e # es) = (if e = eEvtNodeWriteStart then 1 else 0) + node_starts es"

text \<open>The messages that report a mismatch of node starts and ends.\<close>

fun is_mismatch :: "pm_msg \<Rightarrow> bool" where
  "is_mismatch (DepthMismatch d) = True"
| "is_mismatch EmptyNodes = True"
| "is_mismatch _ = False"

fun node_ends :: "progress_event list \<Rightarrow> nat" where
  "node_ends [] = 0"
| "node_ends (e # es) = (if e = eEvtNodeWriteEnd then 1 else 0) + node_ends es"

definition pe_inv :: "pe_state \<Rightarrow> bool" where
  "pe_inv s \<longleftrightarrow>
     sorted_wrt (<) (m_nodes s) \<and> list_all (\<lambda>i. 0 < i \<and> i \<le> m_nodeCount s) (m_nodes s) \<and>
     m_nodeDepth s \<le> int (length (m_nodes s))"

subsection \<open>The conversion loop\<close>

datatype 'p writer_event = BeginDocument nat | WritePage 'p | EndDocument | Finish

text \<open>What the output side has done: the writer's calls, the event handler's state and
  everything the handler printed.\<close>

record 'p out_state =
  os_writer :: "'p writer_event list"
  os_handler :: pe_state
  os_log :: "pm_msg list"

text \<open>\<open>writer_handle.writePage(page)\<close>: the output monitor reports the page's events.\<close>

definition write_page :: "('p \<Rightarrow> progress_event list) \<Rightarrow> 'p \<Rightarrow> 'p out_state \<Rightarrow> 'p out_state" where
  "write_page evs p st =
     (let (h, msgs) = run_events (os_handler st) (eEvtPageWriteStart # evs p @ [eEvtPageWriteEnd])
      in st\<lparr>os_writer := os_writer st @ [WritePage p], os_handler := h, os_log := os_log st @ msgs\<rparr>)"

text \<open>\<open>document.getPage(i)\<close> raises past the last page.\<close>

definition get_page :: "'p list \<Rightarrow> nat \<Rightarrow> 'p res" where
  "get_page doc i = (if i < length doc then Inr (doc ! i) else Inl (MakoException ''getPage''))"

text \<open>Lines 143--157: \<open>while page_index < 1\<close>, transform the page's content with the
  three transforms, write it.\<close>

function page_loop :: "('p \<Rightarrow> 'p) \<Rightarrow> ('p \<Rightarrow> progress_event list) \<Rightarrow> 'p list \<Rightarrow> nat \<Rightarrow>
    'p out_state \<Rightarrow> 'p out_state res" where
  "page_loop xf evs doc page_index st =
     (if page_index < 1 then
        res_bind (get_page doc page_index) (\<lambda>page.
          page_loop xf evs doc (Suc page_index) (write_page evs (xf page) st))
      else Inr st)"
  by pat_completeness auto
termination
  by (relation "measure (\<lambda>(_, _, _, i, _). 1 - i)") auto

declare page_loop.simps [simp del]

text \<open>Lines 138--160: \<open>while assembly.documentExists(doc_no)\<close>.\<close>

function doc_loop :: "('p \<Rightarrow> 'p) \<Rightarrow> ('p \<Rightarrow> progress_event list) \<Rightarrow> 'p list list \<Rightarrow> nat \<Rightarrow>
    'p out_state \<Rightarrow> 'p out_state res" where
  "doc_loop xf evs assembly doc_no st =
     (if doc_no < length assembly then
        res_bind (page_loop xf evs (assembly ! doc_no) 0
                    (st\<lparr>os_writer := os_writer st @ [BeginDocument doc_no]\<rparr>)) (\<lambda>st'.
          doc_loop xf evs assembly (Suc doc_no) (st'\<lparr>os_writer := os_writer st' @ [EndDocument]\<rparr>))
      else Inr st)"
  by pat_completeness auto
termination
  by (relation "measure (\<lambda>(_, _, a, d, _). length a - d)") auto

declare doc_loop.simps [simp del]

definition output_iterate_by_page ::
  "('p \<Rightarrow> 'p) \<Rightarrow> ('p \<Rightarrow> progress_event list) \<Rightarrow> 'p list list \<Rightarrow> 'p out_state res" where
  "output_iterate_by_page xf evs assembly =
     res_bind (doc_loop xf evs assembly 0 \<lparr>os_writer = [], os_handler = pe_init, os_log = []\<rparr>) (\<lambda>st.
       Inr (st\<lparr>os_writer := os_writer st @ [Finish]\<rparr>))"

text \<open>\<open>main\<close> (lines 170--216): the return value and, on success, what the writer wrote
  to the temporary store and copied to the output file. A MakoException returns its error
  code, which is the exception here.\<close>

datatype pm_exit = ExitCode int | MakoExit string

definition pm_main :: "('p \<Rightarrow> 'p) \<Rightarrow> ('p \<Rightarrow> progress_event list) \<Rightarrow> 'p list list \<Rightarrow> string list \<Rightarrow>
    pm_exit \<times> 'p out_state option" where
  "pm_main xf evs assembly argv =
     (if length argv \<noteq> 3 then (ExitCode 1, None)
      else case make_params (argv ! 1) (argv ! 2) of
        Inl e \<Rightarrow> (ExitCode 1, None)
      | Inr params \<Rightarrow>
          (case output_iterate_by_page xf evs assembly of
             Inl (MakoException m) \<Rightarrow> (MakoExit m, None)
           | Inl e \<Rightarrow> (ExitCode 1, None)
           | Inr st \<Rightarrow> (ExitCode 0, Some st)))"

text \<open>What the loop is meant to write: every page of every document.\<close>

definition all_pages_written :: "('p \<Rightarrow> 'p) \<Rightarrow> 'p list list \<Rightarrow> 'p writer_event list" where
  "all_pages_written xf assembly =
     concat (map (\<lambda>d. BeginDocument d # map (\<lambda>p. WritePage (xf p)) (assembly ! d) @ [EndDocument])
       [0..<length assembly]) @ [Finish]"

subsection \<open>The event handler\<close>

lemma pe_inv_init: "pe_inv pe_init"
  by (simp add: pe_inv_def pe_init_def)

lemma sorted_wrt_snoc_less:
  "sorted_wrt (<) xs \<Longrightarrow> list_all (\<lambda>i. i \<le> n) xs \<Longrightarrow> sorted_wrt (<) (xs @ [Suc n])"
  by (auto simp: sorted_wrt_append list_all_iff)

lemma sorted_wrt_butlast: "sorted_wrt r xs \<Longrightarrow> sorted_wrt r (butlast xs)"
  by (induction xs) (auto dest: in_set_butlastD)

lemma pe_inv_step: "pe_inv s \<Longrightarrow> pe_inv (fst (handle_event s e))"
proof (cases e)
  case eEvtNodeWriteStart
  assume "pe_inv s"
  then show ?thesis using eEvtNodeWriteStart
    by (auto simp: pe_inv_def Let_def list_all_iff sorted_wrt_snoc_less)
next
  case eEvtNodeWriteEnd
  assume inv: "pe_inv s"
  show ?thesis
  proof (cases "m_nodes s = []")
    case True
    then show ?thesis using inv eEvtNodeWriteEnd by (simp add: pe_inv_def Let_def)
  next
    case False
    then have "length (butlast (m_nodes s)) = length (m_nodes s) - 1" "0 < length (m_nodes s)" by simp_all
    then show ?thesis using inv eEvtNodeWriteEnd False
      by (auto simp: pe_inv_def Let_def list_all_iff sorted_wrt_butlast dest: in_set_butlastD)
  qed
qed (simp_all add: pe_inv_def Let_def)

lemma pe_reachable_inv: "pe_reachable s \<Longrightarrow> pe_inv s"
  by (induction rule: pe_reachable.induct) (simp_all add: pe_inv_init pe_inv_step)

lemma run_events_append:
  "fst (run_events s (es @ fs)) = fst (run_events (fst (run_events s es)) fs)"
  "snd (run_events s (es @ fs)) = snd (run_events s es) @ snd (run_events (fst (run_events s es)) fs)"
  by (induction es arbitrary: s) (simp_all add: Let_def)

lemma balanced_run:
  "balanced es \<Longrightarrow>
   fst (run_events s es) = s\<lparr>m_nodeCount := m_nodeCount s + node_starts es\<rparr> \<and>
   \<not> list_ex is_mismatch (snd (run_events s es))"
proof (induction es arbitrary: s rule: balanced.induct)
  case empty
  then show ?case by simp
next
  case (other es)
  then show ?case by (simp add: split_def)
next
  case (nest es fs)
  let ?s1 = "fst (handle_event s eEvtNodeWriteStart)"
  let ?s2 = "fst (run_events ?s1 es)"
  let ?s3 = "fst (handle_event ?s2 eEvtNodeWriteEnd)"
  have s2: "?s2 = ?s1\<lparr>m_nodeCount := m_nodeCount ?s1 + node_starts es\<rparr>" using nest.IH(1) by blast
  have s3: "?s3 = s\<lparr>m_nodeCount := m_nodeCount s + Suc (node_starts es)\<rparr>"
    unfolding s2 by (simp add: Let_def)
  have m3: "\<not> list_ex is_mismatch (snd (handle_event ?s2 eEvtNodeWriteEnd))"
    unfolding s2 by (simp add: Let_def)
  have m1: "\<not> list_ex is_mismatch (snd (handle_event s eEvtNodeWriteStart))"
    by (simp add: Let_def)
  have starts: "node_starts (es @ eEvtNodeWriteEnd # fs) = node_starts es + node_starts fs"
    by (induction es) simp_all
  have run: "run_events s (eEvtNodeWriteStart # es @ eEvtNodeWriteEnd # fs) =
     (fst (run_events ?s3 fs),
      snd (handle_event s eEvtNodeWriteStart) @ snd (run_events ?s1 es) @
      snd (handle_event ?s2 eEvtNodeWriteEnd) @ snd (run_events ?s3 fs))"
    by (simp add: Let_def run_events_append)
  show ?case
    using nest.IH(1) [of ?s1] nest.IH(2) [of ?s3] m1 m3 starts unfolding run s3
    by simp
qed

lemma run_events_no_page:
  "eEvtPageWriteStart \<notin> set es \<Longrightarrow>
   m_pageCount (fst (run_events s es)) = m_pageCount s \<and>
   m_nodeDepth (fst (run_events s es)) = m_nodeDepth s + int (node_starts es) - int (node_ends es)"
proof (induction es arbitrary: s)
  case Nil
  then show ?case by simp
next
  case (Cons e es)
  then show ?case by (cases e) (simp_all add: Let_def)
qed

lemma run_page:
  "run_events s (eEvtPageWriteStart # es @ [eEvtPageWriteEnd]) =
     (let s1 = s\<lparr>m_pageCount := Suc (m_pageCount s), m_nodeCount := 0, m_nodeDepth := 0, m_nodes := []\<rparr>;
          r = run_events s1 es
      in (fst r, StartOfPage (Suc (m_pageCount s)) # snd r @ snd (handle_event (fst r) eEvtPageWriteEnd)))"
  by (simp add: Let_def run_events_append)

lemma balanced_page:
  assumes "balanced es"
  shows "run_events s (eEvtPageWriteStart # es @ [eEvtPageWriteEnd]) =
     (s\<lparr>m_pageCount := Suc (m_pageCount s), m_nodeCount := node_starts es, m_nodeDepth := 0, m_nodes := []\<rparr>,
      StartOfPage (Suc (m_pageCount s)) # snd (run_events (s\<lparr>m_pageCount := Suc (m_pageCount s),
          m_nodeCount := 0, m_nodeDepth := 0, m_nodes := []\<rparr>) es) @
      [EndOfPage (Suc (m_pageCount s)) (node_starts es)]) \<and>
    \<not> list_ex is_mismatch (snd (run_events s (eEvtPageWriteStart # es @ [eEvtPageWriteEnd])))"
  unfolding run_page Let_def
  using balanced_run [OF assms, of "s\<lparr>m_pageCount := Suc (m_pageCount s), m_nodeCount := 0, m_nodeDepth := 0, m_nodes := []\<rparr>"]
  by simp

lemma depth_mismatch_iff:
  assumes "eEvtPageWriteStart \<notin> set es" "eEvtPageWriteEnd \<notin> set es"
  shows "(\<exists>d. DepthMismatch d \<in> set (snd (run_events s (eEvtPageWriteStart # es @ [eEvtPageWriteEnd]))))
           \<longleftrightarrow> node_starts es \<noteq> node_ends es"
proof -
  let ?s1 = "s\<lparr>m_pageCount := Suc (m_pageCount s), m_nodeCount := 0, m_nodeDepth := 0, m_nodes := []\<rparr>"
  have depth: "m_nodeDepth (fst (run_events ?s1 es)) = int (node_starts es) - int (node_ends es)"
    using run_events_no_page [OF assms(1), of ?s1] by simp
  have none: "\<And>s d. eEvtPageWriteEnd \<notin> set es \<Longrightarrow> DepthMismatch d \<notin> set (snd (run_events s es))"
  proof -
    fix s d show "eEvtPageWriteEnd \<notin> set es \<Longrightarrow> DepthMismatch d \<notin> set (snd (run_events s es))"
    proof (induction es arbitrary: s)
      case (Cons e es)
      then show ?case by (cases e) (simp_all add: Let_def)
    qed simp
  qed
  show ?thesis
    unfolding run_page Let_def using none [OF assms(2)] depth by auto
qed

subsection \<open>The loops\<close>

lemma page_loop_eq:
  "page_loop xf evs doc 0 st =
     (if doc = [] then Inl (MakoException ''getPage'') else Inr (write_page evs (xf (hd doc)) st))"
  by (simp add: page_loop.simps [of xf evs doc 0] page_loop.simps [of xf evs doc "Suc 0"] get_page_def hd_conv_nth)

lemma write_page_count:
  "eEvtPageWriteStart \<notin> set (evs p) \<Longrightarrow>
   m_pageCount (os_handler (write_page evs p st)) = Suc (m_pageCount (os_handler st))"
  using run_events_no_page [of "evs p @ [eEvtPageWriteEnd]"]
  by (simp add: write_page_def split_def Let_def run_events_append)

lemma write_page_writer: "os_writer (write_page evs p st) = os_writer st @ [WritePage p]"
  by (simp add: write_page_def split_def Let_def)

lemma doc_loop_ok:
  "list_all (\<lambda>d. d \<noteq> []) assembly \<Longrightarrow> (\<forall>p. eEvtPageWriteStart \<notin> set (evs p)) \<Longrightarrow>
   \<exists>st'. doc_loop xf evs assembly d st = Inr st' \<and>
     os_writer st' = os_writer st @ concat (map (\<lambda>i. [BeginDocument i, WritePage (xf (hd (assembly ! i))), EndDocument])
                                          [d..<length assembly]) \<and>
     m_pageCount (os_handler st') = m_pageCount (os_handler st) + (length assembly - d)"
proof (induction xf evs assembly d st rule: doc_loop.induct)
  case (1 xf evs assembly doc_no st)
  show ?case
  proof (cases "doc_no < length assembly")
    case True
    let ?st1 = "write_page evs (xf (hd (assembly ! doc_no))) (st\<lparr>os_writer := os_writer st @ [BeginDocument doc_no]\<rparr>)"
    have ne: "assembly ! doc_no \<noteq> []" using "1.prems"(1) True by (simp add: list_all_length)
    obtain st' where st': "doc_loop xf evs assembly (Suc doc_no) (?st1\<lparr>os_writer := os_writer ?st1 @ [EndDocument]\<rparr>) = Inr st'"
      "os_writer st' = os_writer (?st1\<lparr>os_writer := os_writer ?st1 @ [EndDocument]\<rparr>) @
         concat (map (\<lambda>i. [BeginDocument i, WritePage (xf (hd (assembly ! i))), EndDocument]) [Suc doc_no..<length assembly])"
      "m_pageCount (os_handler st') = m_pageCount (os_handler ?st1) + (length assembly - Suc doc_no)"
      using "1.IH" [OF True "1.prems"(1,2)] ne by (auto simp: page_loop_eq)
    have up: "[doc_no..<length assembly] = doc_no # [Suc doc_no..<length assembly]"
      using True by (simp add: upt_conv_Cons)
    have "m_pageCount (os_handler ?st1) = Suc (m_pageCount (os_handler st))"
      using "1.prems"(2) by (simp add: write_page_count)
    then show ?thesis
      using st' True ne up by (simp add: doc_loop.simps [of xf evs assembly doc_no] page_loop_eq write_page_writer)
  next
    case False
    then show ?thesis by (simp add: doc_loop.simps [of xf evs assembly doc_no])
  qed
qed

lemma doc_loop_empty:
  "[] \<in> set (drop d assembly) \<Longrightarrow> doc_loop xf evs assembly d st = Inl (MakoException ''getPage'')"
proof (induction xf evs assembly d st rule: doc_loop.induct)
  case (1 xf evs assembly doc_no st)
  have lt: "doc_no < length assembly" using "1.prems" by (auto dest: in_set_dropD simp: in_set_conv_nth)
  show ?case
  proof (cases "assembly ! doc_no = []")
    case True
    then show ?thesis using lt by (simp add: doc_loop.simps [of xf evs assembly doc_no] page_loop_eq)
  next
    case False
    have "[] \<in> set (drop (Suc doc_no) assembly)"
      using "1.prems" lt False by (simp add: Cons_nth_drop_Suc [symmetric])
    then show ?thesis
      using "1.IH" [OF lt] lt False by (simp add: doc_loop.simps [of xf evs assembly doc_no] page_loop_eq)
  qed
qed

lemma first_pages_length:
  "length (concat (map (\<lambda>i. [BeginDocument i, WritePage (xf (hd (assembly ! i))), EndDocument])
     [0..<length assembly])) = (\<Sum>i\<in>{0..<length assembly}. 3)"
  by (simp add: length_concat comp_def sum_list_triv)

lemma all_pages_length:
  "length (all_pages_written xf assembly) = (\<Sum>i\<in>{0..<length assembly}. length (assembly ! i) + 2) + 1"
proof -
  have "length (all_pages_written xf assembly) = (\<Sum>i\<leftarrow>[0..<length assembly]. length (assembly ! i) + 2) + 1"
    by (simp add: all_pages_written_def length_concat comp_def)
  then show ?thesis by (simp only: sum_set_upt_conv_sum_list_nat [symmetric] set_upt)
qed

lemma first_pages_all_iff:
  assumes "list_all (\<lambda>d. d \<noteq> []) assembly"
  shows "concat (map (\<lambda>i. [BeginDocument i, WritePage (xf (hd (assembly ! i))), EndDocument])
            [0..<length assembly]) @ [Finish] = all_pages_written xf assembly
         \<longleftrightarrow> list_all (\<lambda>d. length d = 1) assembly"
proof
  assume eq: "concat (map (\<lambda>i. [BeginDocument i, WritePage (xf (hd (assembly ! i))), EndDocument])
            [0..<length assembly]) @ [Finish] = all_pages_written xf assembly"
  show "list_all (\<lambda>d. length d = 1) assembly"
  proof (rule ccontr)
    assume "\<not> list_all (\<lambda>d. length d = 1) assembly"
    then obtain i where i: "i < length assembly" "length (assembly ! i) \<noteq> 1" by (auto simp: list_all_length)
    have ge: "\<forall>j\<in>{0..<length assembly}. (3::nat) \<le> length (assembly ! j) + 2"
      using assms by (auto simp: list_all_length Suc_le_eq)
    have "assembly ! i \<noteq> []" using i assms by (simp add: list_all_length)
    then have "(3::nat) < length (assembly ! i) + 2" using i(2) by (cases "assembly ! i") auto
    then have "\<exists>j\<in>{0..<length assembly}. (3::nat) < length (assembly ! j) + 2"
      using i(1) by auto
    then have "(\<Sum>j\<in>{0..<length assembly}. (3::nat)) < (\<Sum>j\<in>{0..<length assembly}. length (assembly ! j) + 2)"
      using ge by (intro sum_strict_mono_ex1) auto
    then show False using arg_cong [OF eq, of length] first_pages_length [of xf assembly] all_pages_length [of xf assembly]
      by simp
  qed
next
  assume one: "list_all (\<lambda>d. length d = 1) assembly"
  have one_i: "\<And>i. i < length assembly \<Longrightarrow> assembly ! i = [hd (assembly ! i)]"
    using one by (auto simp: list_all_length length_Suc_conv)
  have "\<And>i. i < length assembly \<Longrightarrow>
      BeginDocument i # map (\<lambda>p. WritePage (xf p)) (assembly ! i) @ [EndDocument] =
      [BeginDocument i, WritePage (xf (hd (assembly ! i))), EndDocument]"
  proof -
    fix i assume "i < length assembly"
    then have "map (\<lambda>p. WritePage (xf p)) (assembly ! i) = map (\<lambda>p. WritePage (xf p)) [hd (assembly ! i)]"
      using one_i by (intro arg_cong [where f = "map (\<lambda>p. WritePage (xf p))"]) simp
    then show "BeginDocument i # map (\<lambda>p. WritePage (xf p)) (assembly ! i) @ [EndDocument] =
      [BeginDocument i, WritePage (xf (hd (assembly ! i))), EndDocument]" by simp
  qed
  then show "concat (map (\<lambda>i. [BeginDocument i, WritePage (xf (hd (assembly ! i))), EndDocument])
            [0..<length assembly]) @ [Finish] = all_pages_written xf assembly"
    unfolding all_pages_written_def
  proof -
    assume eq: "\<And>i. i < length assembly \<Longrightarrow>
      BeginDocument i # map (\<lambda>p. WritePage (xf p)) (assembly ! i) @ [EndDocument] =
      [BeginDocument i, WritePage (xf (hd (assembly ! i))), EndDocument]"
    have "map (\<lambda>i. [BeginDocument i, WritePage (xf (hd (assembly ! i))), EndDocument]) [0..<length assembly] =
          map (\<lambda>d. BeginDocument d # map (\<lambda>p. WritePage (xf p)) (assembly ! d) @ [EndDocument]) [0..<length assembly]"
      by (rule map_cong) (simp_all add: eq)
    then show "concat (map (\<lambda>i. [BeginDocument i, WritePage (xf (hd (assembly ! i))), EndDocument])
            [0..<length assembly]) @ [Finish] =
      concat (map (\<lambda>d. BeginDocument d # map (\<lambda>p. WritePage (xf p)) (assembly ! d) @ [EndDocument])
            [0..<length assembly]) @ [Finish]" by (rule arg_cong [where f = "\<lambda>xs. concat xs @ [Finish]"])
  qed
qed

lemma format_key: "map_of format_table k = Some f \<Longrightarrow> CHR ''.'' \<notin> set k"
  by (auto simp: format_table_def split: if_splits)

lemma split_last_ext: "CHR ''.'' \<notin> set e \<Longrightarrow> py_split_last CHR ''.'' (p @ ''.'' @ e) = e"
proof -
  assume "CHR ''.'' \<notin> set e"
  then have "takeWhile (\<lambda>c. c \<noteq> CHR ''.'') (rev e @ CHR ''.'' # rev p) =
      rev e @ takeWhile (\<lambda>c. c \<noteq> CHR ''.'') (CHR ''.'' # rev p)"
    by (intro takeWhile_append2) auto
  then show ?thesis by (simp add: py_split_last_def)
qed

lemma format_from_path_ext:
  "map_of format_table (py_lower e) = Some f \<Longrightarrow> format_from_path (p @ ''.'' @ e) = Inr f"
  using format_key [of "py_lower e" f] split_last_ext [of "py_lower e" "py_lower p"]
  by (simp add: format_from_path_def py_lower_def)

lemma balanced_two_nodes:
  "balanced [eEvtNodeWriteStart, eEvtNodeWriteStart, eEvtNodeWriteEnd, eEvtNodeWriteEnd]"
  using balanced.nest [OF balanced.nest [OF balanced.empty balanced.empty] balanced.empty] by simp

subsection \<open>Properties of the progress monitor\<close>

text \<open>C25: every state the event callback reaches keeps its node stack strictly increasing,
  holds only ids of nodes started on the current page, and never has a depth above the
  stack height.\<close>

theorem handle_event_invariant: "pe_reachable s \<Longrightarrow> pe_inv s"
  by (rule pe_reachable_inv)

theorem handle_event_invariant_witness:
  "pe_reachable (fst (handle_event pe_init eEvtNodeWriteStart)) \<and>
   pe_inv (fst (handle_event pe_init eEvtNodeWriteStart))"
proof -
  have r: "pe_reachable (fst (handle_event pe_init eEvtNodeWriteStart))"
    by (rule pe_reachable.step [OF pe_reachable.init])
  show ?thesis using handle_event_invariant [OF r] r by simp
qed

text \<open>C26: for a page whose node events nest properly, the callback prints the page start,
  the page end with the number of nodes started, and no mismatch message, and leaves an
  empty node stack at depth zero.\<close>

theorem balanced_page_no_mismatch:
  assumes "balanced es"
  shows "run_events s (eEvtPageWriteStart # es @ [eEvtPageWriteEnd]) =
     (s\<lparr>m_pageCount := Suc (m_pageCount s), m_nodeCount := node_starts es, m_nodeDepth := 0, m_nodes := []\<rparr>,
      StartOfPage (Suc (m_pageCount s)) # snd (run_events (s\<lparr>m_pageCount := Suc (m_pageCount s),
          m_nodeCount := 0, m_nodeDepth := 0, m_nodes := []\<rparr>) es) @
      [EndOfPage (Suc (m_pageCount s)) (node_starts es)]) \<and>
    \<not> list_ex is_mismatch (snd (run_events s (eEvtPageWriteStart # es @ [eEvtPageWriteEnd])))"
  by (rule balanced_page [OF assms])

theorem balanced_page_no_mismatch_witness:
  "run_events pe_init (eEvtPageWriteStart # [eEvtNodeWriteStart, eEvtNodeWriteStart, eEvtNodeWriteEnd, eEvtNodeWriteEnd] @ [eEvtPageWriteEnd]) =
     (\<lparr>m_pageCount = 1, m_nodeCount = 2, m_nodeDepth = 0, m_nodes = []\<rparr>, [StartOfPage 1, EndOfPage 1 2]) \<and>
   \<not> list_ex is_mismatch (snd (run_events pe_init (eEvtPageWriteStart # [eEvtNodeWriteStart, eEvtNodeWriteStart, eEvtNodeWriteEnd, eEvtNodeWriteEnd] @ [eEvtPageWriteEnd])))"
  using balanced_page_no_mismatch [OF balanced_two_nodes, of pe_init]
  by (simp add: pe_init_def Let_def)

text \<open>C27: on a page, the depth mismatch message is printed exactly when the page's node
  starts and node ends differ in number, whatever their order.\<close>

theorem page_end_depth_mismatch:
  assumes "eEvtPageWriteStart \<notin> set es" "eEvtPageWriteEnd \<notin> set es"
  shows "(\<exists>d. DepthMismatch d \<in> set (snd (run_events s (eEvtPageWriteStart # es @ [eEvtPageWriteEnd]))))
           \<longleftrightarrow> node_starts es \<noteq> node_ends es"
  by (rule depth_mismatch_iff [OF assms])

theorem page_end_depth_mismatch_witness:
  "(\<exists>d. DepthMismatch d \<in> set (snd (run_events pe_init (eEvtPageWriteStart # [eEvtNodeWriteEnd, eEvtNodeWriteStart] @ [eEvtPageWriteEnd]))))
     \<longleftrightarrow> node_starts [eEvtNodeWriteEnd, eEvtNodeWriteStart] \<noteq> node_ends [eEvtNodeWriteEnd, eEvtNodeWriteStart]"
  by (rule page_end_depth_mismatch) simp_all

text \<open>C28: when every document has a page and page writes report no nested page start,
  the conversion loop succeeds, writes exactly the first page of each document, and the
  output monitor counts one page per document.\<close>

theorem output_first_page_only:
  assumes "list_all (\<lambda>d. d \<noteq> []) assembly" "\<forall>p. eEvtPageWriteStart \<notin> set (evs p)"
  shows "\<exists>st. output_iterate_by_page xf evs assembly = Inr st \<and>
           os_writer st = concat (map (\<lambda>i. [BeginDocument i, WritePage (xf (hd (assembly ! i))), EndDocument])
                                   [0..<length assembly]) @ [Finish] \<and>
           m_pageCount (os_handler st) = length assembly"
  using doc_loop_ok [OF assms, of xf 0 "\<lparr>os_writer = [], os_handler = pe_init, os_log = []\<rparr>"]
  by (auto simp: output_iterate_by_page_def pe_init_def)

theorem output_first_page_only_witness:
  "\<exists>st. output_iterate_by_page Suc (\<lambda>p. []) [[1::nat, 2], [3]] = Inr st \<and>
     os_writer st = [BeginDocument 0, WritePage 2, EndDocument, BeginDocument 1, WritePage 4, EndDocument, Finish] \<and>
     m_pageCount (os_handler st) = 2"
  using output_first_page_only [of "[[1::nat, 2], [3]]" "\<lambda>p. []" Suc] by (simp add: upt_rec eval_nat_numeral)

text \<open>On documents that all have a page, the loop writes every page of every
  document only if every document has exactly one page: \<open>while page_index < 1\<close> stops
  after the first.\<close>

theorem output_all_pages_iff_single:
  assumes "list_all (\<lambda>d. d \<noteq> []) assembly" "\<forall>p. eEvtPageWriteStart \<notin> set (evs p)"
    and "output_iterate_by_page xf evs assembly = Inr st"
  shows "os_writer st = all_pages_written xf assembly \<longleftrightarrow> list_all (\<lambda>d. length d = 1) assembly"
proof -
  obtain st' where "output_iterate_by_page xf evs assembly = Inr st'"
    "os_writer st' = concat (map (\<lambda>i. [BeginDocument i, WritePage (xf (hd (assembly ! i))), EndDocument])
                                   [0..<length assembly]) @ [Finish]"
    using doc_loop_ok [OF assms(1,2), of xf 0 "\<lparr>os_writer = [], os_handler = pe_init, os_log = []\<rparr>"]
    by (auto simp: output_iterate_by_page_def)
  then show ?thesis using assms(3) first_pages_all_iff [OF assms(1), of xf] by simp
qed

theorem output_all_pages_iff_single_witness:
  "output_iterate_by_page id (\<lambda>p. []) [[1::nat, 2]] =
     Inr \<lparr>os_writer = [BeginDocument 0, WritePage 1, EndDocument, Finish],
          os_handler = \<lparr>m_pageCount = 1, m_nodeCount = 0, m_nodeDepth = 0, m_nodes = []\<rparr>,
          os_log = [StartOfPage 1, EndOfPage 1 0]\<rparr> \<and>
   (os_writer \<lparr>os_writer = [BeginDocument 0, WritePage (1::nat), EndDocument, Finish],
          os_handler = \<lparr>m_pageCount = 1, m_nodeCount = 0, m_nodeDepth = 0, m_nodes = []\<rparr>,
          os_log = [StartOfPage 1, EndOfPage 1 0]\<rparr> = all_pages_written id [[1, 2]]
    \<longleftrightarrow> list_all (\<lambda>d. length d = 1) [[1::nat, 2]])"
proof -
  have run: "output_iterate_by_page id (\<lambda>p. []) [[1::nat, 2]] =
     Inr \<lparr>os_writer = [BeginDocument 0, WritePage 1, EndDocument, Finish],
          os_handler = \<lparr>m_pageCount = 1, m_nodeCount = 0, m_nodeDepth = 0, m_nodes = []\<rparr>,
          os_log = [StartOfPage 1, EndOfPage 1 0]\<rparr>"
    by code_simp
  show ?thesis using output_all_pages_iff_single [OF _ _ run] run by simp
qed

text \<open>A three-page document converts with return value 0 and only its first page in
  the output.\<close>

theorem pm_main_multi_page:
  "pm_main id (\<lambda>p. []) [[1::nat, 2, 3]] [''prog'', ''in.pdf'', ''out.xps''] =
     (ExitCode 0, Some \<lparr>os_writer = [BeginDocument 0, WritePage 1, EndDocument, Finish],
          os_handler = \<lparr>m_pageCount = 1, m_nodeCount = 0, m_nodeDepth = 0, m_nodes = []\<rparr>,
          os_log = [StartOfPage 1, EndOfPage 1 0]\<rparr>)"
  by code_simp

text \<open>A document with no page makes \<open>document.getPage(0)\<close> raise, and the loop
  fails with that exception.\<close>

theorem output_empty_document:
  assumes "[] \<in> set assembly"
  shows "output_iterate_by_page xf evs assembly = Inl (MakoException ''getPage'')"
  using doc_loop_empty [of 0 assembly] assms by (simp add: output_iterate_by_page_def)

theorem output_empty_document_witness:
  "output_iterate_by_page id (\<lambda>p. []) [[1::nat], []] = Inl (MakoException ''getPage'')"
  by (rule output_empty_document) simp

text \<open>C32: a path ending in a dot and one of the ten known extensions, in any letter
  case, is given that extension's format.\<close>

theorem format_from_path_extension:
  "map_of format_table (py_lower e) = Some f \<Longrightarrow> format_from_path (p @ ''.'' @ e) = Inr f"
  by (rule format_from_path_ext)

theorem format_from_path_extension_witness:
  "format_from_path (''report'' @ ''.'' @ ''PDF'') = Inr eFFPDF"
  by (rule format_from_path_extension) code_simp

text \<open>C30: with a wrong argument count or an input or output path of unknown type, \<open>main\<close>
  returns 1 before opening anything.\<close>

theorem pm_main_bad_arguments:
  assumes "length argv \<noteq> 3 \<or> format_from_path (argv ! 1) = Inl ValueError \<or>
           format_from_path (argv ! 2) = Inl ValueError"
  shows "pm_main xf evs assembly argv = (ExitCode 1, None)"
  using assms by (cases "format_from_path (argv ! 1)") (auto simp: pm_main_def make_params_def)

theorem pm_main_bad_arguments_witness:
  "pm_main id (\<lambda>p. []) [[1::nat]] [''prog'', ''in.docx'', ''out.pdf''] = (ExitCode 1, None)"
  by (rule pm_main_bad_arguments) code_simp

end
