(* ===== verification/Shapes.thy ===== *)
theory Shapes
  imports Prelude
begin

text \<open>
  The two shape samples, \<open>CreateShapes/spot_color_shapes.py\<close> and
  \<open>CreateColorsAndShapes/spot_color_shapes.py\<close>: \<open>create_target\<close> (a star of
  \<open>n_lines\<close> spokes inscribed in a box's ellipse), \<open>create_geometry\<close> (the choice of
  geometry per shape type), \<open>draw_row\<close> (four boxes of growing width, each stroked and
  filled), the colour constructors, and both \<open>main\<close>s, which draw the rows on one page and
  write it to \<open>test.pdf\<close>.

  Geometries the SDK builds from a box (rectangle, ellipse, regular polygon) are kept as
  constructors of \<open>geometry\<close>; only the star is computed by the script, so its path is
  computed here. Floats are \<open>real\<close>: the spoke ends are exact cosines and sines.
  Brushes carry what the script gives them; the page is the list of path nodes appended
  to it, and it is written only if no exception is raised before \<open>writeAssembly\<close>.
\<close>

datatype shape_type = Box | Ellipse | Hexagon | Polygon | Target

datatype path_cmd = MoveTo real real | LineTo real real | ClosePath

datatype geometry =
    RectGeom box
  | EllipseGeom box
  | PolygonGeom box int real
  | PathGeom "path_cmd list"

text \<open>A DeviceN colour with one colorant: its name, its representation in the
  alternate space, and that space.\<close>

datatype alt_space = LabSpace | CMYKSpace

record sep_color =
  sc_name :: string
  sc_rep :: "real list"
  sc_alt :: alt_space

datatype brush = SolidCmyk real real real real | SpotColor sep_color | PlainColor string

datatype path_node = Stroked geometry brush | Filled geometry brush | StrokedWidth geometry brush real

text \<open>The ink invariant of spec section 3: the representation has one value per
  component of the alternate space.\<close>

fun alt_components :: "alt_space \<Rightarrow> nat" where
  "alt_components LabSpace = 3"
| "alt_components CMYKSpace = 4"

definition ink_wf :: "sep_color \<Rightarrow> bool" where
  "ink_wf c \<longleftrightarrow> length (sc_rep c) = alt_components (sc_alt c)"

subsection \<open>Geometry\<close>

definition radians :: "real \<Rightarrow> real" where
  "radians d = d * pi / 180"

text \<open>Lines 138--143 (\<open>CreateShapes\<close>): one spoke per iteration, the angle advanced by
  \<open>incr\<close> after each.\<close>

fun target_loop :: "nat \<Rightarrow> real \<Rightarrow> real \<Rightarrow> real \<Rightarrow> real \<Rightarrow> real \<Rightarrow> real \<Rightarrow> path_cmd list" where
  "target_loop 0 cx cy rx ry incr angle = []"
| "target_loop (Suc k) cx cy rx ry incr angle =
     LineTo (cx + rx * cos angle) (cy + ry * sin angle) # MoveTo cx cy #
     target_loop k cx cy rx ry incr (angle + incr)"

text \<open>Lines 126--146: \<open>2.0 * math.pi / n_lines\<close> raises ZeroDivisionError for
  \<open>n_lines = 0\<close>; a negative count gives an empty \<open>range\<close>.\<close>

definition create_target :: "box \<Rightarrow> int \<Rightarrow> real \<Rightarrow> geometry res" where
  "create_target b n_lines rotation =
     (if n_lines = 0 then Inl ZeroDivisionError
      else
        (let angle = radians rotation;
             incr = 2 * pi / real_of_int n_lines;
             radius_x = box_dX b / 2; radius_y = box_dY b / 2;
             center_x = box_x b + radius_x; center_y = box_y b + radius_y
         in Inr (PathGeom (MoveTo center_x center_y #
                           target_loop (nat n_lines) center_x center_y radius_x radius_y incr angle @
                           [ClosePath]))))"

text \<open>\<open>create_geometry\<close> of \<open>CreateShapes\<close> (lines 113--123): the star has eight spokes.\<close>

definition create_geometry_shapes :: "box \<Rightarrow> shape_type \<Rightarrow> int \<Rightarrow> real \<Rightarrow> geometry res" where
  "create_geometry_shapes b shape sides angle =
     (case shape of
        Ellipse \<Rightarrow> Inr (EllipseGeom b)
      | Hexagon \<Rightarrow> Inr (PolygonGeom b 6 angle)
      | Polygon \<Rightarrow> Inr (PolygonGeom b sides angle)
      | Target \<Rightarrow> create_target b 8 angle
      | Box \<Rightarrow> Inr (RectGeom b))"

text \<open>\<open>create_target\<close> of \<open>CreateColorsAndShapes\<close> (lines 180--201): the module's own
  copy of the function, with the same body and the same spoke loop.\<close>

definition create_target_colors :: "box \<Rightarrow> int \<Rightarrow> real \<Rightarrow> geometry res" where
  "create_target_colors b n_lines rotation =
     (if n_lines = 0 then Inl ZeroDivisionError
      else
        (let angle = radians rotation;
             incr = 2 * pi / real_of_int n_lines;
             radius_x = box_dX b / 2; radius_y = box_dY b / 2;
             center_x = box_x b + radius_x; center_y = box_y b + radius_y
         in Inr (PathGeom (MoveTo center_x center_y #
                           target_loop (nat n_lines) center_x center_y radius_x radius_y incr angle @
                           [ClosePath]))))"

text \<open>\<open>create_geometry\<close> of \<open>CreateColorsAndShapes\<close> (lines 167--177): the star has
  \<open>lines\<close> spokes.\<close>

definition create_geometry_colors :: "box \<Rightarrow> shape_type \<Rightarrow> int \<Rightarrow> real \<Rightarrow> int \<Rightarrow> geometry res" where
  "create_geometry_colors b shape sides angle lines =
     (case shape of
        Ellipse \<Rightarrow> Inr (EllipseGeom b)
      | Hexagon \<Rightarrow> Inr (PolygonGeom b 6 angle)
      | Polygon \<Rightarrow> Inr (PolygonGeom b sides angle)
      | Target \<Rightarrow> create_target_colors b lines angle
      | Box \<Rightarrow> Inr (RectGeom b))"

subsection \<open>Rows\<close>

text \<open>The loop of \<open>draw_row\<close> (\<open>CreateColorsAndShapes\<close>, lines 152--164): for each brush
  a stroked box and a filled box \<open>1.1\<close> box heights below it; then the start moves right
  by \<open>gap\<close> box widths, the width grows by \<open>grow\<close> and \<open>lines\<close> by one. The geometry
  function gets the box and the spoke count (\<open>lines\<close> for the stroke, \<open>lines + 4\<close> for
  the fill).\<close>

fun row_loop_shapes :: "(box \<Rightarrow> int \<Rightarrow> geometry res) \<Rightarrow> real \<Rightarrow> real \<Rightarrow> brush list \<Rightarrow>
    real \<Rightarrow> real \<Rightarrow> real \<Rightarrow> real \<Rightarrow> int \<Rightarrow> path_node list \<Rightarrow> path_node list res" where
  "row_loop_shapes geom gap grow [] sx sy w h lines page = Inr page"
| "row_loop_shapes geom gap grow (br # brs) sx sy w h lines page =
     (let stroke_box = \<lparr>box_x = sx, box_y = sy, box_dX = w, box_dY = h\<rparr> in
      res_bind (geom stroke_box lines) (\<lambda>stroke_geom.
      (let fill_box = \<lparr>box_x = sx, box_y = sy + h * 11 / 10, box_dX = w, box_dY = h\<rparr> in
       res_bind (geom fill_box (lines + 4)) (\<lambda>fill_geom.
       row_loop_shapes geom gap grow brs (sx + w * gap) sy (w * grow) h (lines + 1)
         (page @ [Stroked stroke_geom br, Filled fill_geom br])))))"

text \<open>\<open>draw_row\<close> of \<open>CreateShapes\<close> (lines 95--110): gap 1.1, growth 1.25, and a
  geometry that ignores the spoke count.\<close>

definition draw_row_shapes :: "real \<times> real \<Rightarrow> real \<times> real \<Rightarrow> brush list \<Rightarrow> shape_type \<Rightarrow> int \<Rightarrow> real \<Rightarrow>
    path_node list \<Rightarrow> path_node list res" where
  "draw_row_shapes origin master brushes shape sides angle page =
     row_loop_shapes (\<lambda>b lines. create_geometry_shapes b shape sides angle) (11 / 10) (5 / 4) brushes
       (fst origin) (snd origin) (fst master) (snd master) 0 page"

text \<open>\<open>draw_row\<close> of \<open>CreateColorsAndShapes\<close> (lines 147--164): gap 1.2, growth 1.3,
  and \<open>lines\<close> defaulting to 0.\<close>

definition draw_row_colors :: "real \<times> real \<Rightarrow> real \<times> real \<Rightarrow> brush list \<Rightarrow> shape_type \<Rightarrow> int \<Rightarrow> real \<Rightarrow>
    int \<Rightarrow> path_node list \<Rightarrow> path_node list res" where
  "draw_row_colors origin master brushes shape sides angle lines page =
     row_loop_shapes (\<lambda>b l. create_geometry_colors b shape sides angle l) (6 / 5) (13 / 10) brushes
       (fst origin) (snd origin) (fst master) (snd master) lines page"

subsection \<open>Colours\<close>

text \<open>\<open>make_separation_color\<close> (\<open>CreateShapes\<close>, lines 149--159): a Lab alternate for
  three values, CMYK otherwise.\<close>

definition make_separation_color :: "string \<Rightarrow> real list \<Rightarrow> sep_color" where
  "make_separation_color name rep_values =
     \<lparr>sc_name = name, sc_rep = rep_values,
      sc_alt = (if length rep_values = 3 then LabSpace else CMYKSpace)\<rparr>"

text \<open>\<open>make_deviceN_color\<close> (\<open>CreateColorsAndShapes\<close>, lines 203--212).\<close>

definition make_deviceN_color :: "string \<Rightarrow> real list \<Rightarrow> alt_space \<Rightarrow> sep_color" where
  "make_deviceN_color name rep_values alternate =
     \<lparr>sc_name = name, sc_rep = rep_values, sc_alt = alternate\<rparr>"

subsection \<open>The two scripts\<close>

definition process_brushes :: "brush list" where
  "process_brushes = [SolidCmyk 1 0 0 0, SolidCmyk 0 1 0 0, SolidCmyk 0 0 1 0, SolidCmyk 0 0 0 1]"

text \<open>\<open>main\<close> of \<open>CreateShapes\<close> (lines 24--92): five rows, 200 points apart. The result
  is the page written to \<open>test.pdf\<close>, or the exception that prevented it.\<close>

definition main_shapes :: "path_node list res" where
  "main_shapes =
     (let lab = (\<lambda>n r. SpotColor (make_separation_color n r));
          spot_lab = [lab ''LABCyan'' [62, -44, -50], lab ''LABMagenta'' [52, 81, -7],
                      lab ''LABYellow'' [95, -6, 96], lab ''LABBlack'' [12, 2, 0]];
          all = lab ''All'' [1, 1, 1, 1]; rot = lab ''Rot'' [0, 1, 1, 0];
          blau = lab ''Blau'' [1, 1, 0, 0]; grun = lab ''Grun'' [1, 0, 1, 0];
          master = (80, 80)
      in res_bind (draw_row_shapes (140, 75) master process_brushes Box 0 0 []) (\<lambda>p1.
         res_bind (draw_row_shapes (140, 275) master spot_lab Ellipse 0 0 p1) (\<lambda>p2.
         res_bind (draw_row_shapes (140, 475) master [rot, grun, blau, all] Hexagon 0 0 p2) (\<lambda>p3.
         res_bind (draw_row_shapes (140, 675) master process_brushes Polygon 8 (45 / 2) p3) (\<lambda>p4.
         draw_row_shapes (140, 875) master process_brushes Target 0 0 p4)))))"

text \<open>\<open>main\<close> of \<open>CreateColorsAndShapes\<close> (lines 24--144). Two collaborators are
  parameters: whether the ICC profile file \<open>WebCoatedFOGRA28.icc\<close> under the Windows colour
  directory opens
  (\<open>icc_ok\<close>), and what \<open>CEDLVectDouble\<close> makes of the Python set literals
  \<open>{17.64, 43.0, -76.0}\<close> and \<open>{1.0, 1.0, 1.0, 1.0}\<close> the script passes it
  (\<open>vec\<close>, given the literal's elements in source order).\<close>

definition main_colors :: "bool \<Rightarrow> (real list \<Rightarrow> real list res) \<Rightarrow> path_node list res" where
  "main_colors icc_ok vec =
     (if \<not> icc_ok then Inl (MakoException ''IInputStream.createFromFile'')
      else
        res_bind (vec [1764 / 100, 43, -76]) (\<lambda>blue_rep.
        res_bind (vec [1, 1, 1, 1]) (\<lambda>all_rep.
        (let lab_brush = PlainColor ''PANTONE Blue 072 C (Lab)'';
             icc_brush = PlainColor ''PANTONE Blue 072 C (FOGRA28)'';
             device_n_brush = SpotColor (make_deviceN_color ''PANTONE BLUE 072 C'' blue_rep LabSpace);
             all_brush = SpotColor (make_deviceN_color ''All'' all_rep CMYKSpace);
             spot_brushes = [lab_brush, icc_brush, device_n_brush, all_brush];
             boxes = map (\<lambda>(k, br). Filled (RectGeom \<lparr>box_x = 85 + 90 * real k, box_y = 85, box_dX = 90, box_dY = 90\<rparr>) br)
                       (zip [0..<8] (process_brushes @ spot_brushes));
             border = StrokedWidth (RectGeom \<lparr>box_x = 85 - 20 / 2, box_y = 85 - 20 / 2,
                                              box_dX = 90 * 7 + 20, box_dY = 90 + 20\<rparr>) all_brush 20;
             master = (90, 90)
         in res_bind (draw_row_colors (85, 245) master process_brushes Ellipse 0 0 0 (boxes @ [border])) (\<lambda>p1.
            res_bind (draw_row_colors (85, 445) master spot_brushes Hexagon 0 0 0 p1) (\<lambda>p2.
            res_bind (draw_row_colors (85, 645) master process_brushes Polygon 8 (45 / 2) 0 p2) (\<lambda>p3.
            draw_row_colors (85, 845) master spot_brushes Target 0 0 0 p3)))))))"

subsection \<open>Rows and scripts\<close>

lemma row_loop_shapes_ok:
  "(\<And>b l. \<exists>g. geom b l = Inr g) \<Longrightarrow>
   \<exists>nodes. row_loop_shapes geom gap grow brs sx sy w h lines page = Inr (page @ nodes) \<and>
     length nodes = 2 * length brs"
proof (induction brs arbitrary: sx w lines page)
  case Nil
  then show ?case by simp
next
  case (Cons br brs)
  obtain g1 where g1: "geom \<lparr>box_x = sx, box_y = sy, box_dX = w, box_dY = h\<rparr> lines = Inr g1"
    using Cons.prems by blast
  obtain g2 where g2: "geom \<lparr>box_x = sx, box_y = sy + h * 11 / 10, box_dX = w, box_dY = h\<rparr> (lines + 4) = Inr g2"
    using Cons.prems by blast
  obtain nodes where "row_loop_shapes geom gap grow brs (sx + w * gap) sy (w * grow) h (lines + 1)
      (page @ [Stroked g1 br, Filled g2 br]) = Inr ((page @ [Stroked g1 br, Filled g2 br]) @ nodes)"
    "length nodes = 2 * length brs"
    using Cons.IH [OF Cons.prems] by blast
  then show ?case using g1 g2 by (intro exI [of _ "[Stroked g1 br, Filled g2 br] @ nodes"]) simp
qed

lemma row_loop_shapes_first_fails:
  "geom \<lparr>box_x = sx, box_y = sy, box_dX = w, box_dY = h\<rparr> lines = Inl e \<Longrightarrow>
   row_loop_shapes geom gap grow (br # brs) sx sy w h lines page = Inl e"
  by simp

text \<open>The two modules' copies of \<open>create_target\<close> compute the same geometry.\<close>

lemma create_target_colors_eq: "create_target_colors = create_target"
  by (intro ext) (simp add: create_target_colors_def create_target_def)

lemma create_target_nonzero: "n \<noteq> 0 \<Longrightarrow> \<exists>g. create_target b n rot = Inr g"
  by (simp add: create_target_def Let_def)

lemma create_geometry_shapes_ok: "\<exists>g. create_geometry_shapes b shape sides angle = Inr g"
  by (cases shape) (simp_all add: create_geometry_shapes_def create_target_nonzero)

lemma create_geometry_colors_ok:
  "shape \<noteq> Target \<Longrightarrow> \<exists>g. create_geometry_colors b shape sides angle lines = Inr g"
  by (cases shape) (simp_all add: create_geometry_colors_def)

lemma draw_row_shapes_ok:
  "\<exists>nodes. draw_row_shapes origin master brushes shape sides angle page = Inr (page @ nodes) \<and>
     length nodes = 2 * length brushes"
  unfolding draw_row_shapes_def by (rule row_loop_shapes_ok) (rule create_geometry_shapes_ok)

lemma draw_row_colors_ok:
  "shape \<noteq> Target \<Longrightarrow>
   \<exists>nodes. draw_row_colors origin master brushes shape sides angle lines page = Inr (page @ nodes) \<and>
     length nodes = 2 * length brushes"
  unfolding draw_row_colors_def by (rule row_loop_shapes_ok) (rule create_geometry_colors_ok)

lemma draw_row_colors_target_zero:
  "draw_row_colors origin master (br # brs) Target sides angle 0 page = Inl ZeroDivisionError"
  by (simp add: draw_row_colors_def create_geometry_colors_def create_target_colors_def)

lemma main_colors_zero_division:
  assumes "vec [1764 / 100, 43, -76] = Inr r1" "vec [1, 1, 1, 1] = Inr r2"
  shows "main_colors True vec = Inl ZeroDivisionError"
proof -
  let ?all = "SpotColor (make_deviceN_color ''All'' r2 CMYKSpace)"
  let ?sb = "[PlainColor ''PANTONE Blue 072 C (Lab)'', PlainColor ''PANTONE Blue 072 C (FOGRA28)'',
              SpotColor (make_deviceN_color ''PANTONE BLUE 072 C'' r1 LabSpace), ?all]"
  let ?boxes = "map (\<lambda>(k, br). Filled (RectGeom \<lparr>box_x = 85 + 90 * real k, box_y = 85, box_dX = 90, box_dY = 90\<rparr>) br)
                       (zip [0..<8] (process_brushes @ ?sb))"
  let ?border = "StrokedWidth (RectGeom \<lparr>box_x = 85 - 20 / 2, box_y = 85 - 20 / 2,
                                              box_dX = 90 * 7 + 20, box_dY = 90 + 20\<rparr>) ?all 20"
  obtain p1 where p1: "draw_row_colors (85, 245) (90, 90) process_brushes Ellipse 0 0 0 (?boxes @ [?border]) = Inr p1"
    using draw_row_colors_ok [of Ellipse] by blast
  obtain p2 where p2: "draw_row_colors (85, 445) (90, 90) ?sb Hexagon 0 0 0 p1 = Inr p2"
    using draw_row_colors_ok [of Hexagon] by blast
  obtain p3 where p3: "draw_row_colors (85, 645) (90, 90) process_brushes Polygon 8 (45 / 2) 0 p2 = Inr p3"
    using draw_row_colors_ok [of Polygon] by blast
  have "draw_row_colors (85, 845) (90, 90) ?sb Target 0 0 0 p3 = Inl ZeroDivisionError"
    by (rule draw_row_colors_target_zero)
  then show ?thesis using assms p1 p2 p3 by (simp add: main_colors_def Let_def)
qed

lemma main_shapes_ok: "\<exists>p. main_shapes = Inr p \<and> length p = 40"
proof -
  let ?lab = "\<lambda>n r. SpotColor (make_separation_color n r)"
  let ?spot = "[?lab ''LABCyan'' [62, -44, -50], ?lab ''LABMagenta'' [52, 81, -7],
                ?lab ''LABYellow'' [95, -6, 96], ?lab ''LABBlack'' [12, 2, 0]]"
  let ?second = "[?lab ''Rot'' [0, 1, 1, 0], ?lab ''Grun'' [1, 0, 1, 0], ?lab ''Blau'' [1, 1, 0, 0], ?lab ''All'' [1, 1, 1, 1]]"
  have four: "length process_brushes = 4" by (simp add: process_brushes_def)
  obtain n1 where p1: "draw_row_shapes (140, 75) (80, 80) process_brushes Box 0 0 [] = Inr ([] @ n1)" "length n1 = 8"
    using draw_row_shapes_ok [of "(140, 75)" "(80, 80)" process_brushes Box 0 0 "[]"] four by auto
  obtain n2 where p2: "draw_row_shapes (140, 275) (80, 80) ?spot Ellipse 0 0 n1 = Inr (n1 @ n2)" "length n2 = 8"
    using draw_row_shapes_ok [of "(140, 275)" "(80, 80)" ?spot Ellipse 0 0 n1] by auto
  obtain n3 where p3: "draw_row_shapes (140, 475) (80, 80) ?second Hexagon 0 0 (n1 @ n2) = Inr ((n1 @ n2) @ n3)" "length n3 = 8"
    using draw_row_shapes_ok [of "(140, 475)" "(80, 80)" ?second Hexagon 0 0 "n1 @ n2"] by auto
  obtain n4 where p4: "draw_row_shapes (140, 675) (80, 80) process_brushes Polygon 8 (45 / 2) (n1 @ n2 @ n3) =
      Inr ((n1 @ n2 @ n3) @ n4)" "length n4 = 8"
    using draw_row_shapes_ok [of "(140, 675)" "(80, 80)" process_brushes Polygon 8 "45 / 2" "n1 @ n2 @ n3"] four by auto
  obtain n5 where p5: "draw_row_shapes (140, 875) (80, 80) process_brushes Target 0 0 (n1 @ n2 @ n3 @ n4) =
      Inr ((n1 @ n2 @ n3 @ n4) @ n5)" "length n5 = 8"
    using draw_row_shapes_ok [of "(140, 875)" "(80, 80)" process_brushes Target 0 0 "n1 @ n2 @ n3 @ n4"] four by auto
  have "main_shapes = Inr (n1 @ n2 @ n3 @ n4 @ n5)"
    using p1(1) p2(1) p3(1) p4(1) p5(1) by (simp add: main_shapes_def Let_def)
  then show ?thesis using p1(2) p2(2) p3(2) p4(2) p5(2) by (intro exI [of _ "n1 @ n2 @ n3 @ n4 @ n5"]) simp
qed

subsection \<open>The star\<close>

lemma target_loop_from:
  "target_loop k cx cy rx ry incr (a + real j * incr) =
     concat (map (\<lambda>i. [LineTo (cx + rx * cos (a + real i * incr)) (cy + ry * sin (a + real i * incr)), MoveTo cx cy])
       [j..<j + k])"
proof (induction k arbitrary: j)
  case 0
  then show ?case by simp
next
  case (Suc k)
  let ?F = "\<lambda>i. [LineTo (cx + rx * cos (a + real i * incr)) (cy + ry * sin (a + real i * incr)), MoveTo cx cy]"
  have ang: "a + real j * incr + incr = a + real (Suc j) * incr" by (simp add: algebra_simps)
  have up: "[j..<j + Suc k] = j # [Suc j..<Suc j + k]" by (simp add: upt_conv_Cons del: upt_Suc)
  have "target_loop (Suc k) cx cy rx ry incr (a + real j * incr) =
      ?F j @ target_loop k cx cy rx ry incr (a + real (Suc j) * incr)"
    by (simp only: target_loop.simps ang) simp
  also have "\<dots> = ?F j @ concat (map ?F [Suc j..<Suc j + k])"
    by (simp only: Suc.IH)
  also have "\<dots> = concat (map ?F [j..<j + Suc k])"
    by (simp only: up) simp
  finally show ?case .
qed

lemma target_loop_closed:
  "target_loop k cx cy rx ry incr a =
     concat (map (\<lambda>i. [LineTo (cx + rx * cos (a + real i * incr)) (cy + ry * sin (a + real i * incr)), MoveTo cx cy])
       [0..<k])"
  using target_loop_from [of k cx cy rx ry incr a 0] by simp

subsection \<open>Properties of the shape samples\<close>

text \<open>C36: \<open>CreateColorsAndShapes\<close> never writes \<open>test.pdf\<close>, and which exception
  ends it is determined: the Windows ICC profile failing to open raises first; otherwise
  an exception of \<open>CEDLVectDouble\<close> on a set literal propagates; otherwise every row
  before the last is drawn and the Target row, drawn with the default \<open>lines = 0\<close>,
  raises ZeroDivisionError in \<open>create_target\<close> (\<open>2.0 * math.pi / n_lines\<close>).\<close>

theorem main_colors_never_writes:
  "main_colors icc_ok vec =
     (if \<not> icc_ok then Inl (MakoException ''IInputStream.createFromFile'')
      else case vec [1764 / 100, 43, -76] of
             Inl e \<Rightarrow> Inl e
           | Inr r1 \<Rightarrow> (case vec [1, 1, 1, 1] of
                          Inl e \<Rightarrow> Inl e
                        | Inr r2 \<Rightarrow> Inl ZeroDivisionError))"
proof (cases "icc_ok \<and> (\<exists>r1 r2. vec [1764 / 100, 43, -76] = Inr r1 \<and> vec [1, 1, 1, 1] = Inr r2)")
  case True
  then obtain r1 r2 where "icc_ok" "vec [1764 / 100, 43, -76] = Inr r1" "vec [1, 1, 1, 1] = Inr r2"
    by blast
  with main_colors_zero_division [of vec r1 r2] show ?thesis by simp
next
  case False
  then show ?thesis
    by (auto simp: main_colors_def split: sum.split)
qed

text \<open>C37: for a positive spoke count \<open>n\<close>, the star of \<open>create_target\<close> starts at the
  box centre and has exactly \<open>n\<close> spokes, spoke \<open>i\<close> ending on the box's inscribed
  ellipse at angle \<open>rotation + i * 360 / n\<close> degrees: the angle accumulated by repeated
  \<open>angle += incr\<close> is the closed form.\<close>

theorem create_target_spokes:
  assumes "0 < n"
  shows "create_target b n rot =
    Inr (PathGeom (MoveTo (box_x b + box_dX b / 2) (box_y b + box_dY b / 2) #
      concat (map (\<lambda>i. [LineTo (box_x b + box_dX b / 2 + box_dX b / 2 * cos (radians rot + real i * (2 * pi / real_of_int n)))
                               (box_y b + box_dY b / 2 + box_dY b / 2 * sin (radians rot + real i * (2 * pi / real_of_int n))),
                        MoveTo (box_x b + box_dX b / 2) (box_y b + box_dY b / 2)]) [0..<nat n]) @ [ClosePath]))"
  using assms by (simp add: create_target_def Let_def target_loop_closed)

theorem create_target_spokes_witness:
  "create_target \<lparr>box_x = 0, box_y = 0, box_dX = 2, box_dY = 2\<rparr> 8 0 =
    Inr (PathGeom (MoveTo 1 1 #
      concat (map (\<lambda>i. [LineTo (1 + cos (real i * (pi / 4))) (1 + sin (real i * (pi / 4))), MoveTo 1 1]) [0..<8]) @ [ClosePath]))"
  using create_target_spokes [of 8 "\<lparr>box_x = 0, box_y = 0, box_dX = 2, box_dY = 2\<rparr>" 0] by (simp add: radians_def)

text \<open>\<open>CreateShapes\<close> writes its page: five rows of four brushes, each a stroked and
  a filled shape, forty path nodes; its star has eight spokes, so no division by zero.\<close>

theorem main_shapes_writes: "\<exists>p. main_shapes = Inr p \<and> length p = 40"
  by (rule main_shapes_ok)

text \<open>The colour \<open>All\<close> of \<open>CreateColorsAndShapes\<close> is given the Python set
  \<open>{1.0, 1.0, 1.0, 1.0}\<close>, which has one element: whatever vector is built from it,
  its representation has one value for a CMYK alternate of four components, against the
  ink invariant of spec section 3.\<close>

theorem all_color_breaks_ink_invariant:
  assumes "set ys = set [1, 1, 1, 1::real]" "distinct ys"
  shows "\<not> ink_wf (make_deviceN_color ''All'' ys CMYKSpace)"
proof -
  have "length ys = card (set ys)" using assms(2) by (simp add: distinct_card)
  then have "length ys = 1" using assms(1) by simp
  then show ?thesis by (simp add: ink_wf_def make_deviceN_color_def)
qed

theorem all_color_breaks_ink_invariant_witness:
  "\<not> ink_wf (make_deviceN_color ''All'' [1] CMYKSpace)"
  by (rule all_color_breaks_ink_invariant) simp_all

end
