(* ===== verification/TextTransform.thy ===== *)
theory TextTransform
  imports Prelude
begin

text \<open>
  \<open>CustomTextTransform/custom_text_transform.py\<close>: a custom transform that repaints
  black text. \<open>transform_glyphs\<close> is \<open>TextTransformImplementation.transformGlyphs\<close>
  (lines 27--50): a glyph run filled with a solid DeviceCMYK colour whose black component
  is within \<open>0.0001\<close> of 1 gets the fill \<open>CMYK(0, 0, 0, ink)\<close>; every other run goes to
  the generic implementation, which leaves its fill alone. \<open>transform_node\<close> is the
  custom transform's walk over the page (the SDK visits every glyph run, descending into
  groups), and \<open>tt_main\<close> is \<open>main\<close> (lines 53--100).

  The \<open>changed\<close> argument is a Python \<open>bool\<close>: \<open>changed = True\<close> at line 41 rebinds the
  local name and is not seen by the caller, so the flag \<open>main\<close> passes (line 84) stays
  \<open>False\<close>. \<open>float(sys.argv[3])\<close> is a parameter \<open>parse\<close> of the model (None when it
  raises); its ValueError is raised outside the \<open>try\<close> and ends the script with status 1.
\<close>

datatype tt_space = DeviceCMYK | OtherSpace string

datatype tt_brush = SolidColorBrush tt_space "real list" | NonSolidBrush string

datatype dom_node = Glyphs tt_brush | PathNode tt_brush | Group "dom_node list"

text \<open>Lines 27--50. \<open>color.getComponentValue(3)\<close> on a colour with fewer components
  raises; the exception is caught and the run goes to the generic implementation.\<close>

definition transform_glyphs :: "real \<Rightarrow> tt_brush \<Rightarrow> tt_brush" where
  "transform_glyphs text_ink_value fill =
     (case fill of
        NonSolidBrush s \<Rightarrow> fill
      | SolidColorBrush space comps \<Rightarrow>
          (if space \<noteq> DeviceCMYK then fill
           else (case py_get comps 3 of
                   Inl e \<Rightarrow> fill
                 | Inr k \<Rightarrow> if \<bar>k - 1\<bar> < 1 / 10000
                            then SolidColorBrush DeviceCMYK [0, 0, 0, text_ink_value] else fill)))"

fun transform_node :: "real \<Rightarrow> dom_node \<Rightarrow> dom_node" where
  "transform_node v (Glyphs fill) = Glyphs (transform_glyphs v fill)"
| "transform_node v (PathNode fill) = PathNode fill"
| "transform_node v (Group ns) = Group (map (transform_node v) ns)"

text \<open>Lines 82--86: every page is transformed with \<open>changed = False\<close>; the flag the
  caller holds afterwards is the one it passed.\<close>

definition transform_page :: "real \<Rightarrow> dom_node list \<Rightarrow> dom_node list \<times> bool" where
  "transform_page v nodes = (let changed = False in (map (transform_node v) nodes, changed))"

text \<open>Lines 53--100: the exit status and the pages written to the output file.\<close>

definition tt_main :: "(string \<Rightarrow> real option) \<Rightarrow> string list \<Rightarrow> dom_node list list \<Rightarrow>
    int \<times> dom_node list list option" where
  "tt_main parse argv pages =
     (if length argv \<noteq> 4 then (1, None)
      else case parse (argv ! 3) of
        None \<Rightarrow> (1, None)
      | Some ink_value \<Rightarrow> (0, Some (map (\<lambda>p. fst (transform_page ink_value p)) pages)))"

text \<open>What the transform is meant to do, node by node: black text is a glyph run filled
  with a solid DeviceCMYK colour whose black component is within \<open>0.0001\<close> of 1. A page
  is read as its node skeleton (the tree with the fills erased), the fills of its glyph
  runs and the fills of its paths, each in document order.\<close>

definition black_fill :: "tt_brush \<Rightarrow> bool" where
  "black_fill b =
     (case b of
        SolidColorBrush sp cs \<Rightarrow> sp = DeviceCMYK \<and> 3 < length cs \<and> \<bar>cs ! 3 - 1\<bar> < 1 / 10000
      | NonSolidBrush s \<Rightarrow> False)"

fun skeleton :: "dom_node \<Rightarrow> dom_node" where
  "skeleton (Glyphs fill) = Glyphs (NonSolidBrush [])"
| "skeleton (PathNode fill) = PathNode (NonSolidBrush [])"
| "skeleton (Group ns) = Group (map skeleton ns)"

fun glyph_fills :: "dom_node \<Rightarrow> tt_brush list" where
  "glyph_fills (Glyphs fill) = [fill]"
| "glyph_fills (PathNode fill) = []"
| "glyph_fills (Group ns) = concat (map glyph_fills ns)"

fun path_fills :: "dom_node \<Rightarrow> tt_brush list" where
  "path_fills (Glyphs fill) = []"
| "path_fills (PathNode fill) = [fill]"
| "path_fills (Group ns) = concat (map path_fills ns)"

subsection \<open>Lemmas\<close>

lemma transform_glyphs_idem: "transform_glyphs v (transform_glyphs v b) = transform_glyphs v b"
  by (auto simp: transform_glyphs_def py_get_def split: tt_brush.splits sum.splits if_splits)

lemma transform_node_idem: "transform_node v (transform_node v n) = transform_node v n"
  by (induction n) (simp_all add: transform_glyphs_idem)

lemma transform_glyphs_black:
  "transform_glyphs v b = (if black_fill b then SolidColorBrush DeviceCMYK [0, 0, 0, v] else b)"
  by (auto simp: transform_glyphs_def black_fill_def py_get_def split: tt_brush.splits)

lemma transform_node_reads:
  "skeleton (transform_node v n) = skeleton n \<and> path_fills (transform_node v n) = path_fills n \<and>
   glyph_fills (transform_node v n) =
     map (\<lambda>b. if black_fill b then SolidColorBrush DeviceCMYK [0, 0, 0, v] else b) (glyph_fills n)"
  by (induction n) (simp_all add: transform_glyphs_black map_concat comp_def cong: map_cong)

subsection \<open>Properties of the text transform\<close>

text \<open>C40: with an input, an output and a parsable ink value \<open>v\<close>, \<open>main\<close> returns 0
  and writes every page with its node structure and its path fills unchanged, and every
  glyph run repainted with \<open>CMYK(0, 0, 0, v)\<close> exactly when its fill is black text, the
  other runs keeping their fill.\<close>

theorem tt_main_repaints_black_text:
  assumes "length argv = 4" "parse (argv ! 3) = Some v"
  shows "\<exists>out. tt_main parse argv pages = (0, Some out) \<and> length out = length pages \<and>
           (\<forall>k < length pages.
              map skeleton (out ! k) = map skeleton (pages ! k) \<and>
              concat (map path_fills (out ! k)) = concat (map path_fills (pages ! k)) \<and>
              concat (map glyph_fills (out ! k)) =
                map (\<lambda>b. if black_fill b then SolidColorBrush DeviceCMYK [0, 0, 0, v] else b)
                  (concat (map glyph_fills (pages ! k))))"
  using assms transform_node_reads [of v]
  by (simp add: tt_main_def transform_page_def map_concat comp_def cong: map_cong)

theorem tt_main_repaints_black_text_witness:
  "tt_main (\<lambda>s. if s = ''0.5'' then Some (1/2) else None) [''tt'', ''in.pdf'', ''out.pdf'', ''0.5'']
     [[Group [Glyphs (SolidColorBrush DeviceCMYK [0, 0, 0, 1]), PathNode (SolidColorBrush DeviceCMYK [0, 0, 0, 1])],
       Glyphs (SolidColorBrush (OtherSpace ''DeviceRGB'') [0, 0, 0])]] =
   (0, Some [[Group [Glyphs (SolidColorBrush DeviceCMYK [0, 0, 0, 1/2]), PathNode (SolidColorBrush DeviceCMYK [0, 0, 0, 1])],
       Glyphs (SolidColorBrush (OtherSpace ''DeviceRGB'') [0, 0, 0])]])"
proof -
  obtain out where "tt_main (\<lambda>s. if s = ''0.5'' then Some (1/2) else None) [''tt'', ''in.pdf'', ''out.pdf'', ''0.5'']
     [[Group [Glyphs (SolidColorBrush DeviceCMYK [0, 0, 0, 1]), PathNode (SolidColorBrush DeviceCMYK [0, 0, 0, 1])],
       Glyphs (SolidColorBrush (OtherSpace ''DeviceRGB'') [0, 0, 0])]] = (0, Some out)"
    using tt_main_repaints_black_text [of "[''tt'', ''in.pdf'', ''out.pdf'', ''0.5'']"
        "\<lambda>s. if s = ''0.5'' then Some (1/2) else None" "1/2"] by auto
  then show ?thesis
    by (simp add: tt_main_def transform_page_def transform_glyphs_def py_get_def)
qed

text \<open>The transform is idempotent, and the \<open>changed\<close> flag \<open>main\<close> holds after a
  page is the \<open>False\<close> it passed (Python rebinds the parameter at line 41).\<close>

theorem transform_page_idempotent:
  "fst (transform_page v (fst (transform_page v nodes))) = fst (transform_page v nodes) \<and>
   snd (transform_page v nodes) = False"
  by (simp add: transform_page_def transform_node_idem comp_def)

end
