(* ===== verification/WalkTree.thy ===== *)
theory WalkTree
  imports Prelude
begin

text \<open>
  \<open>WalkTreeExample/walk_tree_example.py\<close>: the SDK walks the DOM tree of the first page
  and calls \<open>NodeTreeCallback.visitNode\<close> on every node; the callback
  (\<open>dump_node_info\<close>, lines 22--63) climbs the parent pointers to indent the line by
  two spaces per ancestor and prints the name of the node type.

  The page is a tree \<open>dtree\<close>; the SDK's nodes are held in a store \<open>dstore\<close>, a list
  indexed by node id whose entries are the node type and the id of the parent node
  (\<open>getParentNode\<close>, \<open>None\<close> for the root). \<open>flat\<close> lays a tree out in the store in
  document order, which is the order in which \<open>walkTree\<close> visits it. The parent loop of
  lines 24--27 is a \<open>partial_function (option)\<close>: on a store whose parent pointers form a
  cycle it does not return, and the model's value there is \<open>None\<close>.
\<close>

datatype dom_node_type =
    eDOMFixedPageNode | eDOMGroupNode | eDOMCharPathGroupNode | eDOMTransparencyGroupNode
  | eDOMGlyphsNode | eDOMPathNode | eDOMFormNode | eDOMFormInstanceNode | eDOMContentRootNode
  | eDOMDocumentSequenceNode | eDOMDocumentNode | eDOMFixedDocumentNode | eDOMPageNode
  | eDOMCanvasNode | eDOMGlyphNode | eDOMRefNode | eDOMJobTkContentNode | eDOMJobTkNodeNode
  | eDOMJobTkValueNode | eDOMJobTkGenericNodeNode | eDOMJobTkGenericCharacterDataNode
  | eDOMVisualRootNode | eDOMOutlineNode | eDOMOutlineEntryNode | eDOMAnnotationAppearanceNode
  | eDOMFragmentNode | eDOMTileNode | eDOMNodeTypeCnt | eDOMOtherType nat

datatype dtree = DNode dom_node_type "dtree list"

type_synonym dstore = "(dom_node_type \<times> nat option) list"

text \<open>The document-order layout of a tree in the store: the node \<open>n\<close> is the root, its
  subtrees follow one after the other, each child pointing to \<open>n\<close>.\<close>

fun flat :: "nat option \<Rightarrow> nat \<Rightarrow> dtree \<Rightarrow> dstore"
and flat_list :: "nat \<Rightarrow> nat \<Rightarrow> dtree list \<Rightarrow> dstore" where
  "flat par n (DNode ty ts) = (ty, par) # flat_list n (Suc n) ts"
| "flat_list p n [] = []"
| "flat_list p n (t # ts) = (let l = flat (Some p) n t in l @ flat_list p (n + length l) ts)"

text \<open>\<open>node.getParentNode()\<close>.\<close>

definition get_parent :: "dstore \<Rightarrow> nat \<Rightarrow> nat option" where
  "get_parent st i = (if i < length st then snd (st ! i) else None)"

text \<open>Lines 24--27: \<open>while p.getParentNode() is not None\<close>, one indentation step per
  iteration; \<open>k\<close> counts the \<open>"  "\<close> written so far.\<close>

partial_function (option) parent_walk :: "dstore \<Rightarrow> nat \<Rightarrow> nat \<Rightarrow> nat option" where
  "parent_walk st p k =
     (case get_parent st p of None \<Rightarrow> Some k | Some q \<Rightarrow> parent_walk st q (Suc k))"

text \<open>Lines 32--60, the dictionary from node types to names.\<close>

definition type_map :: "(dom_node_type \<times> string) list" where
  "type_map =
    [(eDOMFixedPageNode, ''eDOMFixedPageNode''), (eDOMGroupNode, ''eDOMGroupNode''),
     (eDOMCharPathGroupNode, ''eDOMCharPathGroupNode''),
     (eDOMTransparencyGroupNode, ''eDOMTransparencyGroupNode''),
     (eDOMGlyphsNode, ''eDOMGlyphsNode''), (eDOMPathNode, ''eDOMPathNode''),
     (eDOMFormNode, ''eDOMFormNode''), (eDOMFormInstanceNode, ''eDOMFormInstanceNode''),
     (eDOMContentRootNode, ''eDOMContentRootNode''),
     (eDOMDocumentSequenceNode, ''eDOMDocumentSequenceNode''),
     (eDOMDocumentNode, ''eDOMDocumentNode''), (eDOMFixedDocumentNode, ''eDOMFixedDocumentNode''),
     (eDOMPageNode, ''eDOMPageNode''), (eDOMCanvasNode, ''eDOMCanvasNode''),
     (eDOMGlyphNode, ''eDOMGlyphNode''), (eDOMRefNode, ''eDOMRefNode''),
     (eDOMJobTkContentNode, ''eDOMJobTkContentNode''), (eDOMJobTkNodeNode, ''eDOMJobTkNodeNode''),
     (eDOMJobTkValueNode, ''eDOMJobTkValueNode''),
     (eDOMJobTkGenericNodeNode, ''eDOMJobTkGenericNodeNode''),
     (eDOMJobTkGenericCharacterDataNode, ''eDOMJobTkGenericCharacterDataNode''),
     (eDOMVisualRootNode, ''eDOMVisualRootNode''), (eDOMOutlineNode, ''eDOMOutlineNode''),
     (eDOMOutlineEntryNode, ''eDOMOutlineEntryNode''),
     (eDOMAnnotationAppearanceNode, ''eDOMAnnotationAppearanceNode''),
     (eDOMFragmentNode, ''eDOMFragmentNode''), (eDOMTileNode, ''eDOMTileNode''),
     (eDOMNodeTypeCnt, ''eDOMNodeTypeCnt'')]"

text \<open>Line 63: \<open>type_map.get(node_type, f"Unknown type ({node_type})")\<close>; an enum value
  outside the dictionary prints as its number.\<close>

definition type_name :: "dom_node_type \<Rightarrow> string" where
  "type_name ty =
     (case map_of type_map ty of
        Some s \<Rightarrow> s
      | None \<Rightarrow> ''Unknown type ('' @ (case ty of eDOMOtherType c \<Rightarrow> py_str_nat c | _ \<Rightarrow> '''') @ '')'')"

text \<open>Lines 22--63: the line printed for node \<open>i\<close>, or \<open>None\<close> when the parent loop does
  not end.\<close>

definition dump_node_info :: "dstore \<Rightarrow> nat \<Rightarrow> string option" where
  "dump_node_info st i =
     (case parent_walk st i 0 of
        None \<Rightarrow> None
      | Some d \<Rightarrow> Some (concat (replicate d ''  '') @ type_name (fst (st ! i))))"

text \<open>\<open>fixed_page.walkTree(...)\<close> with \<open>visitNode\<close> returning \<open>True\<close>: every node is
  visited, in document order; the output is the printed lines, \<open>None\<close> when a call does
  not return.\<close>

fun walk_output :: "dstore \<Rightarrow> nat list \<Rightarrow> string list option" where
  "walk_output st [] = Some []"
| "walk_output st (i # is) =
     (case dump_node_info st i of
        None \<Rightarrow> None
      | Some l \<Rightarrow> (case walk_output st is of None \<Rightarrow> None | Some ls \<Rightarrow> Some (l # ls)))"

fun walk_ids :: "nat \<Rightarrow> dtree \<Rightarrow> nat list"
and walk_ids_list :: "nat \<Rightarrow> dtree list \<Rightarrow> nat list" where
  "walk_ids n (DNode ty ts) = n # walk_ids_list (Suc n) ts"
| "walk_ids_list n [] = []"
| "walk_ids_list n (t # ts) = (let l = walk_ids n t in l @ walk_ids_list (n + length l) ts)"

datatype wt_line = Line string | ExceptionThrown py_error

text \<open>\<open>main\<close> (lines 66--87) on the pages of the opened document: \<open>getPage(0)\<close> raises on
  a document without pages, and the exception is printed.\<close>

definition walk_tree_main :: "dtree list \<Rightarrow> wt_line list option" where
  "walk_tree_main pages =
     (case pages of
        [] \<Rightarrow> Some [ExceptionThrown (MakoException ''getPage'')]
      | page # _ \<Rightarrow>
          (case walk_output (flat None 0 page) (walk_ids 0 page) of
             None \<Rightarrow> None
           | Some ls \<Rightarrow> Some (map Line ls)))"

subsection \<open>Reference: the outline of a tree\<close>

text \<open>The depth and type of every node, in document order.\<close>

fun tree_size :: "dtree \<Rightarrow> nat" where
  "tree_size (DNode ty ts) = Suc (sum_list (map tree_size ts))"

fun outline :: "nat \<Rightarrow> dtree \<Rightarrow> (nat \<times> dom_node_type) list" where
  "outline d (DNode ty ts) = (d, ty) # concat (map (outline (Suc d)) ts)"

text \<open>The number of ancestors of a node along parent pointers that go to smaller ids.\<close>

function anc_depth :: "dstore \<Rightarrow> nat \<Rightarrow> nat" where
  "anc_depth st i =
     (case get_parent st i of None \<Rightarrow> 0 | Some q \<Rightarrow> if q < i then Suc (anc_depth st q) else 0)"
  by pat_completeness auto
termination by (relation "measure (\<lambda>(st, i). i)") auto

declare anc_depth.simps [simp del]

definition parent_ordered :: "dstore \<Rightarrow> bool" where
  "parent_ordered st = (\<forall>j < length st. case snd (st ! j) of None \<Rightarrow> True | Some q \<Rightarrow> q < j)"

definition at_seg :: "dstore \<Rightarrow> nat \<Rightarrow> dstore \<Rightarrow> bool" where
  "at_seg st n l = (n + length l \<le> length st \<and> (\<forall>j < length l. st ! (n + j) = l ! j))"

subsection \<open>Lemmas\<close>

lemma at_seg_append: "at_seg st n (l1 @ l2) \<longleftrightarrow> at_seg st n l1 \<and> at_seg st (n + length l1) l2"
  unfolding at_seg_def
  by (auto simp: nth_append add.assoc) (metis nat_add_left_cancel_less add_diff_inverse_nat)

lemma at_seg_Cons: "at_seg st n (x # l) \<longleftrightarrow> n < length st \<and> st ! n = x \<and> at_seg st (Suc n) l"
  using at_seg_append [of st n "[x]" l] by (auto simp: at_seg_def)

lemma at_seg_self: "at_seg st 0 st"
  by (simp add: at_seg_def)

lemma length_outline [simp]: "length (outline d t) = tree_size t"
  by (induction d t rule: outline.induct) (simp add: length_concat comp_def cong: map_cong)

lemma length_flat [simp]:
  "length (flat par n t) = tree_size t"
  "length (flat_list p n ts) = sum_list (map tree_size ts)"
  by (induction par n t and p n ts rule: flat_flat_list.induct) (simp_all add: Let_def)

lemma upt_append_add: "[n..<n + a] @ [n + a..<n + a + b] = [n..<n + (a + b)]"
  by (metis add.assoc le_add1 upt_add_eq_append)

lemma walk_ids_upt:
  "walk_ids n t = [n..<n + tree_size t]"
  "walk_ids_list n ts = [n..<n + sum_list (map tree_size ts)]"
  by (induction n t and n ts rule: walk_ids_walk_ids_list.induct)
     (simp_all add: Let_def upt_conv_Cons upt_append_add del: upt.simps)

lemma flat_parent_lt:
  "(case par of Some p \<Rightarrow> p < n | None \<Rightarrow> True) \<Longrightarrow> j < length (flat par n t) \<Longrightarrow>
     (case snd (flat par n t ! j) of Some q \<Rightarrow> q < n + j | None \<Rightarrow> True)"
  "p < n \<Longrightarrow> j < length (flat_list p n ts) \<Longrightarrow>
     (case snd (flat_list p n ts ! j) of Some q \<Rightarrow> q < n + j | None \<Rightarrow> True)"
proof (induction par n t and p n ts arbitrary: j and j rule: flat_flat_list.induct)
  case (1 par n ty ts)
  show ?case
  proof (cases j)
    case (Suc j')
    with "1.IH" [of j'] "1.prems" show ?thesis by (auto split: option.splits)
  qed (use "1.prems" in \<open>auto split: option.splits\<close>)
next
  case (3 p n t ts)
  let ?l = "flat (Some p) n t"
  show ?case
  proof (cases "j < length ?l")
    case True
    with "3.IH"(1) [of j] "3.prems" show ?thesis by (simp add: Let_def nth_append)
  next
    case False
    with "3.IH"(2) [OF refl, of "j - length ?l"] "3.prems" show ?thesis
      by (auto simp: Let_def nth_append split: option.splits)
  qed
qed simp

lemma flat_parent_some:
  "j < length (flat par n t) \<Longrightarrow> 0 < j \<Longrightarrow> snd (flat par n t ! j) \<noteq> None"
  "j < length (flat_list p n ts) \<Longrightarrow> snd (flat_list p n ts ! j) \<noteq> None"
proof (induction par n t and p n ts arbitrary: j and j rule: flat_flat_list.induct)
  case (1 par n ty ts)
  then show ?case using "1.IH" [of "j - 1"] by (cases j) simp_all
next
  case (3 p n t ts)
  show ?case
  proof (cases "j < length (flat (Some p) n t)")
    case True
    with "3.IH"(1) [of j] show ?thesis by (cases j; cases t) (simp_all add: Let_def nth_append)
  next
    case False
    with "3.IH"(2) [OF refl, of "j - length (flat (Some p) n t)"] "3.prems" show ?thesis
      by (simp add: Let_def nth_append)
  qed
qed simp

lemma parent_ordered_flat: "parent_ordered (flat None 0 t)"
  unfolding parent_ordered_def
proof (intro allI impI)
  fix j
  assume "j < length (flat None 0 t)"
  then show "case snd (flat None 0 t ! j) of None \<Rightarrow> True | Some q \<Rightarrow> q < j"
    using flat_parent_lt(1) [where par = None and n = 0 and j = j and t = t] by (auto split: option.splits)
qed

lemma get_parent_at_seg: "at_seg st n (x # l) \<Longrightarrow> get_parent st n = snd x"
  by (simp add: at_seg_Cons get_parent_def)

lemma anc_depth_flat:
  "at_seg st n (flat par n t) \<Longrightarrow>
   (case par of None \<Rightarrow> pd = 0 | Some p \<Rightarrow> p < n \<and> pd = Suc (anc_depth st p)) \<Longrightarrow>
   j < length (flat par n t) \<Longrightarrow> anc_depth st (n + j) = fst (outline pd t ! j)"
  "at_seg st n (flat_list p n ts) \<Longrightarrow> p < n \<Longrightarrow> j < length (flat_list p n ts) \<Longrightarrow>
   anc_depth st (n + j) = fst (concat (map (outline (Suc (anc_depth st p))) ts) ! j)"
proof (induction par n t and p n ts arbitrary: pd j and j rule: flat_flat_list.induct)
  case (1 par n ty ts)
  show ?case
  proof (cases j)
    case 0
    with 1(2,3) show ?thesis
      by (auto simp: anc_depth.simps [of st n] get_parent_at_seg split: option.splits)
  next
    case (Suc j')
    have "anc_depth st n = pd"
      using 1(2,3) by (auto simp: anc_depth.simps [of st n] get_parent_at_seg split: option.splits)
    with 1 Suc show ?thesis by (simp add: at_seg_Cons)
  qed
next
  case (3 p n t ts)
  let ?l = "flat (Some p) n t"
  have seg: "at_seg st n ?l" "at_seg st (n + length ?l) (flat_list p (n + length ?l) ts)"
    using 3(3) by (simp_all add: Let_def at_seg_append)
  show ?case
  proof (cases "j < length ?l")
    case True
    then show ?thesis using 3(1) [OF seg(1), of "Suc (anc_depth st p)"] 3(4)
      by (simp add: Let_def nth_append)
  next
    case False
    then show ?thesis using 3(2) [OF refl seg(2), of "j - length ?l"] 3(4,5)
      by (simp add: Let_def nth_append)
  qed
qed simp

lemma types_flat:
  "map fst (flat par n t) = map snd (outline d t)"
  "map fst (flat_list p n ts) = map snd (concat (map (outline d) ts))"
  by (induction par n t and p n ts arbitrary: d and d rule: flat_flat_list.induct)
     (simp_all add: Let_def)

lemma get_parent_lt: "parent_ordered st \<Longrightarrow> get_parent st i = Some q \<Longrightarrow> q < i"
  unfolding parent_ordered_def get_parent_def by (force split: if_splits)

lemma parent_walk_anc_depth:
  "parent_ordered st \<Longrightarrow> parent_walk st i k = Some (k + anc_depth st i)"
proof (induction st i arbitrary: k rule: anc_depth.induct)
  case (1 st i)
  show ?case
  proof (cases "get_parent st i")
    case None
    then show ?thesis by (simp add: parent_walk.simps [of st i] anc_depth.simps [of st i])
  next
    case (Some q)
    have "q < i" using get_parent_lt [OF "1.prems" Some] .
    with "1.IH" [OF Some this "1.prems", of "Suc k"] Some show ?thesis
      by (simp add: parent_walk.simps [of st i] anc_depth.simps [of st i])
  qed
qed

lemma walk_output_all:
  "(\<And>i. i \<in> set is \<Longrightarrow> dump_node_info st i = Some (f i)) \<Longrightarrow> walk_output st is = Some (map f is)"
  by (induction "is") simp_all

lemma dump_node_info_flat:
  assumes "i < tree_size t"
  shows "dump_node_info (flat None 0 t) i =
           Some ((\<lambda>(d, ty). concat (replicate d ''  '') @ type_name ty) (outline 0 t ! i))"
proof -
  let ?st = "flat None 0 t"
  have "anc_depth ?st i = fst (outline 0 t ! i)"
    using anc_depth_flat(1) [of ?st 0 None t 0 i] at_seg_self [of ?st] assms by simp
  moreover have "fst (?st ! i) = snd (outline 0 t ! i)"
    using arg_cong [OF types_flat(1) [of None 0 t 0], of "\<lambda>xs. xs ! i"] assms by simp
  ultimately show ?thesis
    using parent_walk_anc_depth [OF parent_ordered_flat, of t i 0]
    by (simp add: dump_node_info_def split: prod.splits)
qed

lemma walk_tree_main_outline:
  "walk_tree_main (page # pages) =
     Some (map (\<lambda>(d, ty). Line (concat (replicate d ''  '') @ type_name ty)) (outline 0 page))"
proof -
  have "walk_output (flat None 0 page) (walk_ids 0 page) =
          Some (map (\<lambda>i. (\<lambda>(d, ty). concat (replicate d ''  '') @ type_name ty) (outline 0 page ! i))
                  [0..<tree_size page])"
    unfolding walk_ids_upt(1) add_0 by (rule walk_output_all) (simp add: dump_node_info_flat)
  then show ?thesis
    using map_upt_nth [of "\<lambda>(d, ty). concat (replicate d ''  '') @ type_name ty" "outline 0 page"]
    by (simp add: walk_tree_main_def comp_def case_prod_beta)
qed

lemma parent_walk_closed:
  assumes "\<forall>j \<in> S. \<exists>q \<in> S. get_parent st j = Some q"
  shows "i \<in> S \<Longrightarrow> parent_walk st i k = None"
proof -
  have "\<forall>i \<in> S. \<forall>k. parent_walk st i k = None"
  proof (induction rule: parent_walk.fixp_induct)
    case 1
    then show ?case by (auto simp: ccpo.admissible_def fun_lub_def flat_lub_def)
  next
    case (3 f)
    then show ?case using assms by fastforce
  qed simp
  then show "i \<in> S \<Longrightarrow> parent_walk st i k = None" by simp
qed

subsection \<open>Properties of the tree walk\<close>

text \<open>The well-formedness of the node store: laid out from any page tree, the store
  has one entry per node, the root (id 0) alone has no parent, and every other node's
  parent has a smaller id, so the parent chains of the store end at the root.\<close>

theorem flat_store_well_formed:
  "length (flat None 0 t) = tree_size t \<and> snd (flat None 0 t ! 0) = None \<and>
   (\<forall>j \<in> {1..<tree_size t}. \<exists>q < j. snd (flat None 0 t ! j) = Some q)"
proof -
  have "\<exists>q < j. snd (flat None 0 t ! j) = Some q" if "j \<in> {1..<tree_size t}" for j
  proof -
    from that have j: "j < length (flat None 0 t)" "0 < j" by auto
    obtain q where q: "snd (flat None 0 t ! j) = Some q"
      using flat_parent_some(1) [OF j] by blast
    with parent_ordered_flat [of t] j show ?thesis by (auto simp: parent_ordered_def)
  qed
  moreover have "snd (flat None 0 t ! 0) = None" by (cases t) simp
  ultimately show ?thesis by simp
qed

theorem flat_store_well_formed_witness:
  "flat None 0 (DNode eDOMFixedPageNode [DNode eDOMGroupNode [DNode eDOMPathNode []], DNode eDOMGlyphsNode []]) =
     [(eDOMFixedPageNode, None), (eDOMGroupNode, Some 0), (eDOMPathNode, Some 1), (eDOMGlyphsNode, Some 0)] \<and>
   snd (flat None 0 (DNode eDOMFixedPageNode [DNode eDOMGroupNode [DNode eDOMPathNode []], DNode eDOMGlyphsNode []]) ! 3) = Some 0"
  using flat_store_well_formed [of "DNode eDOMFixedPageNode [DNode eDOMGroupNode [DNode eDOMPathNode []], DNode eDOMGlyphsNode []]"]
  by simp

text \<open>C15: the walk visits every node of the first page and \<open>main\<close> returns: it prints
  one line per node, in document order, indented by two spaces per ancestor and naming
  the node's type, so the output is the outline of the page.\<close>

theorem walk_tree_main_prints_outline:
  "walk_tree_main (page # pages) =
     Some (map (\<lambda>(d, ty). Line (concat (replicate d ''  '') @ type_name ty)) (outline 0 page))"
  by (rule walk_tree_main_outline)

text \<open>C23: the parent loop of \<open>dump_node_info\<close> terminates on every store whose parent
  pointers go to smaller ids (the stores \<open>flat\<close> builds), and the line it prints is
  indented by two spaces per ancestor.\<close>

theorem dump_node_info_terminates:
  assumes "parent_ordered st"
  shows "dump_node_info st i =
           Some (concat (replicate (anc_depth st i) ''  '') @ type_name (fst (st ! i)))"
  using parent_walk_anc_depth [OF assms, of i 0] by (simp add: dump_node_info_def)

theorem dump_node_info_terminates_witness:
  "parent_ordered [(eDOMFixedPageNode, None), (eDOMGroupNode, Some 0), (eDOMPathNode, Some 1)] \<and>
   dump_node_info [(eDOMFixedPageNode, None), (eDOMGroupNode, Some 0), (eDOMPathNode, Some 1)] 2 =
     Some (''    '' @ ''eDOMPathNode'')"
proof -
  let ?st = "[(eDOMFixedPageNode, None), (eDOMGroupNode, Some 0), (eDOMPathNode, Some (1::nat))]"
  have po: "parent_ordered ?st" by (simp add: parent_ordered_def nth_Cons')
  have "anc_depth ?st 2 = 2"
    by code_simp
  with dump_node_info_terminates [OF po, of 2] po show ?thesis
    by (simp add: type_name_def type_map_def numeral_2_eq_2)
qed

text \<open>The parent loop has no guard against cycles: when the parent chain of a node
  stays in a set of nodes each of which has a parent in the set, \<open>dump_node_info\<close>
  never returns and the script hangs.\<close>

theorem dump_node_info_cycle_hangs:
  assumes "\<forall>j \<in> S. \<exists>q \<in> S. get_parent st j = Some q" and "i \<in> S"
  shows "dump_node_info st i = None"
  using parent_walk_closed [OF assms] by (simp add: dump_node_info_def)

theorem dump_node_info_cycle_hangs_witness:
  "dump_node_info [(eDOMGroupNode, Some 1), (eDOMGroupNode, Some (0::nat))] 0 = None"
proof -
  have cl: "\<forall>j \<in> {0, 1}. \<exists>q \<in> {0, 1}. get_parent [(eDOMGroupNode, Some 1), (eDOMGroupNode, Some 0)] j = Some q"
    by (simp add: get_parent_def)
  show ?thesis using dump_node_info_cycle_hangs [OF cl, of 0] by simp
qed

end
