(* ===== verification/OptionalContent.thy ===== *)
theory OptionalContent
  imports Prelude
begin

text \<open>
  \<open>OptionalContentSearch/main.py\<close>: a custom transform collects the optional-content
  groups referenced by the groups of each page. \<open>oc_transform_group\<close> is
  \<open>OptionalContentSearchImplementation.transformGroup\<close> (lines 30--39): it appends every
  referenced group not already found, then lets the generic implementation carry on into
  the group's children, which calls it again on nested groups. \<open>oc_main\<close> is \<open>main\<close>
  (lines 42--89), which resets the list of found groups before each page (line 69,
  \<open>oc_reset\<close>) and
  prints the name of every group found.

  A page is a list of DOM nodes; a group carries its optional-content details (\<open>None\<close>
  when \<open>getOptionalContentDetails()\<close> returns \<open>None\<close>, else the list of group
  references) and its children. Group references are compared with \<open>equals\<close>, modelled as
  equality. The SDK's \<open>flushCaches\<close> and the cloning of the page leave the found list
  and the document unchanged and are not modelled; \<open>getGroup\<close> is the map
  \<open>groups\<close> from references to names, \<open>None\<close> where the lookup raises.
\<close>

type_synonym ocg_ref = nat

datatype oc_node = OCGroup "ocg_ref list option" "oc_node list" | OCOther

text \<open>Lines 35--37: the loop over the referenced groups, \<open>any(found.equals(r) ...)\<close>
  as \<open>list_ex\<close>.\<close>

fun add_refs :: "ocg_ref list \<Rightarrow> ocg_ref list \<Rightarrow> ocg_ref list" where
  "add_refs [] found = found"
| "add_refs (r # rs) found =
     add_refs rs (if list_ex (\<lambda>f. f = r) found then found else found @ [r])"

text \<open>Lines 30--39 and the generic implementation's descent into the children, in
  document order.\<close>

fun oc_transform_group :: "ocg_ref list \<Rightarrow> oc_node \<Rightarrow> ocg_ref list"
and oc_transform_list :: "ocg_ref list \<Rightarrow> oc_node list \<Rightarrow> ocg_ref list" where
  "oc_transform_group found (OCGroup details kids) =
     oc_transform_list (case details of None \<Rightarrow> found | Some refs \<Rightarrow> add_refs refs found) kids"
| "oc_transform_group found OCOther = found"
| "oc_transform_list found [] = found"
| "oc_transform_list found (n # ns) = oc_transform_list (oc_transform_group found n) ns"

text \<open>Lines 24--25: \<open>reset()\<close> clears \<open>m_foundGroups\<close>.\<close>

definition oc_reset :: "ocg_ref list \<Rightarrow> ocg_ref list" where
  "oc_reset found = []"

datatype oc_line = OCUsage | OCPage nat | OCFound string | OCExceptionThrown py_error

text \<open>Lines 77--80: the report of one page; \<open>getGroup\<close> raising ends \<open>main\<close>.\<close>

fun oc_report :: "(ocg_ref \<Rightarrow> string option) \<Rightarrow> ocg_ref list \<Rightarrow> py_error + oc_line list" where
  "oc_report groups [] = Inr []"
| "oc_report groups (r # rs) =
     (case groups r of
        None \<Rightarrow> Inl (MakoException ''getGroup'')
      | Some name \<Rightarrow> res_bind (oc_report groups rs) (\<lambda>ls. Inr (OCFound name # ls)))"

text \<open>Lines 65--80: the page loop; \<open>found\<close> is the transform's \<open>m_foundGroups\<close>, carried
  from page to page and cleared by \<open>reset()\<close>. The lines printed before an exception are
  kept.\<close>

fun oc_page_loop :: "(ocg_ref \<Rightarrow> string option) \<Rightarrow> ocg_ref list \<Rightarrow> nat \<Rightarrow> oc_node list list \<Rightarrow>
    oc_line list \<times> py_error option" where
  "oc_page_loop groups found k [] = ([], None)"
| "oc_page_loop groups found k (page # pages) =
     (let found0 = oc_reset found;
          found1 = oc_transform_list found0 page
      in case oc_report groups found1 of
           Inl e \<Rightarrow> ([OCPage (Suc k)], Some e)
         | Inr ls \<Rightarrow>
             (let (rest, err) = oc_page_loop groups found1 (Suc k) pages
              in (OCPage (Suc k) # ls @ rest, err)))"

text \<open>Lines 42--89: the exit status and the printed lines.\<close>

definition oc_main :: "string list \<Rightarrow> (ocg_ref \<Rightarrow> string option) \<Rightarrow> oc_node list list \<Rightarrow>
    int \<times> oc_line list" where
  "oc_main argv groups pages =
     (if length argv < 2 then (1, [OCUsage])
      else (case oc_page_loop groups [] 0 pages of
              (ls, None) \<Rightarrow> (0, ls)
            | (ls, Some e) \<Rightarrow> (1, ls @ [OCExceptionThrown e])))"

subsection \<open>Reference: the groups a page references\<close>

fun node_refs :: "oc_node \<Rightarrow> ocg_ref list" where
  "node_refs (OCGroup details kids) =
     (case details of None \<Rightarrow> [] | Some refs \<Rightarrow> refs) @ concat (map node_refs kids)"
| "node_refs OCOther = []"

text \<open>The elements of a list in the order of their first occurrence.\<close>

fun dedup :: "'a list \<Rightarrow> 'a list" where
  "dedup [] = []"
| "dedup (x # xs) = x # dedup (filter (\<lambda>y. y \<noteq> x) xs)"

definition extend :: "'a list \<Rightarrow> 'a list \<Rightarrow> 'a list" where
  "extend found xs = found @ dedup (filter (\<lambda>x. x \<notin> set found) xs)"

subsection \<open>Lemmas\<close>

lemma set_dedup [simp]: "set (dedup xs) = set xs"
  by (induction xs rule: dedup.induct) auto

lemma distinct_dedup [simp]: "distinct (dedup xs)"
  by (induction xs rule: dedup.induct) auto

lemma dedup_filter: "dedup (filter P xs) = filter P (dedup xs)"
proof (induction xs arbitrary: P rule: dedup.induct)
  case (2 x xs)
  show ?case
  proof (cases "P x")
    case True
    have "filter P (filter (\<lambda>y. y \<noteq> x) xs) = filter (\<lambda>y. y \<noteq> x) (filter P xs)"
      by (simp add: filter_filter conj_commute)
    with True "2.IH" [of P] show ?thesis by simp
  next
    case False
    have "filter P (filter (\<lambda>y. y \<noteq> x) xs) = filter P xs"
      using False by (induction xs) auto
    with False "2.IH" [of P] show ?thesis by simp
  qed
qed simp

lemma dedup_append: "dedup (xs @ ys) = dedup xs @ dedup (filter (\<lambda>y. y \<notin> set xs) ys)"
  by (induction xs arbitrary: ys rule: dedup.induct)
     (auto simp: filter_filter dedup_filter conj_commute intro!: filter_cong)

lemma set_extend [simp]: "set (extend found xs) = set found \<union> set xs"
  by (auto simp: extend_def)

lemma extend_Nil [simp]: "extend found [] = found"
  by (simp add: extend_def)

lemma extend_append: "extend (extend found xs) ys = extend found (xs @ ys)"
  by (simp add: extend_def dedup_append filter_filter conj_commute)

lemma add_refs_extend: "add_refs rs found = extend found rs"
  by (induction rs arbitrary: found)
     (auto simp: extend_def list_ex_iff filter_filter dedup_filter conj_commute)

lemma oc_transform_extend:
  "oc_transform_group found n = extend found (node_refs n)"
  "oc_transform_list found ns = extend found (concat (map node_refs ns))"
  by (induction found n and found ns rule: oc_transform_group_oc_transform_list.induct)
     (simp_all add: add_refs_extend extend_append split: option.splits)

lemma oc_page_found: "oc_transform_list [] page = dedup (concat (map node_refs page))"
  by (simp add: oc_transform_extend extend_def)

definition page_report :: "(ocg_ref \<Rightarrow> string option) \<Rightarrow> nat \<times> oc_node list \<Rightarrow> oc_line list" where
  "page_report groups kp =
     OCPage (Suc (fst kp)) # map (\<lambda>r. OCFound (the (groups r))) (dedup (concat (map node_refs (snd kp))))"

lemma oc_report_named:
  "(\<forall>r \<in> set rs. groups r \<noteq> None) \<Longrightarrow> oc_report groups rs = Inr (map (\<lambda>r. OCFound (the (groups r))) rs)"
  by (induction rs) auto

lemma oc_page_loop_named:
  "(\<forall>p \<in> set pages. \<forall>r \<in> set (concat (map node_refs p)). groups r \<noteq> None) \<Longrightarrow>
   oc_page_loop groups found k pages = (concat (map (page_report groups) (enumerate k pages)), None)"
proof (induction pages arbitrary: found k)
  case (Cons page pages)
  have "oc_report groups (oc_transform_list [] page) =
          Inr (map (\<lambda>r. OCFound (the (groups r))) (dedup (concat (map node_refs page))))"
    using Cons.prems by (simp add: oc_page_found oc_report_named del: set_concat)
  with Cons show ?case by (simp add: page_report_def oc_reset_def)
qed simp

subsection \<open>Properties of the optional-content search\<close>

text \<open>C38: with an input path and every referenced group known to the optional-content
  manager, \<open>main\<close> returns 0 and prints, for each page \<open>k\<close>, the line \<open>Page k\<close>
  and the names of the groups that page references, each once, in the order of their first
  reference in the page; the reset before each page keeps earlier pages' groups out.\<close>

theorem oc_main_reports_pages:
  assumes "2 \<le> length argv"
    and "\<forall>p \<in> set pages. \<forall>r \<in> set (concat (map node_refs p)). groups r \<noteq> None"
  shows "oc_main argv groups pages = (0, concat (map (page_report groups) (enumerate 0 pages)))"
  using assms oc_page_loop_named [OF assms(2), of "[]" 0] by (simp add: oc_main_def)

theorem oc_main_reports_pages_witness:
  "oc_main [''search'', ''in.pdf''] (map_of [(0, ''Background''), (1, ''Text''), (2, ''Images'')])
     [[OCGroup (Some [2, 1]) [OCGroup (Some [1, 2, 0]) []], OCOther], [OCGroup (Some [0]) []]] =
   (0, [OCPage 1, OCFound ''Images'', OCFound ''Text'', OCFound ''Background'',
        OCPage 2, OCFound ''Background''])"
proof -
  have "oc_main [''search'', ''in.pdf''] (map_of [(0, ''Background''), (1, ''Text''), (2, ''Images'')])
     [[OCGroup (Some [2, 1]) [OCGroup (Some [1, 2, 0]) []], OCOther], [OCGroup (Some [0]) []]] =
     (0, concat (map (page_report (map_of [(0, ''Background''), (1, ''Text''), (2, ''Images'')]))
            (enumerate 0 [[OCGroup (Some [2, 1]) [OCGroup (Some [1, 2, 0]) []], OCOther],
                          [OCGroup (Some [0]) []]])))"
    by (rule oc_main_reports_pages) simp_all
  then show ?thesis by (simp add: page_report_def)
qed

text \<open>C33: the invariant of \<open>m_foundGroups\<close>: the transform only appends groups not yet
  found, so the list never holds a group twice, and it holds exactly the groups found before
  and the groups referenced by the nodes walked.\<close>

theorem oc_found_distinct:
  assumes "distinct found"
  shows "distinct (oc_transform_list found page) \<and>
         set (oc_transform_list found page) = set found \<union> set (concat (map node_refs page))"
  using assms by (auto simp: oc_transform_extend extend_def)

theorem oc_found_distinct_witness:
  "distinct [3::nat, 1] \<and> oc_transform_list [3, 1] [OCGroup (Some [1, 2, 3, 2]) []] = [3, 1, 2]"
  using oc_found_distinct [of "[3, 1]" "[OCGroup (Some [1, 2, 3, 2]) []]"] by simp

end
