(* ===== verification/Layout.thy ===== *)
theory Layout
  imports Prelude
begin

text \<open>
  \<open>ILayoutExample/main.py\<close>: a page laid out in four frames with a title, an
  introduction, a sidebar with an optional image, body paragraphs and two right-to-left
  paragraphs. \<open>get_open_type_font\<close> (lines 25--36) is the font lookup with its fallback
  to Arial, \<open>get_image\<close> (lines 66--90) loads an image by extension and completes a
  missing width or height from the image's aspect ratio, \<open>add_frame\<close>/\<open>draw_frame\<close>
  (lines 39--52) and \<open>create_paragraph\<close> (lines 55--63) are the layout helpers, and
  \<open>layout_frames\<close>, \<open>build_paragraphs\<close> and \<open>ilayout_main\<close> are \<open>main\<close> (lines
  93--196).

  The SDK's font lookup \<open>mako.findFont(name)\<close> is a parameter \<open>ff\<close> of type
  \<open>font_finder\<close>: \<open>None\<close> where it raises \<open>MakoException\<close>. The file system and the
  image decoders are parameters \<open>exists\<close> and \<open>decode\<close> (the pixel size of the image's
  frame, \<open>None\<close> where decoding raises). A paragraph is a record of the settings the
  script makes and the runs it adds; \<open>ILayoutParagraph.create(j)\<close> gives spacing 0 and
  leading 1.
\<close>

subsection \<open>Units and helpers\<close>

text \<open>Lines 17--22.\<close>

definition PT2XPS :: "real \<Rightarrow> real" where
  "PT2XPS v = v / 72 * 96"

definition MM2XPS :: "real \<Rightarrow> real" where
  "MM2XPS v = v / 25.4 * 96"

datatype font_type = eFontTypeOpenType | eFontTypeOther

record font =
  font_name :: string
  font_kind :: font_type

type_synonym font_finder = "string \<Rightarrow> (font \<times> nat) option"

text \<open>Lines 28--33: the loop over the candidate names. A name that is found ends the
  loop; a name that is not found makes the handler look up Arial, and the loop goes on to
  the next name; the handler's own lookup raising propagates out of the loop.\<close>

fun font_loop :: "font_finder \<Rightarrow> string list \<Rightarrow> (font \<times> nat) option \<Rightarrow> py_error + (font \<times> nat) option" where
  "font_loop ff [] cur = Inr cur"
| "font_loop ff (name # names) cur =
     (case ff name of
        Some fi \<Rightarrow> Inr (Some fi)
      | None \<Rightarrow>
          (case ff ''Arial'' of
             None \<Rightarrow> Inl (MakoException ''findFont'')
           | Some fi \<Rightarrow> font_loop ff names (Some fi)))"

text \<open>Lines 25--36: \<open>font = None\<close> before the loop, so an empty list of names makes
  \<open>font.getFontType()\<close> raise AttributeError.\<close>

definition get_open_type_font :: "font_finder \<Rightarrow> string list \<Rightarrow> py_error + font option \<times> nat" where
  "get_open_type_font ff names =
     res_bind (font_loop ff names None) (\<lambda>cur.
       case cur of
         None \<Rightarrow> Inl (AttributeError ''getFontType'')
       | Some (f, i) \<Rightarrow> if font_kind f = eFontTypeOpenType then Inr (Some f, i) else Inr (None, 0))"

text \<open>The image a run shows is given by its decoder and path; a text run holds the text,
  the font and face index, the size and the colour set on it; a paragraph records what
  \<open>create_paragraph\<close> sets and the runs added to it. The page's children are the frame
  outlines and the laid-out paragraphs.\<close>

datatype image_kind = JPEGImage | PNGImage | TIFFImage

datatype layout_run =
    TextRun string "font option" nat real "(real \<times> real \<times> real) option"
  | ImageRun "image_kind \<times> string" real real

record layout_para =
  lp_just :: string
  lp_space_after :: real
  lp_space_before :: real
  lp_leading :: real
  lp_runs :: "layout_run list"

datatype page_child = StrokedBorder box real "real \<times> real \<times> real" | LaidOut "layout_para list"

text \<open>Lines 39--46: the outline of a frame, four units outside it, stroked in grey.\<close>

definition draw_frame :: "box \<Rightarrow> page_child" where
  "draw_frame r =
     (let margin = 4 in
      StrokedBorder \<lparr>box_x = box_x r - margin, box_y = box_y r - margin,
                     box_dX = box_dX r + margin * 2, box_dY = box_dY r + margin * 2\<rparr>
        1 (0.8, 0.8, 0.8))"

record layout_state =
  ls_frames :: "box list"
  ls_children :: "page_child list"

text \<open>Lines 49--52.\<close>

definition add_frame :: "layout_state \<Rightarrow> box \<Rightarrow> bool \<Rightarrow> layout_state" where
  "add_frame st rect draw_outline =
     (let st1 = st\<lparr>ls_frames := ls_frames st @ [rect]\<rparr> in
      if draw_outline then st1\<lparr>ls_children := ls_children st1 @ [draw_frame rect]\<rparr> else st1)"

text \<open>\<open>ILayoutParagraph.create(justification)\<close>.\<close>

definition new_paragraph :: "string \<Rightarrow> layout_para" where
  "new_paragraph j = \<lparr>lp_just = j, lp_space_after = 0, lp_space_before = 0, lp_leading = 1, lp_runs = []\<rparr>"

text \<open>Lines 55--63: the spacings are set only when positive.\<close>

definition create_paragraph :: "real \<Rightarrow> string \<Rightarrow> real \<Rightarrow> real \<Rightarrow> layout_para" where
  "create_paragraph space_after justification leading space_before =
     (let para = new_paragraph justification;
          para1 = (if space_after > 0 then para\<lparr>lp_space_after := space_after\<rparr> else para);
          para2 = (if space_before > 0 then para1\<lparr>lp_space_before := space_before\<rparr> else para1)
      in para2\<lparr>lp_leading := leading\<rparr>)"

subsection \<open>Images\<close>

text \<open>Lines 69--77: the decoder chosen by the lower-cased extension.\<close>

definition image_kind_of :: "string \<Rightarrow> image_kind option" where
  "image_kind_of ext =
     (if ext = ''.jpg'' then Some JPEGImage
      else if ext = ''.png'' then Some PNGImage
      else if ext = ''.tif'' then Some TIFFImage else None)"

text \<open>Lines 66--90. \<open>img_w / img_h\<close> is Python's true division, which raises
  ZeroDivisionError on a zero height, and \<open>width / aspect\<close> raises on a zero width.\<close>

definition get_image :: "(string \<Rightarrow> bool) \<Rightarrow> (image_kind \<Rightarrow> string \<Rightarrow> (nat \<times> nat) option) \<Rightarrow>
    string \<Rightarrow> real \<Rightarrow> real \<Rightarrow> py_error + (image_kind \<times> string) \<times> real \<times> real" where
  "get_image exists decode image_file width height =
     (if \<not> exists image_file then Inl (PyException (''Image file '' @ image_file @ '' not found.''))
      else
        (let ext = py_lower (py_splitext_ext image_file) in
         case image_kind_of ext of
           None \<Rightarrow> Inl (PyException (''Unsupported image type '' @ ext))
         | Some kind \<Rightarrow>
             (case decode kind image_file of
                None \<Rightarrow> Inl (MakoException ''getImageFrame'')
              | Some (img_w, img_h) \<Rightarrow>
                  (if img_h = 0 then Inl ZeroDivisionError
                   else
                     (let aspect = real img_w / real img_h in
                      if width = 0 \<and> height = 0 then Inr ((kind, image_file), real img_w, real img_h)
                      else if height = 0 then
                        (if aspect = 0 then Inl ZeroDivisionError
                         else Inr ((kind, image_file), width, width / aspect))
                      else if width = 0 then Inr ((kind, image_file), height * aspect, height)
                      else Inr ((kind, image_file), width, height))))))"

subsection \<open>The page\<close>

text \<open>Lines 113--119: the four frames for a page of width \<open>W\<close>.\<close>

definition layout_frames :: "real \<Rightarrow> box list" where
  "layout_frames W =
     (let margin = MM2XPS 12; width_with_margins = W - margin * 2 in
      [\<lparr>box_x = margin, box_y = margin, box_dX = width_with_margins, box_dY = MM2XPS 40\<rparr>,
       \<lparr>box_x = margin, box_y = margin + MM2XPS 40, box_dX = width_with_margins / 3 - MM2XPS 2,
        box_dY = MM2XPS 83\<rparr>,
       \<lparr>box_x = margin + width_with_margins / 3, box_y = margin + MM2XPS 40,
        box_dX = width_with_margins / 3 * 2, box_dY = MM2XPS 83\<rparr>,
       \<lparr>box_x = margin, box_y = margin + MM2XPS 125, box_dX = width_with_margins, box_dY = MM2XPS 155\<rparr>])"

text \<open>\<open>paragraphs[idx].addRun(run)\<close>: the index is checked.\<close>

definition add_run :: "layout_para list \<Rightarrow> nat \<Rightarrow> layout_run \<Rightarrow> py_error + layout_para list" where
  "add_run paras idx r =
     res_bind (py_get paras idx) (\<lambda>para. py_set paras idx (para\<lparr>lp_runs := lp_runs para @ [r]\<rparr>))"

text \<open>Lines 165--168: \<open>for i in range(3, len(paragraph_text))\<close>, over the texts from the
  fourth on.\<close>

fun body_loop :: "font option \<times> nat \<Rightarrow> string list \<Rightarrow> layout_para list \<times> nat \<Rightarrow>
    py_error + layout_para list \<times> nat" where
  "body_loop body_font [] (paras, idx) = Inr (paras, idx)"
| "body_loop body_font (t # ts) (paras, idx) =
     (let paras1 = paras @ [create_paragraph 7 ''eHAJustified'' 1.2 0]; idx1 = idx + 1 in
      res_bind (add_run paras1 idx1 (TextRun t (fst body_font) (snd body_font) 14 None))
        (\<lambda>paras2. body_loop body_font ts (paras2, idx1)))"

text \<open>Lines 98--184: the frames, the fonts, the paragraphs and their runs, and the
  laid-out paragraphs appended to the page. \<open>texts\<close> is \<open>paragraph_text\<close> and
  \<open>rtl\<close> the two Hebrew strings.\<close>

definition ilayout_body :: "font_finder \<Rightarrow> (string \<Rightarrow> bool) \<Rightarrow> (image_kind \<Rightarrow> string \<Rightarrow> (nat \<times> nat) option) \<Rightarrow>
    real \<Rightarrow> string \<Rightarrow> string list \<Rightarrow> string \<times> string \<Rightarrow> py_error + layout_state" where
  "ilayout_body ff exists decode W input_file texts rtl =
     (let draw_border = False;
          margin = MM2XPS 12;
          width_with_margins = W - margin * 2;
          st = fold (\<lambda>r st. add_frame st r draw_border) (layout_frames W)
                 \<lparr>ls_frames = [], ls_children = []\<rparr>
      in
      res_bind (get_open_type_font ff [''Arial Black'']) (\<lambda>title_font.
      res_bind (get_open_type_font ff [''DejaVu Sans Book'', ''Gill Sans'', ''Arial'']) (\<lambda>body_font.
      res_bind (get_open_type_font ff [''DejaVu Sans Book Bold'', ''Gill Sans Bold'', ''Arial Bold''])
        (\<lambda>body_bold.
      res_bind (py_get texts 0) (\<lambda>t0.
      res_bind (add_run [new_paragraph ''eHACenter''] 0
                  (TextRun t0 (fst title_font) (snd title_font) (PT2XPS 60) (Some (0, 0, 0.5))))
        (\<lambda>paras.
      res_bind (py_get texts 1) (\<lambda>t1.
      res_bind (add_run (paras @ [create_paragraph 9 ''eHAJustified'' 1.3 0]) 1
                  (TextRun t1 (fst body_bold) (snd body_bold) 14 None)) (\<lambda>paras.
      res_bind (py_get texts 2) (\<lambda>t2.
      res_bind (add_run (paras @ [create_paragraph 7 ''eHAJustified'' 1.2 0]) 2
                  (TextRun t2 (fst body_font) (snd body_font) 14 None)) (\<lambda>paras.
      res_bind (if input_file \<noteq> [] then
                  res_bind (get_image exists decode (py_join ''TestFiles/'' input_file)
                              (width_with_margins / 3 * 2) 0)
                    (\<lambda>(image, width, height). add_run paras 2 (ImageRun image width height))
                else Inr paras) (\<lambda>paras.
      res_bind (body_loop body_font (drop 3 texts) (paras, 2)) (\<lambda>(paras, idx).
      res_bind (get_open_type_font ff [''DavidRegular'']) (\<lambda>david.
      res_bind (get_open_type_font ff [''Arial'']) (\<lambda>arial.
      res_bind (add_run (paras @ [create_paragraph 8 ''eHARight'' 1 0]) (idx + 1)
                  (TextRun (fst rtl) (fst david) (snd david) 16 None)) (\<lambda>paras.
      res_bind (add_run (paras @ [create_paragraph 6.5 ''eHARight'' 1 0]) (idx + 2)
                  (TextRun (snd rtl) (fst arial) (snd arial) 13 None)) (\<lambda>paras.
      Inr (st\<lparr>ls_children := ls_children st @ [LaidOut paras]\<rparr>)))))))))))))))))"

datatype il_line = LayoutWritten | ILMakoException string | ILExceptionThrown py_error

text \<open>Lines 93--196: \<open>input_file\<close> from the command line, the body, and the message
  printed; the output is the page written, if any.\<close>

definition ilayout_main :: "font_finder \<Rightarrow> (string \<Rightarrow> bool) \<Rightarrow> (image_kind \<Rightarrow> string \<Rightarrow> (nat \<times> nat) option) \<Rightarrow>
    real \<Rightarrow> string list \<Rightarrow> string list \<Rightarrow> string \<times> string \<Rightarrow> il_line \<times> layout_state option" where
  "ilayout_main ff exists decode W argv texts rtl =
     (let input_file = (if length argv > 1 then argv ! 1 else []) in
      case ilayout_body ff exists decode W input_file texts rtl of
        Inl (MakoException m) \<Rightarrow> (ILMakoException m, None)
      | Inl e \<Rightarrow> (ILExceptionThrown e, None)
      | Inr st \<Rightarrow> (LayoutWritten, Some st))"

definition boxes_disjoint :: "box \<Rightarrow> box \<Rightarrow> bool" where
  "boxes_disjoint a b =
     (box_x a + box_dX a \<le> box_x b \<or> box_x b + box_dX b \<le> box_x a \<or>
      box_y a + box_dY a \<le> box_y b \<or> box_y b + box_dY b \<le> box_y a)"

subsection \<open>Lemmas\<close>

lemma font_loop_arial:
  assumes "ff ''Arial'' = Some a"
  shows "font_loop ff names cur =
           Inr (if names = [] then cur
                else Some (case find (\<lambda>n. ff n \<noteq> None) names of Some n \<Rightarrow> the (ff n) | None \<Rightarrow> a))"
  using assms by (induction names arbitrary: cur) (auto split: option.splits)

lemma get_open_type_font_ok:
  "ff ''Arial'' = Some a \<Longrightarrow> names \<noteq> [] \<Longrightarrow> \<exists>r. get_open_type_font ff names = Inr r"
  by (auto simp: get_open_type_font_def font_loop_arial split: option.splits prod.splits)

lemma add_run_ok [simp]:
  "i < length ps \<Longrightarrow> add_run ps i r = Inr (ps[i := (ps ! i)\<lparr>lp_runs := lp_runs (ps ! i) @ [r]\<rparr>])"
  by (simp add: add_run_def py_get_def py_set_def)

lemma lp_runs_create_paragraph [simp]: "lp_runs (create_paragraph a j l b) = []"
  by (simp add: create_paragraph_def new_paragraph_def Let_def)

lemma body_loop_ok:
  "Suc idx = length paras \<Longrightarrow>
   body_loop bf ts (paras, idx) =
     Inr (paras @ map (\<lambda>t. (create_paragraph 7 ''eHAJustified'' 1.2 0)
                         \<lparr>lp_runs := [TextRun t (fst bf) (snd bf) 14 None]\<rparr>) ts, idx + length ts)"
  by (induction ts arbitrary: paras idx) simp_all

lemma frames_state:
  "fold (\<lambda>r st. add_frame st r False) (layout_frames W) \<lparr>ls_frames = [], ls_children = []\<rparr> =
     \<lparr>ls_frames = layout_frames W, ls_children = []\<rparr>"
  by (simp add: add_frame_def layout_frames_def Let_def)

lemma get_image_dims:
  assumes "get_image exists decode f width height = Inr ((k, f'), w, h)"
  shows "\<exists>iw ih. decode k f = Some (iw, ih) \<and> 0 < ih \<and>
           (if width = 0 \<and> height = 0 then w = real iw \<and> h = real ih
            else if height = 0 then 0 < iw \<and> w = width \<and> h = width / (real iw / real ih)
            else if width = 0 then w = height * (real iw / real ih) \<and> h = height
            else w = width \<and> h = height)"
  using assms by (auto simp: get_image_def Let_def split: if_splits option.splits)

subsection \<open>Properties of the layout example\<close>

text \<open>C21: with Arial installed, at least three paragraph texts and the image (if one is
  named) loading, the page gets the four frames and one laid-out block of paragraphs:
  title, introduction, sidebar, one paragraph per further text and the two right-to-left
  paragraphs, each with one run, except the sidebar, which also gets the image run. Each
  \<open>addRun\<close> goes to the paragraph appended just before it.\<close>

theorem ilayout_body_paragraphs:
  assumes arial: "ff ''Arial'' = Some a"
    and texts: "3 \<le> length texts"
    and image: "input_file = [] \<or>
                (\<exists>im. get_image exists decode (py_join ''TestFiles/'' input_file)
                        ((W - MM2XPS 12 * 2) / 3 * 2) 0 = Inr im)"
  shows "\<exists>paras. ilayout_body ff exists decode W input_file texts rtl =
                 Inr \<lparr>ls_frames = layout_frames W, ls_children = [LaidOut paras]\<rparr> \<and>
               map (\<lambda>p. length (lp_runs p)) paras =
                 [1, 1, if input_file = [] then 1 else 2] @ replicate (length texts - 3) 1 @ [1, 1]"
proof -
  obtain tf bf bb df af where
    fonts: "get_open_type_font ff [''Arial Black''] = Inr tf"
      "get_open_type_font ff [''DejaVu Sans Book'', ''Gill Sans'', ''Arial''] = Inr bf"
      "get_open_type_font ff [''DejaVu Sans Book Bold'', ''Gill Sans Bold'', ''Arial Bold''] = Inr bb"
      "get_open_type_font ff [''DavidRegular''] = Inr df"
      "get_open_type_font ff [''Arial''] = Inr af"
    using get_open_type_font_ok [where ff = ff, OF arial] by (metis list.distinct(1))
  show ?thesis
  proof (cases "input_file = []")
    case True
    then show ?thesis
      using texts by (auto simp: ilayout_body_def Let_def fonts py_get_def frames_state body_loop_ok new_paragraph_def nth_append list_update_append comp_def map_replicate_const)
  next
    case False
    with image obtain im where
      im: "get_image exists decode (py_join ''TestFiles/'' input_file) ((W - MM2XPS 12 * 2) / 3 * 2) 0 = Inr im"
      by blast
    obtain img w h where "im = (img, w, h)" by (cases im) auto
    with False im show ?thesis
      using texts by (auto simp: ilayout_body_def Let_def fonts py_get_def frames_state body_loop_ok new_paragraph_def nth_append list_update_append comp_def map_replicate_const
          add_run_def py_get_def py_set_def)
  qed
qed

theorem ilayout_body_paragraphs_witness:
  "\<exists>paras. ilayout_body (map_of [(''Arial'', (\<lparr>font_name = ''Arial'', font_kind = eFontTypeOpenType\<rparr>, 0))])
      (\<lambda>_. False) (\<lambda>_ _. None) 794 [] [''Travel Blog'', ''Intro'', ''Sidebar'', ''Body''] (''Header'', ''Text'') =
      Inr \<lparr>ls_frames = layout_frames 794, ls_children = [LaidOut paras]\<rparr> \<and>
    map (\<lambda>p. length (lp_runs p)) paras = [1, 1, 1, 1, 1, 1]"
  using ilayout_body_paragraphs [of "map_of [(''Arial'', (\<lparr>font_name = ''Arial'', font_kind = eFontTypeOpenType\<rparr>, 0))]"
      _ "[''Travel Blog'', ''Intro'', ''Sidebar'', ''Body'']" "[]" "\<lambda>_. False" "\<lambda>_ _. None" 794
      "(''Header'', ''Text'')"]
  by simp

text \<open>C24: \<open>get_image\<close> keeps the image's aspect ratio when it completes a missing
  dimension: if the width or the height passed is 0 and the image loads, the returned
  width and height are in the proportion of the image's pixel width and height.\<close>

theorem get_image_keeps_aspect:
  assumes "get_image exists decode f width height = Inr ((k, f'), w, h)"
    and "decode k f = Some (iw, ih)"
    and "width = 0 \<or> height = 0"
  shows "w * real ih = h * real iw"
  using get_image_dims [OF assms(1)] assms(2,3) by (auto split: if_splits)

theorem get_image_keeps_aspect_witness:
  "get_image (\<lambda>_. True) (\<lambda>_ _. Some (400, 300)) ''TestFiles/Kayak.JPG'' 300 0 =
     Inr ((JPEGImage, ''TestFiles/Kayak.JPG''), 300, 225) \<and>
   300 * real (300::nat) = 225 * real (400::nat)"
proof -
  have g: "get_image (\<lambda>_. True) (\<lambda>_ _. Some (400, 300)) ''TestFiles/Kayak.JPG'' 300 0 =
             Inr ((JPEGImage, ''TestFiles/Kayak.JPG''), 300, 225)"
  proof -
    have "py_lower (py_splitext_ext ''TestFiles/Kayak.JPG'') = ''.jpg''" by code_simp
    then show ?thesis by (simp add: get_image_def image_kind_of_def)
  qed
  show ?thesis using get_image_keeps_aspect [OF g, of 400 300] g by simp
qed

text \<open>C29: the fallback to Arial is inside the exception handler of the loop: when the
  first candidate is not installed and Arial is not either, \<open>get_open_type_font\<close> raises
  at once, also when a later candidate is installed; with Arial installed it returns the
  first installed candidate's font.\<close>

theorem get_open_type_font_no_arial:
  assumes "ff ''Arial'' = None" and "ff name = None"
  shows "get_open_type_font ff (name # names) = Inl (MakoException ''findFont'')"
  using assms by (simp add: get_open_type_font_def)

theorem get_open_type_font_no_arial_witness:
  "get_open_type_font (map_of [(''Gill Sans'', (\<lparr>font_name = ''Gill Sans'', font_kind = eFontTypeOpenType\<rparr>, 0))])
     [''DejaVu Sans Book'', ''Gill Sans'', ''Arial''] = Inl (MakoException ''findFont'')"
  by (rule get_open_type_font_no_arial) simp_all

text \<open>C12: the four frames of the page do not overlap, and each lies between the left
  and the right margin, when the page is wide enough for the narrow column
  (\<open>W \<ge> 2 * margin + 3 * MM2XPS 2\<close>).\<close>

theorem layout_frames_disjoint:
  assumes "2 * MM2XPS 12 + 3 * MM2XPS 2 \<le> W"
  shows "(\<forall>i < 4. \<forall>j < 4. i \<noteq> j \<longrightarrow> boxes_disjoint (layout_frames W ! i) (layout_frames W ! j)) \<and>
         (\<forall>b \<in> set (layout_frames W). MM2XPS 12 \<le> box_x b \<and> box_x b + box_dX b \<le> W - MM2XPS 12)"
  using assms
  by (auto simp: layout_frames_def boxes_disjoint_def MM2XPS_def Let_def less_Suc_eq numeral_eq_Suc
      field_simps)

theorem layout_frames_disjoint_witness:
  "boxes_disjoint (layout_frames 794 ! 1) (layout_frames 794 ! 2) \<and>
   box_x (layout_frames 794 ! 2) + box_dX (layout_frames 794 ! 2) = 794 - MM2XPS 12"
proof -
  have "2 * MM2XPS 12 + 3 * MM2XPS 2 \<le> (794::real)" by (simp add: MM2XPS_def)
  from layout_frames_disjoint [OF this] show ?thesis
    by (simp add: layout_frames_def MM2XPS_def Let_def boxes_disjoint_def)
qed

end
