(* ===== verification/OutputIntent.thy ===== *)
theory OutputIntent
  imports Layout
begin

text \<open>
  \<open>SaveWithOutputIntent/save_with_output_intent.py\<close>: a one-page PDF/X-4 document is
  laid out (a header, a bullet line and an image), written once with one output intent and
  once with three, and each file is read back to check the number of intents.
  \<open>swoi_get_image\<close> is \<open>get_image\<close> (lines 198--220), \<open>swoi_body\<close> the body of
  \<open>main\<close>'s \<open>try\<close> (lines 22--96 and 179), \<open>swoi_write\<close> its writes and checks (lines 98--177) and \<open>swoi_main\<close> \<open>main\<close> with its two handlers.
  The bullet of line 75 is the UTF-8 encoding of U+25CF.

  The layout types and \<open>image_kind_of\<close> are those of \<open>Layout\<close>. An ICC profile is
  named by the file it is loaded from; the file system is the predicate \<open>exists\<close>, and
  \<open>IDOMICCProfile.create\<close> raises where \<open>icc_ok\<close> is false. Writing a file records its
  output intents, and opening it again gives them back (\<open>getOutputIntents\<close>), which is
  what the two checks of lines 125 and 176 rely on.
\<close>

text \<open>Lines 187--194.\<close>

definition P2X :: "real \<Rightarrow> real" where
  "P2X v = v / 72 * 96"

definition M2X :: "real \<Rightarrow> real" where
  "M2X v = v / 25.4 * 96"

text \<open>Lines 23--27: the profile file names and where they come from.\<close>

definition profiles :: "(string \<times> string) list" where
  "profiles =
     [(''Probev2_ICCv4.icc'', ''https://www.color.org/probeprofile.xalter''),
      (''GRACoL2006_Coated1v2.icc'', ''https://idealliance.org''),
      (''JapanColor2011Coated.icc'', ''https://www.xrite.com'')]"

record output_intent =
  oi_subtype :: string
  oi_condition :: string
  oi_condition_id :: string
  oi_registry :: string
  oi_info :: string
  oi_profile :: string

text \<open>Lines 198--220: the image is created from the file by the decoder its extension
  selects; a missing file raises FileNotFoundError.\<close>

definition swoi_get_image :: "(string \<Rightarrow> bool) \<Rightarrow> string \<Rightarrow> py_error + image_kind \<times> string" where
  "swoi_get_image exists image_path =
     (if \<not> exists image_path then Inl (FileNotFoundError (''Image file '' @ image_path @ '' not found.''))
      else
        (let ext = py_lower (py_splitext_ext image_path) in
         case image_kind_of ext of
           None \<Rightarrow> Inl (PyException (''Unsupported image type: '' @ ext))
         | Some kind \<Rightarrow> Inr (kind, image_path)))"

record swoi_page =
  sp_width :: real
  sp_height :: real
  sp_layout :: layout_state

record swoi_result =
  sr_page :: swoi_page
  sr_files :: "(string \<times> output_intent list) list"

text \<open>The PDF output object: its preset and the output intents set on it.\<close>

record pdf_output =
  po_preset :: string
  po_intents :: "output_intent list"

text \<open>\<open>output.writeAssembly(assembly, name)\<close>: the file written with the intents set.\<close>

definition write_assembly :: "pdf_output \<Rightarrow> string \<Rightarrow> (string \<times> output_intent list) list \<Rightarrow>
    (string \<times> output_intent list) list" where
  "write_assembly out name files = files @ [(name, po_intents out)]"

text \<open>\<open>IPDFInput.create(...).open(name).getDocument().getOutputIntents().size()\<close>.\<close>

definition intent_count :: "(string \<times> output_intent list) list \<Rightarrow> string \<Rightarrow> nat" where
  "intent_count files name = (case map_of (rev files) name of None \<Rightarrow> 0 | Some ois \<Rightarrow> length ois)"

text \<open>Lines 98--177: the PDF/X-4 output with the first intent, the first write and its
  check, then the three intents, the second write and its check; the files written.\<close>

definition swoi_write :: "string \<Rightarrow> py_error + (string \<times> output_intent list) list" where
  "swoi_write icc_profile_path =
     (let output = \<lparr>po_preset = ''PDF/X-4'', po_intents = []\<rparr>;
          intent1 = \<lparr>oi_subtype = ''GTS_PDFX'', oi_condition = fst (profiles ! 0),
                     oi_condition_id = fst (profiles ! 0), oi_registry = ''http://www.color.org'',
                     oi_info = ''Output Intent test'', oi_profile = icc_profile_path\<rparr>;
          output = output\<lparr>po_intents := [intent1]\<rparr>;
          files = write_assembly output ''OutputIntentExample.pdf'' []
      in
      if intent_count files ''OutputIntentExample.pdf'' \<noteq> 1
      then Inl (PyException ''Output intent count not equal to 1'')
      else
     (let intent2 = \<lparr>oi_subtype = ''GGS_DUMMY'', oi_condition = fst (profiles ! 1),
                     oi_condition_id = fst (profiles ! 1), oi_registry = ''https://idealliance.org'',
                     oi_info = ''The GRACoL 2006 Coated v2 from idealliance.org'',
                     oi_profile = icc_profile_path\<rparr>;
          intent3 = \<lparr>oi_subtype = ''GGS_DUMMY'', oi_condition = fst (profiles ! 2),
                     oi_condition_id = fst (profiles ! 2), oi_registry = ''https://www.xrite.com'',
                     oi_info = ''The Japan Color 2011 profile from xrite.com'',
                     oi_profile = icc_profile_path\<rparr>;
          output = output\<lparr>po_intents := [intent1, intent2, intent3]\<rparr>;
          files = write_assembly output ''OutputIntentExampleThreeIntents.pdf'' files
      in
      if intent_count files ''OutputIntentExampleThreeIntents.pdf'' \<noteq> 3
      then Inl (PyException ''Output intent count not equal to 3'')
      else Inr files))"

text \<open>Lines 22--96 and 179: the page, the font, the paragraphs, the image and the ICC profile,
  then the writes.\<close>

definition swoi_body :: "font_finder \<Rightarrow> (string \<Rightarrow> bool) \<Rightarrow> (string \<Rightarrow> bool) \<Rightarrow> py_error + swoi_result" where
  "swoi_body ff exists icc_ok =
     (let page_w = M2X 250; page_h = M2X 210 in
      case ff ''Arial'' of
        None \<Rightarrow> Inl (MakoException ''findFont'')
      | Some (font_handle, font_index) \<Rightarrow>
     (let font = (if font_kind font_handle = eFontTypeOpenType then Some font_handle else None);
          dark_blue = (0, 0, 0.5);
          frame_rect = \<lparr>box_x = M2X 12, box_y = M2X 12, box_dX = M2X 273, box_dY = M2X 186\<rparr>;
          layout = \<lparr>ls_frames = [frame_rect], ls_children = []\<rparr>;
          header = (new_paragraph ''eHALeft'')\<lparr>lp_space_after := P2X 6\<rparr>;
          body = (new_paragraph ''eHALeft'')\<lparr>lp_space_after := P2X 5\<rparr>;
          text1 = ''This PDF has an Output Intent referencing this ICC profile:'';
          paras = [header\<lparr>lp_runs := [TextRun text1 font font_index (P2X 12) (Some dark_blue)]\<rparr>];
          bullet = map char_of [226::nat, 151, 143];
          text2 = ''  '' @ bullet @ '' '' @ fst (profiles ! 0) @ '' (from '' @ snd (profiles ! 0) @ '')'';
          paras = paras @ [body\<lparr>lp_runs := [TextRun text2 font font_index (P2X 10) None]\<rparr>]
      in
      res_bind (swoi_get_image exists (py_join ''TestFiles'' ''Parrot.png'')) (\<lambda>parrot.
     (let paras = paras @ [(new_paragraph ''eHALeft'')\<lparr>lp_runs := [ImageRun parrot 0 (M2X 169)]\<rparr>];
          layout = layout\<lparr>ls_children := ls_children layout @ [LaidOut paras]\<rparr>;
          icc_profile_path = py_join ''TestFiles'' (fst (profiles ! 0))
      in
      if \<not> icc_ok icc_profile_path then Inl (MakoException ''IDOMICCProfile.create'')
      else res_bind (swoi_write icc_profile_path) (\<lambda>files.
           Inr \<lparr>sr_page = \<lparr>sp_width = page_w, sp_height = page_h, sp_layout = layout\<rparr>,
                sr_files = files\<rparr>)))))"

datatype swoi_line = SWOIVerified | SWOIMakoException string | SWOIException py_error

text \<open>Lines 20--184: \<open>main\<close> prints one line and returns \<open>None\<close> in every case; the
  files written before an exception stay on disk, which the model does not track.\<close>

definition swoi_main :: "font_finder \<Rightarrow> (string \<Rightarrow> bool) \<Rightarrow> (string \<Rightarrow> bool) \<Rightarrow>
    swoi_line \<times> swoi_result option" where
  "swoi_main ff exists icc_ok =
     (case swoi_body ff exists icc_ok of
        Inl (MakoException m) \<Rightarrow> (SWOIMakoException m, None)
      | Inl e \<Rightarrow> (SWOIException e, None)
      | Inr r \<Rightarrow> (SWOIVerified, Some r))"

subsection \<open>Lemmas\<close>

lemma parrot_path: "py_join ''TestFiles'' ''Parrot.png'' = ''TestFiles/Parrot.png''"
  by (simp add: py_join_def)

lemma probe_path: "py_join ''TestFiles'' ''Probev2_ICCv4.icc'' = ''TestFiles/Probev2_ICCv4.icc''"
  by (simp add: py_join_def)

lemma swoi_get_image_parrot:
  "exists ''TestFiles/Parrot.png'' \<Longrightarrow>
   swoi_get_image exists ''TestFiles/Parrot.png'' = Inr (PNGImage, ''TestFiles/Parrot.png'')"
proof -
  have "py_lower (py_splitext_ext ''TestFiles/Parrot.png'') = ''.png''" by code_simp
  then show "exists ''TestFiles/Parrot.png'' \<Longrightarrow> ?thesis"
    by (simp add: swoi_get_image_def image_kind_of_def)
qed

subsection \<open>Properties of the output-intent example\<close>

text \<open>C35: with Arial installed and the image and the profile present, \<open>main\<close> passes
  both checks and writes two files, with one and with three output intents. All four
  intents embed the profile loaded from \<open>Probev2_ICCv4.icc\<close>, although the second and
  third name the GRACoL and Japan Color profiles as their output condition; and the
  layout frame, 273 mm wide at 12 mm from the left, ends 35 mm past the right edge of the
  250 mm page.\<close>

theorem swoi_main_intents:
  assumes "ff ''Arial'' = Some fi"
    and "exists ''TestFiles/Parrot.png''"
    and "icc_ok ''TestFiles/Probev2_ICCv4.icc''"
  shows "\<exists>r. swoi_main ff exists icc_ok = (SWOIVerified, Some r) \<and>
           map (\<lambda>(n, ois). (n, length ois)) (sr_files r) =
             [(''OutputIntentExample.pdf'', 1), (''OutputIntentExampleThreeIntents.pdf'', 3)] \<and>
           map oi_profile (concat (map snd (sr_files r))) =
             replicate 4 ''TestFiles/Probev2_ICCv4.icc'' \<and>
           map oi_condition (concat (map snd (sr_files r))) =
             [''Probev2_ICCv4.icc'', ''Probev2_ICCv4.icc'', ''GRACoL2006_Coated1v2.icc'',
              ''JapanColor2011Coated.icc''] \<and>
           map (\<lambda>b. box_x b + box_dX b) (ls_frames (sp_layout (sr_page r))) =
             [sp_width (sr_page r) + M2X 35]"
proof -
  obtain font_handle font_index where fi: "fi = (font_handle, font_index)" by (cases fi)
  show ?thesis
    using assms
    by (simp add: swoi_main_def swoi_body_def swoi_write_def Let_def fi parrot_path probe_path swoi_get_image_parrot
        write_assembly_def intent_count_def profiles_def M2X_def numeral_eq_Suc)
qed

theorem swoi_main_intents_witness:
  "\<exists>r. swoi_main (map_of [(''Arial'', (\<lparr>font_name = ''Arial'', font_kind = eFontTypeOpenType\<rparr>, 0))])
          (\<lambda>_. True) (\<lambda>_. True) = (SWOIVerified, Some r) \<and>
       map (\<lambda>(n, ois). (n, length ois)) (sr_files r) =
         [(''OutputIntentExample.pdf'', 1), (''OutputIntentExampleThreeIntents.pdf'', 3)] \<and>
       map oi_profile (concat (map snd (sr_files r))) = replicate 4 ''TestFiles/Probev2_ICCv4.icc'' \<and>
       map oi_condition (concat (map snd (sr_files r))) =
         [''Probev2_ICCv4.icc'', ''Probev2_ICCv4.icc'', ''GRACoL2006_Coated1v2.icc'',
          ''JapanColor2011Coated.icc''] \<and>
       map (\<lambda>b. box_x b + box_dX b) (ls_frames (sp_layout (sr_page r))) = [sp_width (sr_page r) + M2X 35]"
  by (rule swoi_main_intents) simp_all

end
