(* ===== verification/Glue.thy ===== *)
theory Glue
  imports Prelude
begin

text \<open>
  The document-assembly samples with logic of their own:
  \<^item> \<open>PageInsert/main.py\<close>: \<open>page_insert_main\<close> (lines 16--63) checks the argument
    count, builds the file names and inserts the first page of a cover document in front
    of an input document. \<open>IPDFPageInserter.insert(src, at, from, n)\<close> is
    \<open>pi_insert\<close>, modelled from the SDK's contract on page lists.
  \<^item> \<open>OverprintMethods/OverprintMethods.py\<close>: \<open>om_page\<close> (lines 32--44) finds the path
    nodes of a page and sets fill overprint and overprint mode on each; \<open>om_main\<close>
    (lines 17--57) runs it on every page. A node is addressed by its path of child indices
    from the page, which is how the loop's node references are resolved in the model:
    \<open>find_paths\<close> is \<open>findChildrenOfType(eDOMPathNode, True)\<close> and \<open>upd_node\<close> the
    in-place update of the node at an address.
  \<^item> \<open>ApexGettingStarted/ApexGettingStarted.py\<close>: \<open>apex_main\<close> (lines 15--63) sizes the
    render for 300 dpi.
  \<^item> \<open>RecolorImageWithSpot/recolor_image_with_spot.py\<close>: \<open>recolor_main\<close> (lines 17--87)
    builds the mask filters and the image bounds and paints a path with the masked spot
    brush; \<open>rc_make_separation_color\<close> is lines 90--99 and
    \<open>rc_make_cmyk_separation_color\<close> lines 102--111.
\<close>

subsection \<open>PageInsert\<close>

text \<open>\<open>insert(src, atPage, fromPage, numPages)\<close>: the pages \<open>fromPage ..< fromPage +
  numPages\<close> of the source, inserted before page \<open>atPage\<close>; a range outside either
  document raises.\<close>

definition pi_insert :: "'p list \<Rightarrow> 'p list \<Rightarrow> nat \<Rightarrow> nat \<Rightarrow> nat \<Rightarrow> py_error + 'p list" where
  "pi_insert doc src at_page from_page num_pages =
     (if at_page \<le> length doc \<and> from_page + num_pages \<le> length src
      then Inr (take at_page doc @ take num_pages (drop from_page src) @ drop at_page doc)
      else Inl (MakoException ''insert''))"

datatype pi_line = PIUsage | PITime | PIMakoException string

datatype pi_exit = PIReturn int | PIUncaught py_error

text \<open>Lines 16--63. \<open>load\<close> opens a file (\<open>None\<close> where the SDK raises); the output
  is the file written and its pages. \<open>sys.argv[3]\<close> is read before the \<open>try\<close>, so its
  IndexError ends the script uncaught.\<close>

definition page_insert_main :: "(string \<Rightarrow> 'p list option) \<Rightarrow> string list \<Rightarrow>
    pi_exit \<times> pi_line list \<times> (string \<times> 'p list) option" where
  "page_insert_main load argv =
     (if length argv < 3 then (PIReturn 1, [PIUsage], None)
      else
        (let test_file_path = ''TestFiles/'';
             input_file = test_file_path @ argv ! 1;
             output_file = argv ! 2
         in case py_get argv 3 of
              Inl e \<Rightarrow> (PIUncaught e, [], None)
            | Inr a3 \<Rightarrow>
                (let cover_file = test_file_path @ a3 in
                 case load input_file of
                   None \<Rightarrow> (PIReturn 1, [PIMakoException ''open''], None)
                 | Some doc \<Rightarrow>
                     (case load cover_file of
                        None \<Rightarrow> (PIReturn 1, [PIMakoException ''open''], None)
                      | Some cover \<Rightarrow>
                          (case pi_insert doc cover 0 0 1 of
                             Inl _ \<Rightarrow> (PIReturn 1, [PIMakoException ''insert''], None)
                           | Inr pages \<Rightarrow> (PIReturn 0, [PITime], Some (output_file, pages)))))))"

subsection \<open>OverprintMethods\<close>

datatype om_node =
    OMPath (om_fill_op: bool) (om_stroke_op: bool) (om_mode: bool)
  | OMGroup "om_node list"
  | OMOther

type_synonym om_addr = "nat list"

text \<open>\<open>findChildrenOfType(eDOMPathNode, True)\<close>: the addresses of the path nodes, in
  document order.\<close>

fun find_paths :: "om_node \<Rightarrow> om_addr list"
and find_paths_list :: "nat \<Rightarrow> om_node list \<Rightarrow> om_addr list" where
  "find_paths (OMPath f s m) = [[]]"
| "find_paths (OMGroup ns) = find_paths_list 0 ns"
| "find_paths OMOther = []"
| "find_paths_list i [] = []"
| "find_paths_list i (n # ns) = map (Cons i) (find_paths n) @ find_paths_list (Suc i) ns"

text \<open>The node at an address, changed in place.\<close>

fun upd_node :: "(om_node \<Rightarrow> om_node) \<Rightarrow> om_addr \<Rightarrow> om_node \<Rightarrow> om_node" where
  "upd_node f [] n = f n"
| "upd_node f (i # is) (OMGroup ns) =
     OMGroup (if i < length ns then ns[i := upd_node f is (ns ! i)] else ns)"
| "upd_node f (i # is) n = n"

text \<open>Lines 38--44: \<open>setFillOverprints(True)\<close> and \<open>setOverprintMode(True)\<close> on a
  path; \<open>IDOMPathNode.fromRCObject\<close> of another node is \<open>None\<close>, which is skipped.\<close>

fun set_overprint :: "om_node \<Rightarrow> om_node" where
  "set_overprint (OMPath f s m) = OMPath True s True"
| "set_overprint n = n"

text \<open>Lines 32--44: one page, its content being the fixed page node.\<close>

definition om_page :: "om_node \<Rightarrow> om_node" where
  "om_page fixed_page =
     (let path_nodes = find_paths fixed_page in
      fold (\<lambda>i page. upd_node set_overprint (path_nodes ! i) page) [0..<length path_nodes] fixed_page)"

text \<open>Lines 17--57: \<open>opened\<close> is the document's pages or the SDK's error code and
  message; the exit status is the error code of a \<open>MakoException\<close>.\<close>

definition om_main :: "(int \<times> string) + om_node list \<Rightarrow> int \<times> om_node list option" where
  "om_main opened =
     (case opened of
        Inl (code, msg) \<Rightarrow> (code, None)
      | Inr pages \<Rightarrow> (0, Some (map om_page pages)))"

text \<open>The reference: every path node with fill overprint and overprint mode set.\<close>

fun overprint_all :: "om_node \<Rightarrow> om_node" where
  "overprint_all (OMPath f s m) = OMPath True s True"
| "overprint_all (OMGroup ns) = OMGroup (map overprint_all ns)"
| "overprint_all OMOther = OMOther"

subsection \<open>ApexGettingStarted\<close>

record render_spec =
  rs_width :: int
  rs_height :: int
  rs_source :: box

text \<open>Lines 36--44: the pixel size of the page at 300 dpi (\<open>int()\<close> truncates) and the
  crop box as the source rectangle.\<close>

definition apex_spec :: "real \<Rightarrow> real \<Rightarrow> box \<Rightarrow> render_spec" where
  "apex_spec page_w page_h crop_box =
     \<lparr>rs_width = py_int (page_w / 96 * 300), rs_height = py_int (page_h / 96 * 300),
      rs_source = crop_box\<rparr>"

text \<open>Lines 15--63: \<open>opened\<close> is the first page's width, height and crop box, or the
  error raised opening it; the result is the exit status and the render written to
  \<open>TestFiles\\\\Cheshire Cat.png\<close> (the raw string \<open>r"TestFiles\\\\"\<close> keeps both
  backslashes).\<close>

definition apex_main :: "py_error + real \<times> real \<times> box \<Rightarrow> int \<times> (string \<times> render_spec) option" where
  "apex_main opened =
     (case opened of
        Inl e \<Rightarrow> (1, None)
      | Inr (w, h, crop_box) \<Rightarrow>
          (0, Some (''TestFiles'' @ [CHR 0x5C, CHR 0x5C] @ ''Cheshire Cat.png'', apex_spec w h crop_box)))"

subsection \<open>RecolorImageWithSpot\<close>





record spot_colour =
  sc_name :: string
  sc_representation :: "real list"
  sc_alternate :: string
  sc_value :: "real list"


text \<open>Lines 102--111: the same with the DeviceCMYK space as the alternate. The script
  defines it but never calls it.\<close>

definition rc_make_cmyk_separation_color :: "string \<Rightarrow> real list \<Rightarrow> spot_colour" where
  "rc_make_cmyk_separation_color name cmyk_representation =
     \<lparr>sc_name = name, sc_representation = cmyk_representation, sc_alternate = ''DeviceCMYK'',
      sc_value = [1]\<rparr>"



subsection \<open>Lemmas\<close>

lemma page_insert_main_ok:
  assumes "length argv = 4"
    and "load (''TestFiles/'' @ argv ! 1) = Some doc"
    and "load (''TestFiles/'' @ argv ! 3) = Some (c # cs)"
  shows "page_insert_main load argv = (PIReturn 0, [PITime], Some (argv ! 2, c # doc))"
  using assms by (simp add: page_insert_main_def py_get_def pi_insert_def)

lemma fold_upt_nth: "fold (\<lambda>i. g (xs ! i)) [0..<length xs] = fold g xs"
proof -
  have "fold g xs = fold g (map ((!) xs) [0..<length xs])" by (simp add: map_nth)
  also have "\<dots> = fold (\<lambda>i. g (xs ! i)) [0..<length xs]" by (simp add: fold_map comp_def)
  finally show ?thesis by simp
qed

lemma fold_upd_Cons:
  "i < length ns \<Longrightarrow>
   fold (upd_node f) (map (Cons i) as) (OMGroup ns) = OMGroup (ns[i := fold (upd_node f) as (ns ! i)])"
  by (induction as arbitrary: ns) simp_all

lemma fold_find_paths:
  "fold (upd_node set_overprint) (find_paths n) n = overprint_all n"
  "length pre = i \<Longrightarrow>
   fold (upd_node set_overprint) (find_paths_list i ns) (OMGroup (pre @ ns @ post)) =
     OMGroup (pre @ map overprint_all ns @ post)"
proof (induction n and i ns arbitrary: and pre post rule: find_paths_find_paths_list.induct)
  case (2 ns)
  then show ?case using "2.IH" [of "[]" "[]"] by simp
next
  case (5 i n ns)
  have "fold (upd_node set_overprint) (map (Cons i) (find_paths n)) (OMGroup (pre @ n # ns @ post)) =
          OMGroup (pre @ overprint_all n # ns @ post)"
    using "5.prems" "5.IH"(1) by (simp add: fold_upd_Cons nth_append list_update_append)
  with "5.IH"(2) [of "pre @ [overprint_all n]" post] "5.prems" show ?case by simp
qed simp_all

lemma apex_spec_bounds:
  assumes "0 \<le> page_w"
  shows "0 \<le> rs_width (apex_spec page_w page_h crop) \<and>
         of_int (rs_width (apex_spec page_w page_h crop)) \<le> page_w / 96 * 300 \<and>
         page_w / 96 * 300 < of_int (rs_width (apex_spec page_w page_h crop)) + 1"
proof -
  have x: "0 \<le> page_w / 96 * 300" using assms by simp
  show ?thesis
    using py_int_bounds [OF x] x by (simp add: apex_spec_def py_int_nonneg)
qed

subsection \<open>Properties of the glue samples\<close>

text \<open>C31: \<open>PageInsert\<close> checks for three entries in \<open>sys.argv\<close> but reads
  \<open>sys.argv[3]\<close>, the fourth: called with an input and an output file only, it passes the
  check and dies with an uncaught IndexError, before the usage message could help.\<close>

theorem page_insert_two_arguments:
  assumes "length argv = 3"
  shows "page_insert_main load argv = (PIUncaught IndexError, [], None)"
  using assms by (simp add: page_insert_main_def py_get_def)

theorem page_insert_two_arguments_witness:
  "page_insert_main (\<lambda>_. Some [()]) [''insert_cover_page.py'', ''in.pdf'', ''out.pdf''] =
     (PIUncaught IndexError, [], None)"
  by (rule page_insert_two_arguments) simp


text \<open>C7: the path loop of \<open>OverprintMethods\<close> refines the structural transform: setting
  the flags on every node \<open>findChildrenOfType\<close> returns, one after the other, gives the
  page with every path node, at any depth, filled with overprint and overprint mode on,
  and every other node unchanged.\<close>

theorem om_page_overprints_all: "om_page page = overprint_all page"
  using fold_upt_nth [of "upd_node set_overprint" "find_paths page"] fold_find_paths(1) [of page]
  by (simp add: om_page_def)

end
