(* ===== verification/Assembly.thy ===== *)
theory Assembly
  imports Prelude
begin

text \<open>
  The document-assembly scripts \<open>CreatePdf/main.py\<close>, \<open>AddImageToPdf/AddImageToPdf.py\<close>,
  \<open>GettingStarted/getting_started.py\<close> and \<open>OpenPdf/main.py\<close> build or open a document
  assembly through the SDK's object handles and write it out. The objects are shared:
  each script appends the document to the assembly before the document has pages and the
  page to the document before the page has content, and the file written holds what the
  objects hold at the time of writing. The model is therefore an explicit
  store: a list of SDK objects indexed by handle, in which an assembly, a document and a
  page hold the handles of their documents, pages and content. \<open>sdk_new\<close> allocates,
  \<open>append_document\<close>, \<open>append_page\<close>, \<open>set_content\<close> and \<open>append_child\<close> are the
  SDK calls the scripts make, and \<open>resolve_assembly\<close> is what \<open>writeAssembly\<close> reads
  out of the store. \<open>load_assembly\<close> is the input side: an opened file put into the
  store.

  Calling a method on an object of the wrong class, or passing one, is an
  AttributeError. \<open>sdk_step\<close> is one SDK call as a datatype of operations, and
  \<open>sdk_reachable\<close> the stores the calls can build.
\<close>

subsection \<open>The object store\<close>

datatype dom_child =
    GlyphsNode string real real real "real list" nat
  | ImageNode string box

datatype sdk_obj =
    OAssembly "nat list"
  | ODocument "nat list"
  | OPage "nat option"
  | OFixedPage real real "dom_child list"

type_synonym sdk_store = "sdk_obj list"

type_synonym page_value = "(real \<times> real \<times> dom_child list) option"

text \<open>\<open>IDOMColor.create(factory, space, alpha, c1, c2, c3)\<close>: the colour's
  components; the alpha comes first.\<close>

definition dom_color :: "real \<Rightarrow> real \<Rightarrow> real \<Rightarrow> real \<Rightarrow> real list" where
  "dom_color alpha c1 c2 c3 = [c1, c2, c3]"

text \<open>\<open>IDocumentAssembly.create\<close>, \<open>IDocument.create\<close>, \<open>IPage.create\<close>,
  \<open>IDOMFixedPage.create\<close>: a fresh object at the next handle.\<close>

definition sdk_new :: "sdk_store \<Rightarrow> sdk_obj \<Rightarrow> sdk_store \<times> nat" where
  "sdk_new st obj = (st @ [obj], length st)"

fun is_document :: "sdk_obj \<Rightarrow> bool" where
  "is_document (ODocument ps) = True"
| "is_document _ = False"

fun is_page :: "sdk_obj \<Rightarrow> bool" where
  "is_page (OPage c) = True"
| "is_page _ = False"

fun is_fixed_page :: "sdk_obj \<Rightarrow> bool" where
  "is_fixed_page (OFixedPage w h cs) = True"
| "is_fixed_page _ = False"

text \<open>\<open>assembly.appendDocument(document)\<close>.\<close>

definition append_document :: "sdk_store \<Rightarrow> nat \<Rightarrow> nat \<Rightarrow> sdk_store res" where
  "append_document st a d =
     (if a < length st \<and> d < length st \<and> is_document (st ! d)
      then (case st ! a of
              OAssembly ds \<Rightarrow> Inr (st[a := OAssembly (ds @ [d])])
            | _ \<Rightarrow> Inl (AttributeError ''appendDocument''))
      else Inl (AttributeError ''appendDocument''))"

text \<open>\<open>document.appendPage(page)\<close>.\<close>

definition append_page :: "sdk_store \<Rightarrow> nat \<Rightarrow> nat \<Rightarrow> sdk_store res" where
  "append_page st d p =
     (if d < length st \<and> p < length st \<and> is_page (st ! p)
      then (case st ! d of
              ODocument ps \<Rightarrow> Inr (st[d := ODocument (ps @ [p])])
            | _ \<Rightarrow> Inl (AttributeError ''appendPage''))
      else Inl (AttributeError ''appendPage''))"

text \<open>\<open>page.setContent(fixed_page)\<close>.\<close>

definition set_content :: "sdk_store \<Rightarrow> nat \<Rightarrow> nat \<Rightarrow> sdk_store res" where
  "set_content st p f =
     (if p < length st \<and> f < length st \<and> is_fixed_page (st ! f)
      then (case st ! p of
              OPage c \<Rightarrow> Inr (st[p := OPage (Some f)])
            | _ \<Rightarrow> Inl (AttributeError ''setContent''))
      else Inl (AttributeError ''setContent''))"

text \<open>\<open>fixed_page.appendChild(node)\<close>.\<close>

definition append_child :: "sdk_store \<Rightarrow> nat \<Rightarrow> dom_child \<Rightarrow> sdk_store res" where
  "append_child st f c =
     (if f < length st
      then (case st ! f of
              OFixedPage w h cs \<Rightarrow> Inr (st[f := OFixedPage w h (cs @ [c])])
            | _ \<Rightarrow> Inl (AttributeError ''appendChild''))
      else Inl (AttributeError ''appendChild''))"

text \<open>A raising function mapped over a list: the first error ends it.\<close>

fun res_map :: "('a \<Rightarrow> 'b res) \<Rightarrow> 'a list \<Rightarrow> 'b list res" where
  "res_map f [] = Inr []"
| "res_map f (x # xs) = res_bind (f x) (\<lambda>y. res_bind (res_map f xs) (\<lambda>ys. Inr (y # ys)))"

text \<open>What \<open>writeAssembly\<close> reads: the documents of the assembly, the pages of each
  document, and the size and children of each page's content.\<close>

definition resolve_page :: "sdk_store \<Rightarrow> nat \<Rightarrow> page_value res" where
  "resolve_page st p =
     (if p < length st then
        (case st ! p of
           OPage None \<Rightarrow> Inr None
         | OPage (Some f) \<Rightarrow>
             (if f < length st then
                (case st ! f of OFixedPage w h cs \<Rightarrow> Inr (Some (w, h, cs))
                 | _ \<Rightarrow> Inl (AttributeError ''getContent''))
              else Inl IndexError)
         | _ \<Rightarrow> Inl (AttributeError ''getContent''))
      else Inl IndexError)"

definition resolve_document :: "sdk_store \<Rightarrow> nat \<Rightarrow> page_value list res" where
  "resolve_document st d =
     (if d < length st then
        (case st ! d of ODocument ps \<Rightarrow> res_map (resolve_page st) ps
         | _ \<Rightarrow> Inl (AttributeError ''getPages''))
      else Inl IndexError)"

definition resolve_assembly :: "sdk_store \<Rightarrow> nat \<Rightarrow> page_value list list res" where
  "resolve_assembly st a =
     (if a < length st then
        (case st ! a of OAssembly ds \<Rightarrow> res_map (resolve_document st) ds
         | _ \<Rightarrow> Inl (AttributeError ''getDocuments''))
      else Inl IndexError)"

text \<open>\<open>IInput.open\<close>: the opened file's documents, pages and contents, allocated one
  after the other.\<close>

definition load_page :: "sdk_store \<Rightarrow> page_value \<Rightarrow> sdk_store \<times> nat" where
  "load_page st pv =
     (case pv of
        None \<Rightarrow> sdk_new st (OPage None)
      | Some (w, h, cs) \<Rightarrow> (let (st1, f) = sdk_new st (OFixedPage w h cs) in sdk_new st1 (OPage (Some f))))"

fun load_list :: "(sdk_store \<Rightarrow> 'a \<Rightarrow> sdk_store \<times> nat) \<Rightarrow> sdk_store \<Rightarrow> 'a list \<Rightarrow> sdk_store \<times> nat list" where
  "load_list ld st [] = (st, [])"
| "load_list ld st (x # xs) =
     (let (st1, h) = ld st x; (st2, hs) = load_list ld st1 xs in (st2, h # hs))"

definition load_document :: "sdk_store \<Rightarrow> page_value list \<Rightarrow> sdk_store \<times> nat" where
  "load_document st ps = (let (st1, hs) = load_list load_page st ps in sdk_new st1 (ODocument hs))"

definition load_assembly :: "sdk_store \<Rightarrow> page_value list list \<Rightarrow> sdk_store \<times> nat" where
  "load_assembly st ds = (let (st1, hs) = load_list load_document st ds in sdk_new st1 (OAssembly hs))"

text \<open>\<open>assembly.getDocument()\<close>, \<open>document.getPage(i)\<close> and \<open>page.edit()\<close>: the
  first document, the page at an index and the page's content, raising where there is
  none.\<close>

definition get_document :: "sdk_store \<Rightarrow> nat \<Rightarrow> nat res" where
  "get_document st a =
     (if a < length st then
        (case st ! a of OAssembly (d # ds) \<Rightarrow> Inr d | _ \<Rightarrow> Inl (MakoException ''getDocument''))
      else Inl IndexError)"

definition document_get_page :: "sdk_store \<Rightarrow> nat \<Rightarrow> nat \<Rightarrow> nat res" where
  "document_get_page st d i =
     (if d < length st then
        (case st ! d of
           ODocument ps \<Rightarrow> if i < length ps then Inr (ps ! i) else Inl (MakoException ''getPage'')
         | _ \<Rightarrow> Inl (AttributeError ''getPage''))
      else Inl IndexError)"

definition page_edit :: "sdk_store \<Rightarrow> nat \<Rightarrow> nat res" where
  "page_edit st p =
     (if p < length st then
        (case st ! p of OPage (Some f) \<Rightarrow> Inr f | _ \<Rightarrow> Inl (MakoException ''edit''))
      else Inl IndexError)"

subsection \<open>The scripts\<close>

text \<open>\<open>CreatePdf/main.py\<close> (lines 17--38): an assembly with one document holding one
  empty page of the SDK's default size, written next to the script. The scripts have no
  \<open>try\<close>: an exception ends them with a traceback and nothing is written.\<close>

definition create_pdf_main :: "string \<Rightarrow> real \<times> real \<Rightarrow> (string \<times> page_value list list) res" where
  "create_pdf_main dir_path default_size =
     (let (st, assembly) = sdk_new [] (OAssembly []);
          (st, document) = sdk_new st (ODocument [])
      in res_bind (append_document st assembly document) (\<lambda>st.
         (let (st, page) = sdk_new st (OPage None) in
          res_bind (append_page st document page) (\<lambda>st.
          (let (st, fixedpage) = sdk_new st (OFixedPage (fst default_size) (snd default_size) []) in
           res_bind (set_content st page fixedpage) (\<lambda>st.
           res_bind (resolve_assembly st assembly) (\<lambda>v.
           Inr (dir_path @ ''/TestPython.pdf'', v))))))))"

text \<open>\<open>AddImageToPdf/AddImageToPdf.py\<close> (lines 17--50): the same page with an image node
  of the image's pixel size at the origin, appended before the page gets its content.
  \<open>decode\<close> gives the image frame's width and height, \<open>None\<close> where loading raises;
  \<open>"TestFiles\\\\"\<close> is \<open>TestFiles\<close> and one backslash.\<close>

definition add_image_main :: "(string \<Rightarrow> (nat \<times> nat) option) \<Rightarrow> string \<Rightarrow> real \<times> real \<Rightarrow>
    (string \<times> page_value list list) res" where
  "add_image_main decode dir_path default_size =
     (let (st, assembly) = sdk_new [] (OAssembly []);
          (st, document) = sdk_new st (ODocument [])
      in res_bind (append_document st assembly document) (\<lambda>st.
         (let (st, page) = sdk_new st (OPage None) in
          res_bind (append_page st document page) (\<lambda>st.
          (let (st, fixedPage) = sdk_new st (OFixedPage (fst default_size) (snd default_size) []);
               testFilepath = ''TestFiles'' @ [CHR 0x5C];
               image_path = testFilepath @ ''makologo.png''
           in case decode image_path of
                None \<Rightarrow> Inl (MakoException ''IDOMPNGImage.create'')
              | Some (width, height) \<Rightarrow>
                  res_bind (append_child st fixedPage
                              (ImageNode image_path \<lparr>box_x = 0, box_y = 0, box_dX = real width,
                                                     box_dY = real height\<rparr>)) (\<lambda>st.
                  res_bind (set_content st page fixedPage) (\<lambda>st.
                  res_bind (resolve_assembly st assembly) (\<lambda>v.
                  Inr (dir_path @ ''/TestPython.pdf'', v)))))))))"

text \<open>\<open>GettingStarted/getting_started.py\<close> (lines 17--58): an A5 landscape page
  (793.7 by 561.1 units) with the message in blue at 72 units, starting at \<open>x = 10\<close>
  on the page's half height. \<open>findFont\<close> returns the font and its index;
  the glyphs take the font (\<open>font[0]\<close>), and \<open>findFont\<close> raising (\<open>ff\<close> is
  \<open>None\<close>) ends the script. A result \<open>Inr\<close> of a script is the file written and
  \<open>File created.\<close> printed.\<close>

definition getting_started_main :: "(string \<Rightarrow> (nat \<times> nat) option) \<Rightarrow> string \<Rightarrow>
    (string \<times> page_value list list) res" where
  "getting_started_main ff dir_path =
     (let (st, assembly) = sdk_new [] (OAssembly []);
          (st, document) = sdk_new st (ODocument [])
      in res_bind (append_document st assembly document) (\<lambda>st.
         (let (st, page) = sdk_new st (OPage None) in
          res_bind (append_page st document page) (\<lambda>st.
          (let pagewidth = 793.7; pageheight = 561.1;
               (st, fixedpage) = sdk_new st (OFixedPage pagewidth pageheight [])
           in case ff ''Arial Bold'' of
                None \<Rightarrow> Inl (MakoException ''findFont'')
              | Some font \<Rightarrow>
                  (let bluecolor = dom_color 1.0 0.0 0.0 1.0;
                       message = ''Mako Python API'';
                       glyphs = GlyphsNode message 72 10 (pageheight / 2) bluecolor (fst font)
                   in res_bind (append_child st fixedpage glyphs) (\<lambda>st.
                      res_bind (set_content st page fixedpage) (\<lambda>st.
                      res_bind (resolve_assembly st assembly) (\<lambda>v.
                      Inr (dir_path @ ''/TestPython.pdf'', v))))))))))"

text \<open>\<open>OpenPdf/main.py\<close> (lines 17--34): open the file, take the first page of the first
  document for editing (the edit itself is a \<open>TODO\<close>) and write the assembly again.\<close>

definition open_pdf_main :: "string \<Rightarrow> page_value list list \<Rightarrow> (string \<times> page_value list list) res" where
  "open_pdf_main dir_path opened =
     (let (st, assembly) = load_assembly [] opened in
      res_bind (get_document st assembly) (\<lambda>document.
      res_bind (document_get_page st document 0) (\<lambda>page.
      res_bind (page_edit st page) (\<lambda>fixedPage.
      res_bind (resolve_assembly st assembly) (\<lambda>v.
      Inr (dir_path @ ''/TestPython.pdf'', v))))))"

subsection \<open>SDK calls as a step relation\<close>

datatype sdk_op =
    NewAssembly | NewDocument | NewPage | NewFixedPage real real
  | AppendDocument nat nat | AppendPage nat nat | SetContent nat nat | AppendChild nat dom_child

fun sdk_step :: "sdk_store \<Rightarrow> sdk_op \<Rightarrow> sdk_store res" where
  "sdk_step st NewAssembly = Inr (fst (sdk_new st (OAssembly [])))"
| "sdk_step st NewDocument = Inr (fst (sdk_new st (ODocument [])))"
| "sdk_step st NewPage = Inr (fst (sdk_new st (OPage None)))"
| "sdk_step st (NewFixedPage w h) = Inr (fst (sdk_new st (OFixedPage w h [])))"
| "sdk_step st (AppendDocument a d) = append_document st a d"
| "sdk_step st (AppendPage d p) = append_page st d p"
| "sdk_step st (SetContent p f) = set_content st p f"
| "sdk_step st (AppendChild f c) = append_child st f c"

inductive sdk_reachable :: "sdk_store \<Rightarrow> bool" where
  empty: "sdk_reachable []"
| step: "sdk_reachable st \<Longrightarrow> sdk_step st op = Inr st' \<Longrightarrow> sdk_reachable st'"

text \<open>A sequence of SDK calls, stopping at the first that raises.\<close>

fun sdk_run :: "sdk_store \<Rightarrow> sdk_op list \<Rightarrow> sdk_store res" where
  "sdk_run st [] = Inr st"
| "sdk_run st (op # ops) = res_bind (sdk_step st op) (\<lambda>st'. sdk_run st' ops)"

text \<open>The typing of the store: every handle held by an object is allocated and names an
  object of the class the holder expects.\<close>

fun obj_wf :: "sdk_store \<Rightarrow> sdk_obj \<Rightarrow> bool" where
  "obj_wf st (OAssembly ds) = (\<forall>d \<in> set ds. d < length st \<and> is_document (st ! d))"
| "obj_wf st (ODocument ps) = (\<forall>p \<in> set ps. p < length st \<and> is_page (st ! p))"
| "obj_wf st (OPage c) = (\<forall>f \<in> set_option c. f < length st \<and> is_fixed_page (st ! f))"
| "obj_wf st (OFixedPage w h cs) = True"

definition store_wf :: "sdk_store \<Rightarrow> bool" where
  "store_wf st = (\<forall>i < length st. obj_wf st (st ! i))"

text \<open>The class of an object, and a store that keeps the classes of an older one.\<close>

datatype sdk_class = CAssembly | CDocument | CPage | CFixedPage

fun class_of :: "sdk_obj \<Rightarrow> sdk_class" where
  "class_of (OAssembly ds) = CAssembly"
| "class_of (ODocument ps) = CDocument"
| "class_of (OPage c) = CPage"
| "class_of (OFixedPage w h cs) = CFixedPage"

definition keeps_classes :: "sdk_store \<Rightarrow> sdk_store \<Rightarrow> bool" where
  "keeps_classes st st' =
     (length st \<le> length st' \<and> (\<forall>i < length st. class_of (st' ! i) = class_of (st ! i)))"

subsection \<open>Typing of the store\<close>

lemma is_class_iff [simp]:
  "is_document x \<longleftrightarrow> class_of x = CDocument"
  "is_page x \<longleftrightarrow> class_of x = CPage"
  "is_fixed_page x \<longleftrightarrow> class_of x = CFixedPage"
  by (cases x; simp)+

lemma keeps_classes_refl [intro]: "keeps_classes st st"
  by (simp add: keeps_classes_def)

lemma keeps_classes_append [intro]: "keeps_classes st (st @ xs)"
  by (simp add: keeps_classes_def nth_append)

lemma keeps_classes_update [intro]:
  "a < length st \<Longrightarrow> class_of v = class_of (st ! a) \<Longrightarrow> keeps_classes st (st[a := v])"
  by (auto simp: keeps_classes_def nth_list_update)

lemma obj_wf_mono: "obj_wf st x \<Longrightarrow> keeps_classes st st' \<Longrightarrow> obj_wf st' x"
  by (cases x) (fastforce simp: keeps_classes_def)+

lemma store_wf_new:
  "store_wf st \<Longrightarrow> obj_wf st v \<Longrightarrow> store_wf (fst (sdk_new st v))"
  unfolding store_wf_def sdk_new_def
  by (auto simp: nth_append less_Suc_eq intro: obj_wf_mono)

lemma store_wf_update:
  assumes "store_wf st" "a < length st" "class_of v = class_of (st ! a)" "obj_wf st v"
  shows "store_wf (st[a := v])"
proof -
  have k: "keeps_classes st (st[a := v])" by (rule keeps_classes_update [OF assms(2,3)])
  show ?thesis
    unfolding store_wf_def
  proof (intro allI impI)
    fix i assume "i < length (st[a := v])"
    then show "obj_wf (st[a := v]) (st[a := v] ! i)"
      using assms(1,4) k by (cases "i = a") (auto simp: store_wf_def intro: obj_wf_mono)
  qed
qed

lemma store_wf_obj: "store_wf st \<Longrightarrow> a < length st \<Longrightarrow> obj_wf st (st ! a)"
  by (simp add: store_wf_def)

text \<open>Each SDK call keeps the store typed: it stores in a holder only a handle of the
  class the holder expects.\<close>

lemma append_document_wf:
  assumes "store_wf st" "append_document st a d = Inr st'"
  shows "store_wf st'"
proof -
  obtain ds where "a < length st" "d < length st" "is_document (st ! d)" "st ! a = OAssembly ds"
    "st' = st[a := OAssembly (ds @ [d])]"
    using assms(2) by (auto simp: append_document_def split: if_splits sdk_obj.splits)
  with store_wf_obj [OF assms(1), of a] show ?thesis
    by (auto intro!: store_wf_update [OF assms(1)] simp del: is_class_iff)
qed

lemma append_page_wf:
  assumes "store_wf st" "append_page st d p = Inr st'"
  shows "store_wf st'"
proof -
  obtain ps where "d < length st" "p < length st" "is_page (st ! p)" "st ! d = ODocument ps"
    "st' = st[d := ODocument (ps @ [p])]"
    using assms(2) by (auto simp: append_page_def split: if_splits sdk_obj.splits)
  with store_wf_obj [OF assms(1), of d] show ?thesis
    by (auto intro!: store_wf_update [OF assms(1)] simp del: is_class_iff)
qed

lemma set_content_wf:
  assumes "store_wf st" "set_content st p f = Inr st'"
  shows "store_wf st'"
proof -
  obtain c where "p < length st" "f < length st" "is_fixed_page (st ! f)" "st ! p = OPage c"
    "st' = st[p := OPage (Some f)]"
    using assms(2) by (auto simp: set_content_def split: if_splits sdk_obj.splits)
  then show ?thesis
    by (auto intro!: store_wf_update [OF assms(1)] simp del: is_class_iff)
qed

lemma append_child_wf:
  assumes "store_wf st" "append_child st f c = Inr st'"
  shows "store_wf st'"
proof -
  obtain w h cs where "f < length st" "st ! f = OFixedPage w h cs"
    "st' = st[f := OFixedPage w h (cs @ [c])]"
    using assms(2) by (auto simp: append_child_def split: if_splits sdk_obj.splits)
  then show ?thesis by (auto intro!: store_wf_update [OF assms(1)])
qed

lemma sdk_step_store_wf:
  "store_wf st \<Longrightarrow> sdk_step st op = Inr st' \<Longrightarrow> store_wf st'"
  by (cases op)
     (auto intro: store_wf_new append_document_wf append_page_wf set_content_wf append_child_wf)

lemma sdk_reachable_wf: "sdk_reachable st \<Longrightarrow> store_wf st"
proof (induction rule: sdk_reachable.induct)
  case empty
  show ?case by (simp add: store_wf_def)
next
  case (step st op st')
  show ?case using step.IH step.hyps(2) by (rule sdk_step_store_wf)
qed

subsection \<open>Resolution\<close>

lemma res_map_Inr_Nil [simp]: "res_map f xs = Inr [] \<longleftrightarrow> xs = []"
  by (cases xs) (auto simp: res_bind_Inr_iff)

lemma res_map_Inr_Cons:
  "res_map f xs = Inr (y # ys) \<longleftrightarrow> (\<exists>x xs'. xs = x # xs' \<and> f x = Inr y \<and> res_map f xs' = Inr ys)"
  by (cases xs) (auto simp: res_bind_Inr_iff)

lemma res_map_total: "(\<forall>x \<in> set xs. \<exists>y. f x = Inr y) \<Longrightarrow> \<exists>ys. res_map f xs = Inr ys"
  by (induction xs) auto

lemma res_map_mono:
  "res_map f xs = Inr ys \<Longrightarrow> (\<And>x y. x \<in> set xs \<Longrightarrow> f x = Inr y \<Longrightarrow> g x = Inr y) \<Longrightarrow>
   res_map g xs = Inr ys"
  by (induction xs arbitrary: ys) (auto simp: res_bind_Inr_iff)

lemma resolve_page_wf:
  "store_wf st \<Longrightarrow> p < length st \<Longrightarrow> is_page (st ! p) \<Longrightarrow> \<exists>v. resolve_page st p = Inr v"
  by (drule store_wf_obj [of _ p]) (auto simp: resolve_page_def split: sdk_obj.splits option.splits)

lemma resolve_document_wf:
  assumes "store_wf st" "d < length st" "is_document (st ! d)"
  shows "\<exists>v. resolve_document st d = Inr v"
proof -
  obtain ps where "st ! d = ODocument ps" using assms(3) by (cases "st ! d") auto
  with store_wf_obj [OF assms(1,2)] resolve_page_wf [OF assms(1)] assms(2) show ?thesis
    by (auto simp: resolve_document_def intro!: res_map_total simp del: is_class_iff)
qed

lemma resolve_assembly_wf:
  assumes "store_wf st" "a < length st" "st ! a = OAssembly ds"
  shows "\<exists>v. resolve_assembly st a = Inr v"
  using store_wf_obj [OF assms(1,2)] resolve_document_wf [OF assms(1)] assms(2,3)
  by (auto simp: resolve_assembly_def intro!: res_map_total simp del: is_class_iff)

text \<open>Allocating more objects leaves what an old handle resolves to unchanged.\<close>

lemma resolve_page_append:
  "resolve_page st p = Inr v \<Longrightarrow> resolve_page (st @ xs) p = Inr v"
  by (auto simp: resolve_page_def nth_append split: if_splits sdk_obj.splits option.splits)

lemma resolve_document_append:
  "resolve_document st d = Inr v \<Longrightarrow> resolve_document (st @ xs) d = Inr v"
  by (auto simp: resolve_document_def nth_append split: if_splits sdk_obj.splits
           elim!: res_map_mono intro: resolve_page_append)

subsection \<open>Loading and resolving\<close>

lemma load_page_ok:
  "(\<exists>xs. fst (load_page st pv) = st @ xs) \<and>
   resolve_page (fst (load_page st pv)) (snd (load_page st pv)) = Inr pv"
  by (auto simp: load_page_def sdk_new_def resolve_page_def nth_append split: option.splits)

lemma load_list_ok:
  assumes ext: "\<And>st x. \<exists>xs. fst (ld st x) = st @ xs"
    and res: "\<And>st x. R (fst (ld st x)) (snd (ld st x)) = Inr x"
    and mono: "\<And>st xs h v. R st h = Inr v \<Longrightarrow> R (st @ xs) h = Inr v"
  shows "(\<exists>ys. fst (load_list ld st xs) = st @ ys) \<and>
         res_map (R (fst (load_list ld st xs))) (snd (load_list ld st xs)) = Inr xs"
proof (induction xs arbitrary: st)
  case (Cons x xs)
  obtain st1 h where l: "ld st x = (st1, h)" by fastforce
  obtain ys where st1: "st1 = st @ ys" using ext [of st x] l by auto
  obtain zs where st2: "fst (load_list ld st1 xs) = st1 @ zs"
    and r: "res_map (R (fst (load_list ld st1 xs))) (snd (load_list ld st1 xs)) = Inr xs"
    using Cons.IH [of st1] by blast
  have "R (fst (load_list ld st1 xs)) h = Inr x"
    using res [of st x] l st2 mono by simp
  with st1 st2 r show ?case by (simp add: l split_def)
qed simp

lemma load_document_ok:
  "(\<exists>xs. fst (load_document st ps) = st @ xs) \<and>
   resolve_document (fst (load_document st ps)) (snd (load_document st ps)) = Inr ps"
proof -
  obtain st1 hs where l: "load_list load_page st ps = (st1, hs)" by fastforce
  have "(\<exists>ys. st1 = st @ ys) \<and> res_map (resolve_page st1) hs = Inr ps"
    using load_list_ok [of load_page resolve_page st ps] load_page_ok resolve_page_append l by simp
  then show ?thesis
    by (auto simp: load_document_def sdk_new_def resolve_document_def l
             elim!: res_map_mono intro: resolve_page_append)
qed

lemma load_assembly_ok:
  "resolve_assembly (fst (load_assembly st ds)) (snd (load_assembly st ds)) = Inr ds"
proof -
  obtain st1 hs where l: "load_list load_document st ds = (st1, hs)" by fastforce
  have "res_map (resolve_document st1) hs = Inr ds"
    using load_list_ok [of load_document resolve_document st ds] load_document_ok
      resolve_document_append l by simp
  then show ?thesis
    by (auto simp: load_assembly_def sdk_new_def resolve_assembly_def l
             elim!: res_map_mono intro: resolve_document_append)
qed

lemma sdk_run_reachable:
  "sdk_reachable st \<Longrightarrow> sdk_run st ops = Inr st' \<Longrightarrow> sdk_reachable st'"
  by (induction ops arbitrary: st) (auto simp: res_bind_Inr_iff intro: sdk_reachable.step)

text \<open>What \<open>OpenPdf\<close> does on a store in which the opened assembly resolves to \<open>ds\<close>:
  it raises where the first document or its first page is missing.\<close>

lemma open_steps:
  assumes "resolve_assembly st a = Inr ds"
  shows "res_bind (get_document st a) (\<lambda>d. res_bind (document_get_page st d 0) (\<lambda>p.
           res_bind (page_edit st p) (\<lambda>f. k))) =
         (case ds of
            [] \<Rightarrow> Inl (MakoException ''getDocument'')
          | [] # _ \<Rightarrow> Inl (MakoException ''getPage'')
          | (None # _) # _ \<Rightarrow> Inl (MakoException ''edit'')
          | (Some c # _) # _ \<Rightarrow> k)"
proof -
  obtain hs where a: "a < length st" "st ! a = OAssembly hs" "res_map (resolve_document st) hs = Inr ds"
    using assms by (auto simp: resolve_assembly_def split: if_splits sdk_obj.splits)
  show ?thesis
  proof (cases ds)
    case Nil
    with a show ?thesis by (simp add: get_document_def)
  next
    case (Cons d0 ds')
    then obtain h hs' where h: "hs = h # hs'" "resolve_document st h = Inr d0"
      using a(3) by (auto simp: res_map_Inr_Cons)
    then obtain ps where p: "h < length st" "st ! h = ODocument ps" "res_map (resolve_page st) ps = Inr d0"
      by (auto simp: resolve_document_def split: if_splits sdk_obj.splits)
    show ?thesis
    proof (cases d0)
      case Nil
      with Cons a h p show ?thesis by (simp add: get_document_def document_get_page_def)
    next
      case (Cons p0 rest)
      then obtain q qs where q: "ps = q # qs" "resolve_page st q = Inr p0"
        using p(3) by (auto simp: res_map_Inr_Cons)
      with \<open>ds = d0 # ds'\<close> Cons a h p show ?thesis
        by (auto simp: get_document_def document_get_page_def page_edit_def resolve_page_def
                 split: if_splits sdk_obj.splits option.splits)
    qed
  qed
qed

subsection \<open>Properties of the document-assembly scripts\<close>

text \<open>The SDK calls keep the object store typed: in every store the calls can build,
  each handle an assembly, document or page holds is allocated and names a document, page
  or fixed page respectively; so \<open>writeAssembly\<close> can read every assembly of such a store
  without an AttributeError.\<close>

theorem sdk_reachable_typed:
  assumes "sdk_reachable st"
  shows "store_wf st \<and>
         (\<forall>a < length st. \<forall>ds. st ! a = OAssembly ds \<longrightarrow> (\<exists>v. resolve_assembly st a = Inr v))"
  using sdk_reachable_wf [OF assms] resolve_assembly_wf by blast

theorem sdk_reachable_typed_witness:
  "sdk_reachable [OAssembly [1], ODocument [2], OPage (Some 3), OFixedPage 10 20 []] \<and>
   (\<exists>v. resolve_assembly [OAssembly [1], ODocument [2], OPage (Some 3), OFixedPage 10 20 []] 0 = Inr v)"
proof -
  have r: "sdk_reachable [OAssembly [1], ODocument [2], OPage (Some 3), OFixedPage 10 20 []]"
    by (rule sdk_run_reachable [OF sdk_reachable.empty,
          of "[NewAssembly, NewDocument, NewPage, NewFixedPage 10 20,
               AppendDocument 0 1, AppendPage 1 2, SetContent 2 3]"])
       (simp add: sdk_new_def append_document_def append_page_def set_content_def)
  show ?thesis using sdk_reachable_typed [OF r] r by simp
qed

text \<open>\<open>OpenPdf\<close> writes back exactly the assembly it opened, when the first document
  has a first page with content; it raises on an empty assembly (\<open>getDocument\<close>), an
  empty first document (\<open>getPage(0)\<close>) and a first page without content (\<open>edit\<close>).\<close>

theorem open_pdf_roundtrip:
  "open_pdf_main dir_path ds =
     (case ds of
        [] \<Rightarrow> Inl (MakoException ''getDocument'')
      | [] # _ \<Rightarrow> Inl (MakoException ''getPage'')
      | (None # _) # _ \<Rightarrow> Inl (MakoException ''edit'')
      | (Some c # _) # _ \<Rightarrow> Inr (dir_path @ ''/TestPython.pdf'', ds))"
proof -
  obtain st a where l: "load_assembly [] ds = (st, a)" by fastforce
  then have r: "resolve_assembly st a = Inr ds" using load_assembly_ok [of "[]" ds] by simp
  show ?thesis
    by (simp add: open_pdf_main_def l r open_steps [OF r] split: list.split option.split)
qed

text \<open>C13: \<open>CreatePdf\<close>, \<open>AddImageToPdf\<close> and \<open>GettingStarted\<close> each write one document of
  one page holding what the script put on its fixed page, although the document is appended
  to the assembly before it has a page and the page is appended before it has content: the
  objects are shared, and the file holds their state at the time of writing. The image is
  its pixel size at the origin; the message is blue, 72 units high, at (10, 280.55).\<close>

theorem assembly_scripts_write:
  "create_pdf_main dir_path (w, h) = Inr (dir_path @ ''/TestPython.pdf'', [[Some (w, h, [])]]) \<and>
   add_image_main decode dir_path (w, h) =
     (case decode (''TestFiles'' @ [CHR 0x5C] @ ''makologo.png'') of
        None \<Rightarrow> Inl (MakoException ''IDOMPNGImage.create'')
      | Some (iw, ih) \<Rightarrow> Inr (dir_path @ ''/TestPython.pdf'',
          [[Some (w, h, [ImageNode (''TestFiles'' @ [CHR 0x5C] @ ''makologo.png'')
                           \<lparr>box_x = 0, box_y = 0, box_dX = real iw, box_dY = real ih\<rparr>])]])) \<and>
   getting_started_main ff dir_path =
     (case ff ''Arial Bold'' of
        None \<Rightarrow> Inl (MakoException ''findFont'')
      | Some font \<Rightarrow> Inr (dir_path @ ''/TestPython.pdf'',
          [[Some (793.7, 561.1, [GlyphsNode ''Mako Python API'' 72 10 280.55 [0, 0, 1] (fst font)])]]))"
  by (simp add: create_pdf_main_def add_image_main_def getting_started_main_def dom_color_def
        sdk_new_def append_document_def append_page_def set_content_def append_child_def
        resolve_assembly_def resolve_document_def resolve_page_def
        split: option.split prod.split)

end
