(* ===== verification/Spec2Isabelle.thy ===== *)
theory Spec2Isabelle
  imports SpotMergePage PartialImage ProgressMonitoring Shapes TextTransform WalkTree
    OptionalContent Layout OutputIntent Glue Assembly
begin

text \<open>
  \<^bold>\<open>A verification library for the Mako Python sample projects.\<close>

  The repository is a set of sample scripts over the Mako document SDK. Two of them carry
  the raster-imaging logic the spec describes: \<open>OverprintSimulation/custom_spot_merge.py\<close>
  renders a page into per-ink separation planes and merges the spot planes into the CMYK
  process planes (the ink compositor), and \<open>GetPartialImage/main.py\<close> extracts a
  rectangle of an image by streaming its scanlines (the scanline pipeline).
  \<open>RenderSeparationsToFrameBuffers\<close> chooses the inks to render and writes the planes
  out row by row. The other scripts assemble documents through SDK calls.

  \<^bold>\<open>Layout.\<close> \<open>Prelude\<close> is imported by every component theory; \<open>SpotMergePage\<close>
  imports \<open>Compositor\<close> and \<open>Separations\<close>, because the spot-merge page loop drives the
  same renderer interface (\<open>raster_env\<close>, \<open>render_to_frame_buffers\<close>) as the separation
  front end and then runs the compositor's merge on what it rendered; \<open>OutputIntent\<close>
  imports \<open>Layout\<close>, whose paragraph, run and frame types and image dispatch it shares.
  \<^item> \<open>Prelude\<close>: the Python primitives the scripts rely on, as total functions with
    explicit errors: \<open>py_get\<close>/\<open>py_set\<close> (list and bytearray indexing, IndexError),
    \<open>py_byte\<close> (bytearray stores, ValueError outside 0..255), \<open>py_bytearray\<close>
    (\<open>bytearray(n)\<close>), \<open>py_slice\<close> (clamped slices), \<open>py_int\<close> (\<open>int()\<close> on floats,
    truncation), \<open>py_round\<close> (round half to even), \<open>py_find\<close>/\<open>py_rfind\<close>
    (\<open>str.find\<close>), \<open>py_lower\<close>, \<open>py_split_last\<close>, \<open>py_str_nat\<close>, the
    \<open>posixpath\<close> functions \<open>py_basename\<close>, \<open>py_splitext_root\<close>/\<open>py_splitext_ext\<close>,
    \<open>py_join\<close>, the SDK's rectangle \<open>box\<close> (\<open>FRect\<close>), and \<open>res_bind\<close>, which
    sequences statements of type \<open>py_error + 'a\<close> so that the first exception propagates. Floats are \<open>real\<close>: the model computes exactly, so IEEE rounding
    is not modelled.
  \<^item> \<open>Compositor\<close> (\<open>custom_spot_merge.py\<close>, lines 103--129): \<open>spot_value\<close>,
    \<open>spot_step\<close> are one blend step and the byte store; \<open>spot_loop\<close>,
    \<open>chan_loop\<close>, \<open>pixel_loop\<close>, \<open>row_loop\<close> are the four nested \<open>for\<close>
    loops over spots, channels, pixels and rows, threading the reused \<open>scanline\<close>
    bytearray and the list of scanlines given to \<open>frame_writer.writeScanLine\<close>;
    \<open>merge_spots\<close> is the whole merge. \<open>merge_pixel\<close>, \<open>merged_rows\<close> and
    \<open>interleave\<close> are the reference definitions (one fold per pixel, the
    \<open>x * num_process + c\<close> byte layout); \<open>exact_blend\<close> is the unrounded blend of the
    spec.
  \<^item> \<open>SpotMergePage\<close> (\<open>custom_spot_merge.py\<close>, lines 21--151): \<open>merge_page\<close> is one
    page (raster size at 150 dpi, \<open>page_buffers\<close>, the renderer call, the component
    vectors, the merge, and the raster output assembler: the merged scanlines written to
    the raw image writer of \<open>PartialImage\<close>, \<open>create_writer_and_image\<close> and
    \<open>write_scanline\<close>), \<open>page_loop_merge\<close>/\<open>custom_spot_merge\<close> the page loop with
    \<open>sys.exit(1)\<close> on the first exception; \<open>page_job\<close> is the merge job the
    specification describes for a page, \<open>merged_image\<close> the interleaved image spec
    section 4.4 promises for it, and \<open>image_channel\<close> what an encoder reads back as one
    channel of an interleaved image.
  \<^item> \<open>PartialImage\<close> (\<open>GetPartialImage/main.py\<close>, \<open>get_partial_image\<close>, lines
    48--119): \<open>normalise_depth\<close> is the bit-depth branch (lines 55--73), \<open>copy_rows\<close>
    the copy loop with its reused row buffers (lines 105--116), \<open>get_partial_image\<close> the
    whole function. The source frame is a record whose field \<open>fr_pos\<close> is the
    forward-only scanline cursor. The SDK calls are modelled from the spec:
    \<open>skip_scanlines\<close>, \<open>read_scanline\<close> (an exception past the last row),
    \<open>bit_scale\<close> (the bit scaler filter), \<open>contains_rect\<close>, and
    \<open>create_writer_and_image\<close>/\<open>write_scanline\<close>. The written image is its byte
    stream in the temporary store (LZ4 is a bijection on it and is left out), and
    \<open>sub_image_rows\<close> reads it back. \<open>partial_image_main\<close> is \<open>main\<close> (lines 18--45),
    which extracts the kayak rectangle and encodes it; it does not test for the null image.
  \<^item> \<open>Separations\<close> (\<open>RenderSeparationsToFrameBuffers/render_separations_to_frame_buffers.py\<close>,
    \<open>main\<close>): \<open>parse_args\<close> (lines 22--33), \<open>pixel_size\<close> (lines 47--50),
    \<open>classify_inks\<close>/\<open>ink_selection\<close> (the ink loop, lines 57--71, with
    \<open>str.find\<close> as \<open>py_find\<close>), \<open>regular_loop\<close> (lines 96--101),
    \<open>make_frame_buffers\<close> (lines 104--117), \<open>buffer_rows\<close>/\<open>fb_outputs\<close>
    (lines 141--167), \<open>sep_render\<close> (the body of the \<open>try\<close>, lines 35--167) and
    \<open>sep_main\<close>, the whole function with its handlers, returning the exit value and
    the list of TIFF paths with the rows each receives. The page and the rasteriser are the
    SDK collaborators of spec section 6: \<open>raster_env\<close> gives the process colorants and
    the plane of each ink; \<open>render_separations\<close> and \<open>render_to_frame_buffers\<close>
    (with \<open>fb_write\<close>, row \<open>y\<close> at \<open>bufferOfs + y * rowStride\<close>) are modelled
    from spec section 4.1. The Python path functions (\<open>basename\<close>, \<open>splitext\<close>,
    \<open>join\<close>) are in the prelude.
  \<^item> \<open>ProgressMonitoring\<close> (\<open>ProgressMonitoring/progress_monitoring.py\<close>):
    \<open>format_from_path\<close> (lines 35--51), \<open>make_params\<close> (\<open>ConverterParams\<close>),
    \<open>tick\<close> (\<open>ProgressHandler.tick\<close>), \<open>handle_event\<close> (the callback's
    \<open>handleEvent\<close>, lines 75--102) over the record \<open>pe_state\<close> of its four fields,
    with \<open>pe_reachable\<close> the inductive set of its reachable states and \<open>balanced\<close>
    the properly nested node-event sequences; \<open>page_loop\<close> and \<open>doc_loop\<close> are the
    two \<open>while\<close> loops of \<open>output_iterate_by_page\<close> (lines 117--163), as
    \<open>function\<close>s with measures \<open>1 - page_index\<close> and \<open>length assembly - doc_no\<close>;
    \<open>pm_main\<close> is \<open>main\<close>. Printed lines are values of \<open>pm_msg\<close>. The SDK side
    is what the script relies on: documents are page lists, the three transforms one page
    function, and writing a page raises \<open>PageWriteStart\<close>, the page's node events and
    \<open>PageWriteEnd\<close>.
  \<^item> \<open>Shapes\<close> (\<open>CreateShapes/spot_color_shapes.py\<close> and
    \<open>CreateColorsAndShapes/spot_color_shapes.py\<close>): \<open>create_target\<close> with its loop
    \<open>target_loop\<close>, the two \<open>create_geometry\<close>s, \<open>row_loop_shapes\<close> (the loop of
    \<open>draw_row\<close>, with \<open>draw_row_shapes\<close>/\<open>draw_row_colors\<close> the two versions),
    the colour constructors and the two \<open>main\<close>s (\<open>main_shapes\<close>, \<open>main_colors\<close>);
    the ICC profile file and the \<open>CEDLVectDouble\<close> binding are parameters of
    \<open>main_colors\<close>. Geometries the SDK builds from a box are constructors.
  \<^item> \<open>TextTransform\<close> (\<open>CustomTextTransform/custom_text_transform.py\<close>):
    \<open>transform_glyphs\<close> (\<open>transformGlyphs\<close>), \<open>transform_node\<close> (the SDK's walk
    over the page tree), \<open>transform_page\<close> and \<open>tt_main\<close>.
  \<^item> \<open>WalkTree\<close> (\<open>WalkTreeExample/walk_tree_example.py\<close>): the page is a tree
    \<open>dtree\<close> laid out by \<open>flat\<close> in a node store (a list indexed by node id holding
    the type and the parent id, as \<open>getParentNode\<close> sees it); \<open>parent_walk\<close> is the
    parent loop of \<open>dump_node_info\<close> (lines 24--27), \<open>type_map\<close>/\<open>type_name\<close>
    the dictionary lookup, \<open>walk_output\<close> the callback over the walk and
    \<open>walk_tree_main\<close> \<open>main\<close>.
  \<^item> \<open>OptionalContent\<close> (\<open>OptionalContentSearch/main.py\<close>): \<open>add_refs\<close> and
    \<open>oc_transform_group\<close> are \<open>transformGroup\<close> with the generic descent into the
    children, \<open>oc_page_loop\<close> the page loop with its \<open>reset()\<close>, \<open>oc_main\<close>
    \<open>main\<close>; \<open>dedup\<close>/\<open>extend\<close> are the reference (first occurrences in order).
  \<^item> \<open>Layout\<close> (\<open>ILayoutExample/main.py\<close>): \<open>font_loop\<close> and
    \<open>get_open_type_font\<close> (the font lookup and its Arial fallback), \<open>get_image\<close>,
    \<open>draw_frame\<close>, \<open>add_frame\<close>, \<open>create_paragraph\<close>, \<open>layout_frames\<close>,
    \<open>body_loop\<close>, \<open>ilayout_body\<close> and \<open>ilayout_main\<close>. The SDK's font lookup and
    image decoders are parameters; paragraphs are records of what the script sets on them.
  \<^item> \<open>OutputIntent\<close> (\<open>SaveWithOutputIntent/save_with_output_intent.py\<close>, imports
    \<open>Layout\<close>): \<open>swoi_get_image\<close>, \<open>profiles\<close>, \<open>swoi_body\<close> (the page, the
    paragraphs, the image and the profile), \<open>swoi_write\<close> (the two writes and the
    read-back checks) and \<open>swoi_main\<close>. A written
    file is recorded with its output intents and read back as such.
  \<^item> \<open>Glue\<close>: \<open>page_insert_main\<close> (\<open>PageInsert/main.py\<close>), \<open>om_page\<close>/\<open>om_main\<close>
    (\<open>OverprintMethods.py\<close>, the path loop over the addresses \<open>find_paths\<close> returns,
    applied in place by \<open>upd_node\<close>), \<open>apex_spec\<close>/\<open>apex_main\<close>
    (\<open>ApexGettingStarted.py\<close>) and \<open>recolor_filters\<close>, \<open>image_bounds\<close>,
    \<open>rc_make_separation_color\<close> (its \<open>make_separation_color\<close>), \<open>recolor_main\<close> (\<open>recolor_image_with_spot.py\<close>).
  \<^item> \<open>Assembly\<close>: the document-assembly scripts \<open>CreatePdf/main.py\<close>
    (\<open>create_pdf_main\<close>), \<open>AddImageToPdf/AddImageToPdf.py\<close> (\<open>add_image_main\<close>),
    \<open>GettingStarted/getting_started.py\<close> (\<open>getting_started_main\<close>) and
    \<open>OpenPdf/main.py\<close> (\<open>open_pdf_main\<close>). The SDK objects they create are shared and
    mutated after being linked (a document is appended to the assembly before it has
    pages), so the state is an explicit store \<open>sdk_store\<close>, a list of objects indexed by
    handle; \<open>sdk_new\<close> is the \<open>create\<close> calls, \<open>append_document\<close>,
    \<open>append_page\<close>, \<open>set_content\<close>, \<open>append_child\<close> the mutating calls (an
    AttributeError on an object of the wrong class), \<open>resolve_assembly\<close> what
    \<open>writeAssembly\<close> reads, \<open>load_assembly\<close> what \<open>IInput.open\<close> allocates, and
    \<open>get_document\<close>, \<open>document_get_page\<close>, \<open>page_edit\<close> the accessors. \<open>sdk_step\<close> is one
    call of a datatype of operations and \<open>sdk_reachable\<close> the stores the calls build.

  \<^bold>\<open>Loops and termination.\<close> Every \<open>for\<close> loop over \<open>range(n)\<close> is structural
  recursion over the list \<open>[0..<n]\<close> (or over the data it walks); the two \<open>while\<close>
  loops of \<open>output_iterate_by_page\<close> and the sample chunking of the bit scaler are
  \<open>function\<close>s with explicit measures. The one loop that need not end, the parent loop
  of \<open>dump_node_info\<close>, is \<open>partial_function (option)\<close>: its value is \<open>None\<close> where
  it runs forever. It is proved to return, with the exact depth, on every store whose
  parent ids decrease (\<open>WalkTree.dump_node_info_terminates\<close>, by induction along
  \<open>anc_depth\<close>), and to run forever on a parent cycle (by fixpoint induction). No fuel
  is used anywhere: each theorem that a script returns states the result it returns.

  \<^bold>\<open>What is proved.\<close>
  The loop nest refines the reference definition and raises nothing on well-formed planes
  with components in [0, 1] (\<open>Compositor.merge_spots_correct\<close>); with no spots it copies the
  process planes (\<open>Compositor.merge_spots_identity\<close>); a merge never lightens a channel;
  the exact blend is independent of spot order, and the rounded merge stays within
  \<open>k/2\<close> levels of it for \<open>k\<close> spots, so spot order can move a byte by more than the
  one level spec section 8 allows (reversing three spots moves one by two levels, and the
  spec's own scenario evaluates to 178, not 196, as two computed lemmas show). A component
  above 1 whose first blend leaves the byte range makes the merge raise ValueError
  (\<open>Compositor.merge_spots_component_out_of_range\<close>): the store does not clamp.
  For the partial image: on a fresh well-formed frame and a rectangle inside it the
  function returns the rows \<open>y..y+dY-1\<close> sliced at \<open>[x*bpp, (x+dX)*bpp)\<close> of the
  depth-normalised frame (\<open>PartialImage.get_partial_image_extracts\<close>), the whole image
  round-trips, a 1-bit source yields only bytes 0 and 255, the copy loop moves the cursor
  forward one row per iteration and never changes the source, and a rectangle outside the
  image gives the null image.
  For the separation renderer: ink selection is characterised as substring search with the
  ignore list taking precedence (\<open>Separations.ink_selection_by_substring\<close>); both output
  modes return 0 and write, per component name, exactly the plane of that ink, so they
  agree byte for byte (\<open>Separations.sep_main_modes_agree\<close>); bad arguments give -1
  with no output; the raster size is within half a pixel of six pixels per point. Three facts contradict the spec or the intent: a requested ink absent
  from the page is dropped silently instead of failing, inks are matched by substring, and
  the frame buffers are eight times larger than what is written and read (depth in bits
  used as bytes).
  For the progress monitor: every reachable callback state satisfies the stack invariant
  (rule induction over \<open>pe_reachable\<close>); a properly nested page prints no mismatch, and
  the depth mismatch is printed exactly when starts and ends differ in number; the
  conversion loop writes only the first page of each document (\<open>while page_index < 1\<close>),
  so it writes all pages only when every document has one page, and a document without
  pages aborts the conversion; known extensions map to their format in any letter case,
  and bad arguments give exit code 1 before anything is opened.
  For the spot-merge page loop: on well-formed pages every page is written from the
  interleaved image assembled out of the reference merge of its rendered planes, and each
  channel read back out of that image is the reference merge of that channel
  (\<open>SpotMergePage.custom_spot_merge_pages\<close>: renderer, compositor and assembler composed),
  and a spot with fewer than four components stops the script with status 1.
  For the shapes: \<open>CreateColorsAndShapes\<close> never writes its PDF, and the exception
  that ends it is determined (the profile, a set-literal vector, or else the default
  \<open>lines = 0\<close> reaching \<open>2 * pi / n_lines\<close>); \<open>CreateShapes\<close> writes forty path
  nodes, the star's spokes are the closed form \<open>rotation + i * 360 / n\<close>, and the
  \<open>All\<close> colour built from a Python set literal has one representation value.
  The text transform's \<open>main\<close> repaints exactly the black glyph runs and leaves the
  structure and every other fill unchanged (\<open>TextTransform.tt_main_repaints_black_text\<close>);
  it is idempotent.
  For the tree walk: \<open>main\<close> prints the outline of the first page, one line per node
  indented by its depth (\<open>WalkTree.walk_tree_main_prints_outline\<close>); the parent loop
  terminates, with the depth as indentation, on every store whose parent ids decrease,
  which every store the walk lays out does; on a parent cycle it would not return. For the optional-content search:
  the found list never holds a group twice, and \<open>main\<close> reports per page exactly the
  groups that page references, in first-reference order
  (\<open>OptionalContent.oc_main_reports_pages\<close>). For the layout samples: the paragraph
  block \<open>main\<close> builds, the four frames not overlapping, \<open>get_image\<close> keeping the
  aspect ratio, and the Arial fallback aborting the font lookup before later candidates are
  tried; \<open>SaveWithOutputIntent\<close> writes one and three intents, all embedding the Probe
  profile, with a frame that overruns its 250 mm page by 35 mm. For the glue:
  \<open>PageInsert\<close> dies with IndexError when given two arguments, the overprint loop
  equals the structural transform (\<open>Glue.om_page_overprints_all\<close>), and the recolour
  script converts to gray exactly when the PNG has other than one component, so the mask
  always has one. For the assembly scripts: every store the SDK calls can build is typed
  (rule induction over \<open>sdk_reachable\<close>), so writing any of its assemblies succeeds;
  \<open>CreatePdf\<close>, \<open>AddImageToPdf\<close> and \<open>GettingStarted\<close> write one page holding exactly what they put
  on it, despite linking objects before filling them; \<open>OpenPdf\<close> writes back the
  assembly it opened (from the round trip of the SDK model's load and write)
  and raises on an empty assembly, an empty first document or a page without content.

  \<^bold>\<open>Not modelled.\<close> The SDK itself (PDF parsing and writing, rendering, colour
  conversion, image codecs, fonts, text layout), which the scripts only call: its
  behaviour enters the model only through the interfaces above, each stated where it is
  used. In the assembly store, the DOM content of a page is the list of the children the
  scripts append (glyph runs and image nodes with the arguments they are created with);
  fonts, brushes and images are represented by what the scripts pass, not by SDK objects,
  and \<open>IJawsMako.create\<close>/\<open>enableAllFeatures\<close> have no observable effect; the
  store operations model the SDK methods the scripts call and are taken from the spec and
  the SDK's documented behaviour, not from code under \<open>src/\<close>. Numeric approximations:
  floats are exact reals, so the single-precision \<open>CEDLVectFloat\<close> of the spot components
  (\<open>build_components\<close>) is read as the exact value; rectangles of \<open>GetPartialImage\<close>
  have integer fields (the sample truncates with \<open>int()\<close>). \<open>swoi_get_image\<close> checks
  only that the file exists: a decoder failing on an existing file is not modelled. Timing
  (\<open>time.time()\<close> in \<open>PageInsert\<close>) and console formatting beyond the lines' content are
  left out.
\<close>

end
